(* ===== verification/AEE_Prelude.thy ===== *)
theory AEE_Prelude
  imports Complex_Main "HOL-Library.AList" "HOL-Library.Sublist"
begin

text \<open>
  Shared vocabulary of the AEE development: the Python idioms the sources use on
  lists, dicts, optional strings and floats, written once as HOL definitions with
  the lemmas every component proof needs.
  \<^item> \<open>list_append_new\<close> is the idiom \<^verbatim>\<open>if x not in xs: xs.append(x)\<close> that the
    linker and every bias heuristic use to keep id lists and flag lists duplicate-free;
  \<^item> \<open>py_truthy\<close> is Python truthiness of an \<^verbatim>\<open>Optional[str]\<close> (\<^verbatim>\<open>None\<close> and
    \<^verbatim>\<open>''\<close> are false);
  \<^item> \<open>py_strip\<close> is \<^verbatim>\<open>str.strip()\<close> on ASCII whitespace;
  \<^item> \<open>py_dict_literal\<close> and \<open>py_setdefault\<close> model a dict literal (later duplicate
    keys overwrite the value but keep the first key's position) and
    \<^verbatim>\<open>dict.setdefault\<close> over association lists in insertion order;
  \<^item> \<open>py_clamp\<close> is \<^verbatim>\<open>max(lo, min(hi, x))\<close>;
  \<^item> \<open>py_lower\<close> is \<^verbatim>\<open>str.lower()\<close> on ASCII letters and \<open>py_in\<close> the substring
    test \<^verbatim>\<open>needle in haystack\<close> (HOL-Library's contiguous \<open>sublist\<close>).
  Python floats are modelled as \<open>real\<close>: rounding is not modelled.
\<close>

named_theorems aee_simps "rewrite rules shared by the component proofs"

type_synonym prop_id = string
type_synonym label = string
type_synonym 'v py_dict = "(string \<times> 'v) list"

definition list_append_new :: "'a \<Rightarrow> 'a list \<Rightarrow> 'a list" where
  "list_append_new x xs = (if x \<in> set xs then xs else xs @ [x])"

fun py_truthy :: "string option \<Rightarrow> bool" where
  "py_truthy None = False"
| "py_truthy (Some s) = (s \<noteq> [])"

definition py_isspace :: "char \<Rightarrow> bool" where
  "py_isspace c \<longleftrightarrow> c = CHR '' '' \<or> ((9::nat) \<le> of_char c \<and> of_char c \<le> (13::nat))"

definition py_strip :: "string \<Rightarrow> string" where
  "py_strip s = rev (dropWhile py_isspace (rev (dropWhile py_isspace s)))"

definition py_dict_literal :: "('k \<times> 'v) list \<Rightarrow> ('k \<times> 'v) list" where
  "py_dict_literal ps = fold (\<lambda>(k, v) d. AList.update k v d) ps []"

definition py_setdefault :: "'k \<Rightarrow> 'v \<Rightarrow> ('k \<times> 'v) list \<Rightarrow> ('k \<times> 'v) list" where
  "py_setdefault k v d = (if map_of d k = None then AList.update k v d else d)"

definition py_clamp :: "real \<Rightarrow> real \<Rightarrow> real \<Rightarrow> real" where
  "py_clamp lo hi x = max lo (min hi x)"

definition py_lower :: "string \<Rightarrow> string" where
  "py_lower s = map (\<lambda>c. let n = (of_char c :: nat) in if 65 \<le> n \<and> n \<le> 90 then char_of (n + 32) else c) s"

definition py_in :: "string \<Rightarrow> string \<Rightarrow> bool" where
  "py_in needle haystack \<longleftrightarrow> sublist needle haystack"

subsection \<open>Appending an absent element\<close>

lemma set_list_append_new [simp, aee_simps]:
  "set (list_append_new x xs) = insert x (set xs)"
  by (auto simp: list_append_new_def)

lemma distinct_list_append_new [simp, aee_simps]:
  "distinct (list_append_new x xs) = distinct xs"
  by (simp add: list_append_new_def)

lemma list_append_new_present [simp]:
  "x \<in> set xs \<Longrightarrow> list_append_new x xs = xs"
  by (simp add: list_append_new_def)

lemma list_append_new_nonempty [simp]: "list_append_new x xs \<noteq> []"
  by (auto simp: list_append_new_def)

lemma prefix_list_append_new: "\<exists>ys. list_append_new x xs = xs @ ys"
  by (auto simp: list_append_new_def)

subsection \<open>Dicts as association lists in insertion order\<close>

lemma distinct_fold_update:
  "distinct (map fst d) \<Longrightarrow> distinct (map fst (fold (\<lambda>(k, v) d. AList.update k v d) ps d))"
  by (induction ps arbitrary: d) (auto simp: distinct_update)

lemma map_of_fold_update:
  "map_of (fold (\<lambda>(k, v) d. AList.update k v d) ps d) = map_of d ++ map_of (rev ps)"
  by (induction ps arbitrary: d) (auto simp: update_conv' map_add_def fun_eq_iff split: option.splits)

lemma distinct_py_dict_literal [aee_simps]: "distinct (map fst (py_dict_literal ps))"
  by (simp add: py_dict_literal_def distinct_fold_update)

lemma map_of_py_dict_literal [aee_simps]: "map_of (py_dict_literal ps) = map_of (rev ps)"
  by (simp add: py_dict_literal_def map_of_fold_update)

lemma distinct_py_setdefault [aee_simps]:
  "distinct (map fst d) \<Longrightarrow> distinct (map fst (py_setdefault k v d))"
  by (simp add: py_setdefault_def distinct_update)

lemma map_of_py_setdefault [aee_simps]:
  "map_of (py_setdefault k v d) = (case map_of d k of None \<Rightarrow> (map_of d)(k \<mapsto> v) | Some _ \<Rightarrow> map_of d)"
  by (simp add: py_setdefault_def update_conv' split: option.splits)

lemma py_setdefault_keeps [aee_simps]:
  "map_of d k = Some v \<Longrightarrow> map_of (py_setdefault a c d) k = Some v"
  by (auto simp: map_of_py_setdefault split: option.splits)

subsection \<open>Clamping\<close>

lemma py_clamp_bounds [aee_simps]:
  "lo \<le> hi \<Longrightarrow> lo \<le> py_clamp lo hi x \<and> py_clamp lo hi x \<le> hi"
  by (auto simp: py_clamp_def)

lemma py_clamp_id: "lo \<le> x \<Longrightarrow> x \<le> hi \<Longrightarrow> py_clamp lo hi x = x"
  by (simp add: py_clamp_def)

lemma py_clamp_mono: "x \<le> y \<Longrightarrow> py_clamp lo hi x \<le> py_clamp lo hi y"
  by (simp add: py_clamp_def)

lemma py_clamp_low: "x \<le> lo \<Longrightarrow> lo \<le> hi \<Longrightarrow> py_clamp lo hi x = lo"
  by (simp add: py_clamp_def)

text \<open>Clamping from a positive lower bound is monotone in \<open>a\<close> for the product
  \<open>k * (a * t)\<close> with \<open>k, a \<ge> 0\<close> whatever the sign of \<open>t\<close>: for negative \<open>t\<close> both
  sides are clamped to the lower bound.\<close>

lemma py_clamp_scaled_mono:
  assumes "0 \<le> k" "0 \<le> a" "a \<le> b" "0 < lo" "lo \<le> hi"
  shows "py_clamp lo hi (k * (a * t)) \<le> py_clamp lo hi (k * (b * t))"
proof (cases "0 \<le> t")
  case True
  then have "k * (a * t) \<le> k * (b * t)" using assms by (intro mult_left_mono mult_right_mono) auto
  then show ?thesis by (rule py_clamp_mono)
next
  case False
  have "k * (a * t) \<le> lo" "k * (b * t) \<le> lo"
    using False assms by (auto intro!: order_trans [OF _ less_imp_le [OF assms(4)]] mult_nonneg_nonpos
                               simp: mult_nonneg_nonpos)
  then show ?thesis using assms(5) by (simp add: py_clamp_low)
qed

end
