(* ===== verification/Core_Classes.thy ===== *)
theory Core_Classes
  imports AEE_Prelude
begin

text \<open>
  The data model of \<^verbatim>\<open>src/aee_core_classes_era.py\<close>: the dataclasses
  \<^verbatim>\<open>EpistemicData\<close> and \<^verbatim>\<open>Proposition\<close> as records, and the knowledge base
  \<^verbatim>\<open>Dict[str, Proposition]\<close> as the list of its values in insertion order.
  Every insertion into the knowledge base in the sources is
  \<^verbatim>\<open>kb[p.prop_id] = p\<close> (\<^verbatim>\<open>src/aee_era_main.py\<close>), so a key is always the
  proposition's own id and the list with distinct ids is the dict; \<open>kb_get\<close> is
  \<^verbatim>\<open>kb.get(id)\<close>. The fields \<^verbatim>\<open>timestamp\<close>, \<^verbatim>\<open>other_metadata\<close> and
  \<^verbatim>\<open>other_analysis\<close> are only read by report rendering and are not modelled.
\<close>

record EpistemicData =
  source_id :: string
  initial_confidence :: real
  computed_confidence :: real
  source_type :: "string option"
  reliability_score :: "real option"
  supports :: "prop_id list"
  contradicts :: "prop_id list"
  bias_flags :: "label list"
  plausibility_score :: "real option"
  validation_notes :: "string list"

text \<open>The dataclass constructor with its defaults; \<^verbatim>\<open>__post_init__\<close> sets the
  computed confidence to the initial one.\<close>

definition make_epistemic_data :: "string \<Rightarrow> real \<Rightarrow> string option \<Rightarrow> EpistemicData" where
  "make_epistemic_data sid ic st =
     \<lparr>source_id = sid, initial_confidence = ic, computed_confidence = ic,
      source_type = st, reliability_score = None, supports = [], contradicts = [],
      bias_flags = [], plausibility_score = None, validation_notes = []\<rparr>"

record Proposition =
  text_span :: string
  sentence_text :: string
  epistemic_data :: EpistemicData
  prop_id :: prop_id
  subject_lemma :: "string option"
  relation_lemma :: "string option"
  value_lemma :: "string option"
  is_negated :: bool

type_synonym kb = "Proposition list"

abbreviation ed_supports :: "Proposition \<Rightarrow> prop_id list" where
  "ed_supports p \<equiv> supports (epistemic_data p)"

abbreviation ed_contradicts :: "Proposition \<Rightarrow> prop_id list" where
  "ed_contradicts p \<equiv> contradicts (epistemic_data p)"

abbreviation ed_flags :: "Proposition \<Rightarrow> label list" where
  "ed_flags p \<equiv> bias_flags (epistemic_data p)"

abbreviation ed_conf :: "Proposition \<Rightarrow> real" where
  "ed_conf p \<equiv> computed_confidence (epistemic_data p)"

definition kb_ids :: "kb \<Rightarrow> prop_id list" where
  "kb_ids kb = map prop_id kb"

definition kb_get :: "kb \<Rightarrow> prop_id \<Rightarrow> Proposition option" where
  "kb_get kb i = find (\<lambda>p. prop_id p = i) kb"

text \<open>Writing back a mutated proposition object: every entry with that id is
  replaced, the others are kept in place.\<close>

definition kb_put :: "Proposition \<Rightarrow> kb \<Rightarrow> kb" where
  "kb_put p kb = map (\<lambda>q. if prop_id q = prop_id p then p else q) kb"

text \<open>The dataclass constructor of \<^verbatim>\<open>Proposition\<close>; the id is the
  \<^verbatim>\<open>uuid4\<close> default factory's value, passed in.\<close>

definition make_proposition ::
  "string \<Rightarrow> EpistemicData \<Rightarrow> prop_id \<Rightarrow> string option \<Rightarrow> string option \<Rightarrow> string option \<Rightarrow> bool \<Rightarrow> Proposition" where
  "make_proposition txt ed i s r v neg =
     \<lparr>text_span = txt, sentence_text = txt, epistemic_data = ed, prop_id = i,
      subject_lemma = s, relation_lemma = r, value_lemma = v, is_negated = neg\<rparr>"

definition kb_distinct :: "kb \<Rightarrow> bool" where
  "kb_distinct kb \<longleftrightarrow> distinct (kb_ids kb)"

subsection \<open>Lookup and write-back\<close>

lemma kb_get_Nil [simp]: "kb_get [] i = None"
  by (simp add: kb_get_def)

lemma kb_get_Cons [simp]:
  "kb_get (p # kb) i = (if prop_id p = i then Some p else kb_get kb i)"
  by (simp add: kb_get_def)

lemma kb_get_append:
  "kb_get (kb @ kb') i = (case kb_get kb i of None \<Rightarrow> kb_get kb' i | Some p \<Rightarrow> Some p)"
  by (induction kb) auto

lemma kb_get_Some_id: "kb_get kb i = Some p \<Longrightarrow> prop_id p = i"
  by (induction kb) (auto split: if_splits)

lemma kb_get_Some_in: "kb_get kb i = Some p \<Longrightarrow> p \<in> set kb"
  by (induction kb) (auto split: if_splits)

lemma kb_get_None_iff: "kb_get kb i = None \<longleftrightarrow> i \<notin> set (kb_ids kb)"
  by (induction kb) (auto simp: kb_ids_def)

lemma kb_get_in_distinct:
  "kb_distinct kb \<Longrightarrow> p \<in> set kb \<Longrightarrow> kb_get kb (prop_id p) = Some p"
  by (induction kb) (auto simp: kb_distinct_def kb_ids_def)

lemma kb_ids_Cons [simp]: "kb_ids (p # kb) = prop_id p # kb_ids kb"
  by (simp add: kb_ids_def)

lemma kb_ids_Nil [simp]: "kb_ids [] = []"
  by (simp add: kb_ids_def)

lemma kb_ids_append [simp]: "kb_ids (kb @ kb') = kb_ids kb @ kb_ids kb'"
  by (simp add: kb_ids_def)

lemma kb_ids_kb_put [simp]: "kb_ids (kb_put p kb) = kb_ids kb"
  by (induction kb) (auto simp: kb_put_def)

lemma kb_get_kb_put:
  "kb_get (kb_put p kb) i = (if i = prop_id p \<and> i \<in> set (kb_ids kb) then Some p else kb_get kb i)"
  by (induction kb) (auto simp: kb_put_def)

lemma kb_ids_mem: "p \<in> set kb \<Longrightarrow> prop_id p \<in> set (kb_ids kb)"
  by (simp add: kb_ids_def)

lemma kb_ids_inj: "distinct (kb_ids kb) \<Longrightarrow> p \<in> set kb \<Longrightarrow> q \<in> set kb \<Longrightarrow> prop_id p = prop_id q \<Longrightarrow> p = q"
  by (simp add: kb_ids_def distinct_map inj_on_def)

text \<open>The link graph of a knowledge base: each key with its two edge lists.\<close>

definition kb_edges :: "kb \<Rightarrow> (prop_id \<times> prop_id list \<times> prop_id list) list" where
  "kb_edges kb = map (\<lambda>p. (prop_id p, ed_supports p, ed_contradicts p)) kb"

lemma kb_edges_list_all2:
  "list_all2 (\<lambda>p q. prop_id q = prop_id p \<and> ed_supports q = ed_supports p \<and> ed_contradicts q = ed_contradicts p)
     kb kb' \<Longrightarrow> kb_edges kb' = kb_edges kb"
  by (induction rule: list_all2_induct) (simp_all add: kb_edges_def)

lemma kb_ids_kb_edges: "kb_ids kb = map fst (kb_edges kb)"
  by (simp add: kb_ids_def kb_edges_def)

end
