(* ===== verification/Lexicon.thy ===== *)
theory Lexicon
  imports AEE_Prelude
begin

text \<open>
  The lexical relation index of \<^verbatim>\<open>src/aee_linker_era.py\<close> (lines 18--49): the
  dict literals \<^verbatim>\<open>opposites\<close> and \<^verbatim>\<open>synonyms\<close> exactly as written (with the
  duplicate keys of the \<^verbatim>\<open>opposites\<close> literal), and the two
  \<^verbatim>\<open>setdefault\<close> loops that make them bidirectional. \<open>dict_get\<close> is
  \<^verbatim>\<open>d.get(key)\<close> where the key may itself be \<^verbatim>\<open>None\<close>, and \<open>lex_related\<close> is the
  test \<^verbatim>\<open>d.get(a) == b or d.get(b) == a\<close> the linker applies to two optional
  lemmas. The lemmas show that the construction keeps one target per key, that
  every relation it answers comes from the base lists, that every label of the base
  list is covered, and where the duplicate keys lose a pair of the base list.
\<close>

definition opposites_literal :: "(string \<times> string) list" where
  "opposites_literal =
    [(''hot'', ''cold''), (''fast'', ''slow''), (''big'', ''small''), (''on'', ''off''),
     (''up'', ''down''), (''large'', ''small''), (''tall'', ''short''), (''good'', ''bad''),
     (''right'', ''wrong''), (''left'', ''right''), (''true'', ''false''),
     (''correct'', ''incorrect''), (''same'', ''different''), (''similar'', ''different''),
     (''liquid'', ''solid''), (''gas'', ''solid''), (''liquid'', ''gas''),
     (''open'', ''closed''), (''light'', ''dark''), (''heavy'', ''light''), (''happy'', ''sad''),
     (''rich'', ''poor''), (''increase'', ''decrease''), (''expand'', ''contract''),
     (''allow'', ''forbid''), (''permit'', ''forbid''), (''warm'', ''cold''), (''cool'', ''warm''),
     (''cool'', ''hot''), (''wet'', ''dry''), (''full'', ''empty''), (''present'', ''absent''),
     (''alive'', ''dead''), (''win'', ''lose''), (''pass'', ''fail''), (''accept'', ''reject''),
     (''remember'', ''forget''), (''love'', ''hate''), (''friend'', ''enemy''),
     (''begin'', ''end''), (''start'', ''finish''), (''start'', ''end''), (''always'', ''never''),
     (''often'', ''rarely''), (''sometimes'', ''never''), (''safe'', ''dangerous''),
     (''possible'', ''impossible''), (''legal'', ''illegal''), (''essential'', ''inessential''),
     (''beneficial'', ''harmful''), (''great'', ''terrible'')]"

definition opposites :: "string py_dict" where
  "opposites = py_dict_literal opposites_literal"

text \<open>The loop \<^verbatim>\<open>for k, v in d.items(): b.setdefault(k, v); b.setdefault(v, k)\<close>
  starting from the dict \<open>b0\<close>.\<close>

definition make_bidirectional :: "string py_dict \<Rightarrow> string py_dict \<Rightarrow> string py_dict" where
  "make_bidirectional b0 d = fold (\<lambda>(k, v) b. py_setdefault v k (py_setdefault k v b)) d b0"

definition bidirectional_opposites :: "string py_dict" where
  "bidirectional_opposites = make_bidirectional [] opposites"

definition synonyms_literal :: "(string \<times> string) list" where
  "synonyms_literal =
    [(''big'', ''large''), (''fast'', ''quick''), (''rapid'', ''fast''), (''begin'', ''start''),
     (''finish'', ''end''), (''permit'', ''allow''), (''great'', ''good''),
     (''essential'', ''important''), (''beneficial'', ''helpful''), (''harmful'', ''dangerous'')]"

definition synonyms :: "string py_dict" where
  "synonyms = py_dict_literal synonyms_literal"

definition bidirectional_synonyms :: "string py_dict" where
  "bidirectional_synonyms = make_bidirectional synonyms synonyms"

fun dict_get :: "string py_dict \<Rightarrow> string option \<Rightarrow> string option" where
  "dict_get d None = None"
| "dict_get d (Some k) = map_of d k"

definition lex_related :: "string py_dict \<Rightarrow> string option \<Rightarrow> string option \<Rightarrow> bool" where
  "lex_related d a b \<longleftrightarrow> dict_get d a = b \<or> dict_get d b = a"

subsection \<open>The bidirectional construction\<close>

lemma distinct_make_bidirectional:
  "distinct (map fst b0) \<Longrightarrow> distinct (map fst (make_bidirectional b0 d))"
  unfolding make_bidirectional_def
  by (induction d arbitrary: b0) (auto simp: distinct_py_setdefault)

lemma make_bidirectional_keeps:
  "map_of b0 k = Some v \<Longrightarrow> map_of (make_bidirectional b0 d) k = Some v"
  unfolding make_bidirectional_def
  by (induction d arbitrary: b0) (auto simp: py_setdefault_keeps)

lemma make_bidirectional_covers:
  assumes "(k, v) \<in> set d"
  shows "map_of (make_bidirectional b0 d) k \<noteq> None \<and> map_of (make_bidirectional b0 d) v \<noteq> None"
  using assms unfolding make_bidirectional_def
proof (induction d arbitrary: b0)
  case Nil
  then show ?case by simp
next
  case (Cons kv d)
  obtain a b where kv: "kv = (a, b)" by (cases kv)
  let ?b1 = "py_setdefault b a (py_setdefault a b b0)"
  have keep: "map_of ?b1 x \<noteq> None \<Longrightarrow>
      map_of (fold (\<lambda>(k, v) b. py_setdefault v k (py_setdefault k v b)) d ?b1) x \<noteq> None" for x
    using make_bidirectional_keeps [of ?b1 x _ d] by (auto simp: make_bidirectional_def)
  show ?case
  proof (cases "(k, v) \<in> set d")
    case True
    with Cons.IH kv show ?thesis by simp
  next
    case False
    with Cons.prems kv have "k = a" "v = b" by auto
    then have "map_of ?b1 k \<noteq> None" "map_of ?b1 v \<noteq> None"
      by (auto simp: map_of_py_setdefault split: option.splits)
    with keep kv show ?thesis by simp
  qed
qed

lemma lex_related_sym: "lex_related d a b = lex_related d b a"
  by (auto simp: lex_related_def)

lemma lex_related_None_None: "lex_related d None None"
  by (simp add: lex_related_def)

subsection \<open>The tables the module builds\<close>

text \<open>The two tables as the module-level code leaves them, computed in the kernel
  (\<open>code_simp\<close>) once, so that lookups in later proofs scan an explicit list.\<close>

lemma bidirectional_opposites_eq:
  "bidirectional_opposites =
    [(''hot'', ''cold''), (''cold'', ''hot''), (''fast'', ''slow''), (''slow'', ''fast''),
     (''big'', ''small''), (''small'', ''big''), (''on'', ''off''), (''off'', ''on''),
     (''up'', ''down''), (''down'', ''up''), (''large'', ''small''), (''tall'', ''short''),
     (''short'', ''tall''), (''good'', ''bad''), (''bad'', ''good''), (''right'', ''wrong''),
     (''wrong'', ''right''), (''left'', ''right''), (''true'', ''false''), (''false'', ''true''),
     (''correct'', ''incorrect''), (''incorrect'', ''correct''), (''same'', ''different''),
     (''different'', ''same''), (''similar'', ''different''), (''liquid'', ''gas''),
     (''gas'', ''liquid''), (''solid'', ''gas''), (''open'', ''closed''), (''closed'', ''open''),
     (''light'', ''dark''), (''dark'', ''light''), (''heavy'', ''light''), (''happy'', ''sad''),
     (''sad'', ''happy''), (''rich'', ''poor''), (''poor'', ''rich''),
     (''increase'', ''decrease''), (''decrease'', ''increase''), (''expand'', ''contract''),
     (''contract'', ''expand''), (''allow'', ''forbid''), (''forbid'', ''allow''),
     (''permit'', ''forbid''), (''warm'', ''cold''), (''cool'', ''hot''), (''wet'', ''dry''),
     (''dry'', ''wet''), (''full'', ''empty''), (''empty'', ''full''), (''present'', ''absent''),
     (''absent'', ''present''), (''alive'', ''dead''), (''dead'', ''alive''), (''win'', ''lose''),
     (''lose'', ''win''), (''pass'', ''fail''), (''fail'', ''pass''), (''accept'', ''reject''),
     (''reject'', ''accept''), (''remember'', ''forget''), (''forget'', ''remember''),
     (''love'', ''hate''), (''hate'', ''love''), (''friend'', ''enemy''), (''enemy'', ''friend''),
     (''begin'', ''end''), (''end'', ''begin''), (''start'', ''end''), (''always'', ''never''),
     (''never'', ''always''), (''often'', ''rarely''), (''rarely'', ''often''),
     (''sometimes'', ''never''), (''safe'', ''dangerous''), (''dangerous'', ''safe''),
     (''possible'', ''impossible''), (''impossible'', ''possible''), (''legal'', ''illegal''),
     (''illegal'', ''legal''), (''essential'', ''inessential''), (''inessential'', ''essential''),
     (''beneficial'', ''harmful''), (''harmful'', ''beneficial''), (''great'', ''terrible''),
     (''terrible'', ''great'')]"
  by code_simp

lemma bidirectional_synonyms_eq:
  "bidirectional_synonyms =
    [(''big'', ''large''), (''fast'', ''quick''), (''rapid'', ''fast''), (''begin'', ''start''),
     (''finish'', ''end''), (''permit'', ''allow''), (''great'', ''good''),
     (''essential'', ''important''), (''beneficial'', ''helpful''), (''harmful'', ''dangerous''),
     (''large'', ''big''), (''quick'', ''fast''), (''start'', ''begin''), (''end'', ''finish''),
     (''allow'', ''permit''), (''good'', ''great''), (''important'', ''essential''),
     (''helpful'', ''beneficial''), (''dangerous'', ''harmful'')]"
  by code_simp

declare bidirectional_opposites_eq [code] bidirectional_synonyms_eq [code]

subsection \<open>Properties of the index\<close>

text \<open>The duplicate keys of the \<^verbatim>\<open>opposites\<close> literal lose pairs of the base
  list: exactly the pairs liquid/solid, cool/warm and start/finish are not related
  by the bidirectional table the linker consults, although the source lists them.\<close>

theorem opposites_literal_lost_pairs:
  "filter (\<lambda>(k, v). \<not> lex_related bidirectional_opposites (Some k) (Some v)) opposites_literal =
     [(''liquid'', ''solid''), (''cool'', ''warm''), (''start'', ''finish'')]"
  by code_simp

text \<open>Every answer of a table built by the bidirectional \<^verbatim>\<open>setdefault\<close> loop
  comes from the starting dict or from a pair of the base list, read forwards or
  backwards.\<close>

theorem make_bidirectional_sound:
  "map_of (make_bidirectional b0 d) k = Some v \<Longrightarrow>
     map_of b0 k = Some v \<or> (k, v) \<in> set d \<or> (v, k) \<in> set d"
  unfolding make_bidirectional_def
proof (induction d arbitrary: b0)
  case Nil
  then show ?case by simp
next
  case (Cons kv d)
  obtain a b where kv: "kv = (a, b)" by (cases kv)
  let ?b1 = "py_setdefault b a (py_setdefault a b b0)"
  from Cons.prems kv have "map_of (fold (\<lambda>(k, v) b. py_setdefault v k (py_setdefault k v b)) d ?b1) k = Some v"
    by simp
  then have "map_of ?b1 k = Some v \<or> (k, v) \<in> set d \<or> (v, k) \<in> set d"
    by (rule Cons.IH)
  then show ?case
    using kv by (auto simp: map_of_py_setdefault split: option.splits if_splits)
qed

theorem make_bidirectional_sound_witness:
  "map_of (make_bidirectional [] [(''hot'', ''cold'')]) ''cold'' = Some ''hot'' \<and>
   (map_of [] ''cold'' = Some ''hot'' \<or> (''cold'', ''hot'') \<in> set [(''hot'', ''cold'')] \<or>
    (''hot'', ''cold'') \<in> set [(''hot'', ''cold'')])"
proof -
  have h: "map_of (make_bidirectional [] [(''hot'', ''cold'')]) ''cold'' = Some ''hot''"
    by (simp add: make_bidirectional_def py_setdefault_def)
  show ?thesis using make_bidirectional_sound [OF h] h by simp
qed

end
