(* ===== verification/Linker.thy ===== *)
theory Linker
  imports Core_Classes Lexicon
begin

text \<open>
  The evidence linker \<^verbatim>\<open>find_and_link_evidence_era\<close> of
  \<^verbatim>\<open>src/aee_linker_era.py\<close> (lines 69--118). \<open>classify_pair\<close> is the chain of
  tests of lines 82--106 that sets \<^verbatim>\<open>is_contradiction\<close> / \<^verbatim>\<open>is_support\<close> for
  one (new, old) pair; \<open>link_update\<close> is the idempotent edge update of lines
  113--118 on both objects; \<open>link_loop\<close> is the \<^verbatim>\<open>for\<close> loop over
  \<^verbatim>\<open>kb.items()\<close>, which threads the mutated new proposition through the
  iterations and returns the knowledge base with the mutated old ones; and
  \<open>find_and_link_evidence_era\<close> adds the two early returns of lines 73 and 75.
  The new proposition is not in the knowledge base while it is linked, so the
  in-place mutations of the source are exactly the pair returned here.
\<close>

datatype link_kind = Contradiction | Support | No_Link

definition classify_pair :: "Proposition \<Rightarrow> Proposition \<Rightarrow> link_kind" where
  "classify_pair np op =
     (let new_subj = subject_lemma np; new_rel = relation_lemma np;
          new_val = value_lemma np; new_neg = is_negated np;
          old_subj = subject_lemma op; old_rel = relation_lemma op;
          old_val = value_lemma op; old_neg = is_negated op in
      if new_subj \<noteq> None \<and> new_subj = old_subj \<and> new_rel \<noteq> None \<and> new_rel = old_rel then
        (let nv = map_option py_strip new_val; ov = map_option py_strip old_val in
         if nv = ov \<and> new_neg \<noteq> old_neg then Contradiction
         else if lex_related bidirectional_opposites nv ov \<and> new_neg = old_neg then Contradiction
         else if new_neg = old_neg \<and> (nv = ov \<or> lex_related bidirectional_synonyms nv ov)
           then Support
         else No_Link)
      else if new_subj \<noteq> None \<and> new_subj = old_subj \<and> new_val \<noteq> None \<and> new_val = old_val
              \<and> new_neg = old_neg then
        (if lex_related bidirectional_opposites new_rel old_rel then Contradiction else No_Link)
      else No_Link)"

definition add_contradiction :: "prop_id \<Rightarrow> Proposition \<Rightarrow> Proposition" where
  "add_contradiction i p = epistemic_data_update (contradicts_update (list_append_new i)) p"

definition add_support :: "prop_id \<Rightarrow> Proposition \<Rightarrow> Proposition" where
  "add_support i p = epistemic_data_update (supports_update (list_append_new i)) p"

definition link_update :: "link_kind \<Rightarrow> Proposition \<Rightarrow> Proposition \<Rightarrow> Proposition \<times> Proposition" where
  "link_update k np op =
     (case k of
        Contradiction \<Rightarrow> (add_contradiction (prop_id op) np, add_contradiction (prop_id np) op)
      | Support \<Rightarrow> (add_support (prop_id op) np, add_support (prop_id np) op)
      | No_Link \<Rightarrow> (np, op))"

fun link_loop :: "Proposition \<Rightarrow> kb \<Rightarrow> Proposition \<times> kb" where
  "link_loop np [] = (np, [])"
| "link_loop np (op # ops) =
     (if prop_id np = prop_id op then
        (let (np', ops') = link_loop np ops in (np', op # ops'))
      else
        (let (np1, op1) = link_update (classify_pair np op) np op;
             (np2, ops') = link_loop np1 ops
         in (np2, op1 # ops')))"

definition linkable :: "Proposition \<Rightarrow> bool" where
  "linkable p \<longleftrightarrow> py_truthy (subject_lemma p) \<and> py_truthy (relation_lemma p) \<and> py_truthy (value_lemma p)"

definition find_and_link_evidence_era :: "Proposition \<Rightarrow> kb \<Rightarrow> Proposition \<times> kb" where
  "find_and_link_evidence_era np kb =
     (if kb = [] then (np, kb)
      else if \<not> linkable np then (np, kb)
      else link_loop np kb)"

text \<open>The abstract effect of the loop, as \<^verbatim>\<open>spec.md\<close> \<section>4.2 describes it: the new
  proposition gains, in knowledge-base order, the ids of the old propositions that
  it supports or contradicts, and each old proposition gains the new id in the
  matching list.\<close>

definition append_links :: "prop_id list \<Rightarrow> prop_id list \<Rightarrow> Proposition \<Rightarrow> Proposition" where
  "append_links xs ys p =
     epistemic_data_update (\<lambda>e. e\<lparr>supports := supports e @ xs, contradicts := contradicts e @ ys\<rparr>) p"

definition link_targets :: "link_kind \<Rightarrow> Proposition \<Rightarrow> kb \<Rightarrow> prop_id list" where
  "link_targets k np kb = map prop_id (filter (\<lambda>op. prop_id op \<noteq> prop_id np \<and> classify_pair np op = k) kb)"

definition link_mark :: "Proposition \<Rightarrow> Proposition \<Rightarrow> Proposition" where
  "link_mark np op = append_links (if classify_pair np op = Support then [prop_id np] else [])
     (if classify_pair np op = Contradiction then [prop_id np] else []) op"

definition link_spec :: "Proposition \<Rightarrow> kb \<Rightarrow> Proposition \<times> kb" where
  "link_spec np kb =
     (append_links (link_targets Support np kb) (link_targets Contradiction np kb) np, map (link_mark np) kb)"

text \<open>The shape of the loop's result, step by step: the same new proposition, and
  each old one updated as one call of \<open>link_update\<close> updates it. It is the
  invariant of the induction over the loop, and equals \<open>link_spec\<close> when the new
  id is fresh.\<close>

definition link_loop_form :: "Proposition \<Rightarrow> kb \<Rightarrow> Proposition \<times> kb" where
  "link_loop_form np kb =
     (append_links (link_targets Support np kb) (link_targets Contradiction np kb) np,
      map (\<lambda>op. if prop_id op = prop_id np then op else snd (link_update (classify_pair np op) np op)) kb)"

text \<open>Phase 1b of \<^verbatim>\<open>run_aee_era_pipeline\<close> (\<^verbatim>\<open>src/aee_era_main.py\<close>, lines
  86--92): each extracted proposition whose id is not yet a key is linked against
  the current knowledge base and then stored under its id, i.e. appended.\<close>

fun link_phase :: "kb \<Rightarrow> Proposition list \<Rightarrow> kb" where
  "link_phase kb [] = kb"
| "link_phase kb (p # ps) =
     (if prop_id p \<in> set (kb_ids kb) then link_phase kb ps
      else link_phase (snd (find_and_link_evidence_era p kb) @ [fst (find_and_link_evidence_era p kb)]) ps)"

text \<open>The claims of the \<^verbatim>\<open>spec.md\<close> \<section>8 examples, as the extractor builds them
  (fresh epistemic data with confidence 0.5 and no source type).\<close>

abbreviation ex_prop :: "prop_id \<Rightarrow> string \<Rightarrow> string \<Rightarrow> string \<Rightarrow> bool \<Rightarrow> Proposition" where
  "ex_prop i s r v neg \<equiv> make_proposition (s @ '' '' @ r @ '' '' @ v) (make_epistemic_data ''src'' 0.5 None)
     i (Some s) (Some r) (Some v) neg"

text \<open>Well-formedness of the link graph, \<^verbatim>\<open>spec.md\<close> \<section>3 and \<section>8: edge lists are
  duplicate-free, never name their own proposition, never hold an id in both lists,
  only name propositions of the knowledge base, and are symmetric.\<close>

definition links_local_wf :: "prop_id set \<Rightarrow> Proposition \<Rightarrow> bool" where
  "links_local_wf ids p \<longleftrightarrow> distinct (ed_supports p) \<and> distinct (ed_contradicts p) \<and>
     set (ed_supports p) \<inter> set (ed_contradicts p) = {} \<and>
     prop_id p \<notin> set (ed_supports p) \<and> prop_id p \<notin> set (ed_contradicts p) \<and>
     set (ed_supports p) \<subseteq> ids \<and> set (ed_contradicts p) \<subseteq> ids"

definition links_sym :: "Proposition \<Rightarrow> Proposition \<Rightarrow> bool" where
  "links_sym p q \<longleftrightarrow>
     (prop_id q \<in> set (ed_supports p) \<longleftrightarrow> prop_id p \<in> set (ed_supports q)) \<and>
     (prop_id q \<in> set (ed_contradicts p) \<longleftrightarrow> prop_id p \<in> set (ed_contradicts q))"

definition links_wf :: "kb \<Rightarrow> bool" where
  "links_wf kb \<longleftrightarrow> kb_distinct kb \<and> (\<forall>p\<in>set kb. links_local_wf (set (kb_ids kb)) p) \<and>
     (\<forall>p\<in>set kb. \<forall>q\<in>set kb. links_sym p q)"

definition same_claim :: "Proposition \<Rightarrow> Proposition \<Rightarrow> bool" where
  "same_claim p q \<longleftrightarrow> prop_id p = prop_id q \<and> subject_lemma p = subject_lemma q \<and>
     relation_lemma p = relation_lemma q \<and> value_lemma p = value_lemma q \<and>
     is_negated p = is_negated q"

subsection \<open>Frame lemmas: linking touches only the two edge lists\<close>

lemma same_claim_refl [simp]: "same_claim p p"
  by (simp add: same_claim_def)

lemma same_claim_trans: "same_claim p q \<Longrightarrow> same_claim q r \<Longrightarrow> same_claim p r"
  by (simp add: same_claim_def)

lemma classify_pair_cong:
  "same_claim np np' \<Longrightarrow> same_claim op op' \<Longrightarrow> classify_pair np op = classify_pair np' op'"
  by (simp add: same_claim_def classify_pair_def)

lemma same_claim_add [simp]:
  "same_claim (add_contradiction i p) p" "same_claim (add_support i p) p"
  by (simp_all add: same_claim_def add_contradiction_def add_support_def)

lemma link_update_same_claim:
  "link_update k np op = (np', op') \<Longrightarrow> same_claim np' np \<and> same_claim op' op"
  by (cases k) (auto simp: link_update_def)

subsection \<open>The loop refines the batch specification\<close>


lemma append_links_append:
  "append_links xs ys (append_links xs' ys' p) = append_links (xs' @ xs) (ys' @ ys) p"
  by (simp add: append_links_def)

lemma append_links_Nil: "append_links [] [] p = p"
  by (simp add: append_links_def)

lemma add_contradiction_fresh:
  "i \<notin> set (ed_contradicts p) \<Longrightarrow> add_contradiction i p = append_links [] [i] p"
  by (simp add: add_contradiction_def append_links_def list_append_new_def)

lemma add_support_fresh:
  "i \<notin> set (ed_supports p) \<Longrightarrow> add_support i p = append_links [i] [] p"
  by (simp add: add_support_def append_links_def list_append_new_def)

lemma same_claim_append_links [simp]: "same_claim (append_links xs ys p) p"
  by (simp add: append_links_def same_claim_def)

lemma prop_id_append_links [simp]: "prop_id (append_links xs ys p) = prop_id p"
  by (simp add: append_links_def)

lemma append_links_lists [simp]:
  "ed_supports (append_links xs ys p) = ed_supports p @ xs"
  "ed_contradicts (append_links xs ys p) = ed_contradicts p @ ys"
  by (simp_all add: append_links_def)

lemma link_update_fst_fresh:
  assumes "prop_id op \<notin> set (ed_supports np)" "prop_id op \<notin> set (ed_contradicts np)"
  shows "fst (link_update k np op) =
    append_links (if k = Support then [prop_id op] else []) (if k = Contradiction then [prop_id op] else []) np"
  using assms
  by (cases k) (simp_all add: link_update_def add_support_fresh add_contradiction_fresh append_links_Nil)


lemma link_targets_cong:
  assumes "same_claim np np'"
  shows "link_targets k np kb = link_targets k np' kb"
proof -
  have "classify_pair np q = classify_pair np' q" for q
    using assms by (rule classify_pair_cong) simp
  moreover have "prop_id np = prop_id np'"
    using assms by (simp add: same_claim_def)
  ultimately show ?thesis
    by (simp add: link_targets_def)
qed

lemma link_targets_Cons:
  "link_targets k np (op # ops) =
     (if prop_id op \<noteq> prop_id np \<and> classify_pair np op = k then [prop_id op] else []) @ link_targets k np ops"
  by (simp add: link_targets_def)

lemma link_update_snd_cong:
  "same_claim np np' \<Longrightarrow> snd (link_update k np op) = snd (link_update k np' op)"
  by (cases k) (simp_all add: link_update_def same_claim_def add_support_def add_contradiction_def)

lemma link_loop_spec:
  assumes "distinct (kb_ids kb)"
    and "\<forall>i\<in>set (kb_ids kb). i \<notin> set (ed_supports np) \<and> i \<notin> set (ed_contradicts np)"
  shows "link_loop np kb = link_loop_form np kb"
  using assms
proof (induction kb arbitrary: np)
  case Nil
  then show ?case by (simp add: link_loop_form_def link_targets_def append_links_Nil)
next
  case (Cons op ops)
  show ?case
  proof (cases "prop_id np = prop_id op")
    case True
    have IH: "link_loop np ops = link_loop_form np ops"
      using Cons.prems by (intro Cons.IH) auto
    have loop: "link_loop np (op # ops) = (fst (link_loop np ops), op # snd (link_loop np ops))"
      using True by (simp add: split_beta)
    have sp: "link_loop_form np (op # ops) = (fst (link_loop_form np ops), op # snd (link_loop_form np ops))"
      using True by (simp add: link_loop_form_def link_targets_Cons)
    show ?thesis
      unfolding loop IH sp ..
  next
    case False
    define k where "k = classify_pair np op"
    define S where "S = (if k = Support then [prop_id op] else [])"
    define C where "C = (if k = Contradiction then [prop_id op] else [])"
    define np1 where "np1 = append_links S C np"
    have fresh: "prop_id op \<notin> set (ed_supports np)" "prop_id op \<notin> set (ed_contradicts np)"
      using Cons.prems by simp_all
    have sc: "same_claim np1 np" by (simp add: np1_def)
    have upd: "fst (link_update k np op) = np1"
      using link_update_fst_fresh [OF fresh, of k] unfolding np1_def S_def C_def by simp
    have IH: "link_loop np1 ops = link_loop_form np1 ops"
      using Cons.prems by (intro Cons.IH) (auto simp: np1_def S_def C_def)
    have loop: "link_loop np (op # ops) = (fst (link_loop np1 ops), snd (link_update k np op) # snd (link_loop np1 ops))"
      using False upd unfolding k_def by (simp add: split_beta)
    have tS: "link_targets Support np (op # ops) = S @ link_targets Support np ops"
      using False by (simp add: link_targets_Cons S_def k_def)
    have tC: "link_targets Contradiction np (op # ops) = C @ link_targets Contradiction np ops"
      using False by (simp add: link_targets_Cons C_def k_def)
    have pid: "prop_id np1 = prop_id np" by (simp add: np1_def)
    have f1: "fst (link_loop_form np1 ops) =
        append_links (S @ link_targets Support np ops) (C @ link_targets Contradiction np ops) np"
      unfolding link_loop_form_def fst_conv link_targets_cong [OF sc] by (simp add: np1_def append_links_append)
    have f2: "snd (link_loop_form np1 ops) = snd (link_loop_form np ops)"
      unfolding link_loop_form_def snd_conv pid classify_pair_cong [OF sc same_claim_refl]
        link_update_snd_cong [OF sc] ..
    have sp: "link_loop_form np (op # ops) =
        (append_links (S @ link_targets Support np ops) (C @ link_targets Contradiction np ops) np,
         snd (link_update k np op) # snd (link_loop_form np ops))"
      using False tS tC by (simp add: link_loop_form_def k_def)
    show ?thesis
      unfolding loop IH f1 f2 sp ..
  qed
qed

subsection \<open>One linking step keeps the link graph well formed\<close>

lemma link_update_snd_fresh:
  assumes "prop_id np \<notin> set (ed_supports op)" "prop_id np \<notin> set (ed_contradicts op)"
  shows "snd (link_update k np op) =
    append_links (if k = Support then [prop_id np] else []) (if k = Contradiction then [prop_id np] else []) op"
  using assms
  by (cases k) (simp_all add: link_update_def add_support_fresh add_contradiction_fresh append_links_Nil)

lemma link_mark_simps [simp]:
  "prop_id (link_mark np op) = prop_id op"
  "set (ed_supports (link_mark np op)) =
     set (ed_supports op) \<union> (if classify_pair np op = Support then {prop_id np} else {})"
  "set (ed_contradicts (link_mark np op)) =
     set (ed_contradicts op) \<union> (if classify_pair np op = Contradiction then {prop_id np} else {})"
  "distinct (ed_supports (link_mark np op)) \<longleftrightarrow> distinct (ed_supports op) \<and>
     (classify_pair np op = Support \<longrightarrow> prop_id np \<notin> set (ed_supports op))"
  "distinct (ed_contradicts (link_mark np op)) \<longleftrightarrow> distinct (ed_contradicts op) \<and>
     (classify_pair np op = Contradiction \<longrightarrow> prop_id np \<notin> set (ed_contradicts op))"
  by (auto simp: link_mark_def)

lemma set_link_targets:
  "set (link_targets k np kb) = {prop_id op |op. op \<in> set kb \<and> prop_id op \<noteq> prop_id np \<and> classify_pair np op = k}"
  by (auto simp: link_targets_def)

lemma distinct_link_targets: "distinct (kb_ids kb) \<Longrightarrow> distinct (link_targets k np kb)"
  by (simp add: link_targets_def kb_ids_def distinct_map_filter)

lemma link_spec_fresh:
  assumes "links_wf kb" "prop_id np \<notin> set (kb_ids kb)"
  shows "link_loop_form np kb = link_spec np kb"
proof -
  have "snd (link_update (classify_pair np op) np op) = link_mark np op" if "op \<in> set kb" for op
  proof -
    from assms that have "prop_id np \<notin> set (ed_supports op)" "prop_id np \<notin> set (ed_contradicts op)"
      by (auto simp: links_wf_def links_local_wf_def)
    then show ?thesis by (simp add: link_update_snd_fresh link_mark_def)
  qed
  moreover have "prop_id op \<noteq> prop_id np" if "op \<in> set kb" for op
    using assms(2) that by (auto simp: kb_ids_def image_iff)
  ultimately show ?thesis
    by (simp add: link_loop_form_def link_spec_def)
qed


lemma set_link_targets_fresh:
  assumes "prop_id np \<notin> set (kb_ids kb)"
  shows "set (link_targets k np kb) = prop_id ` {op \<in> set kb. classify_pair np op = k}"
proof -
  have "\<And>op. op \<in> set kb \<Longrightarrow> prop_id op \<noteq> prop_id np"
    using assms kb_ids_mem by metis
  then have "filter (\<lambda>op. prop_id op \<noteq> prop_id np \<and> classify_pair np op = k) kb =
      filter (\<lambda>op. classify_pair np op = k) kb"
    by (intro filter_cong) auto
  then show ?thesis by (simp add: link_targets_def)
qed

lemma mem_link_targets_fresh:
  assumes "prop_id np \<notin> set (kb_ids kb)" "distinct (kb_ids kb)" "op \<in> set kb"
  shows "prop_id op \<in> set (link_targets k np kb) \<longleftrightarrow> classify_pair np op = k"
proof -
  have "prop_id op \<in> prop_id ` {q \<in> set kb. classify_pair np q = k} \<longleftrightarrow> classify_pair np op = k"
    using assms(2,3) kb_ids_inj [OF assms(2) assms(3)] by blast
  then show ?thesis using set_link_targets_fresh [OF assms(1)] by simp
qed


lemma links_wf_fresh_facts:
  assumes "links_wf kb" "prop_id np \<notin> set (kb_ids kb)" "p \<in> set kb"
  shows "prop_id np \<notin> set (ed_supports p)" "prop_id np \<notin> set (ed_contradicts p)" "prop_id p \<noteq> prop_id np"
  using assms kb_ids_mem [OF assms(3)] by (auto simp: links_wf_def links_local_wf_def)

lemma links_local_wf_mark:
  assumes "links_local_wf ids op" "prop_id np \<notin> set (ed_supports op)" "prop_id np \<notin> set (ed_contradicts op)"
    "prop_id op \<noteq> prop_id np"
  shows "links_local_wf (insert (prop_id np) ids) (link_mark np op)"
  using assms by (auto simp: links_local_wf_def)

lemma links_local_wf_new:
  assumes "prop_id np \<notin> set (kb_ids kb)" "distinct (kb_ids kb)"
    "ed_supports np = []" "ed_contradicts np = []"
  shows "links_local_wf (insert (prop_id np) (set (kb_ids kb)))
           (append_links (link_targets Support np kb) (link_targets Contradiction np kb) np)"
proof -
  have disj: "set (link_targets Support np kb) \<inter> set (link_targets Contradiction np kb) = {}"
  proof (rule equals0I)
    fix i assume "i \<in> set (link_targets Support np kb) \<inter> set (link_targets Contradiction np kb)"
    then obtain op where op: "op \<in> set kb" "i = prop_id op"
      "prop_id op \<in> set (link_targets Support np kb)" "prop_id op \<in> set (link_targets Contradiction np kb)"
      using set_link_targets_fresh [OF assms(1)] by auto
    then show False
      using mem_link_targets_fresh [OF assms(1,2) op(1)] by simp
  qed
  then show ?thesis
    using assms by (auto simp: links_local_wf_def distinct_link_targets set_link_targets_fresh kb_ids_def)
qed

lemma links_sym_mark:
  assumes "links_sym p q" "prop_id p \<noteq> prop_id np" "prop_id q \<noteq> prop_id np"
  shows "links_sym (link_mark np p) (link_mark np q)"
  using assms by (auto simp: links_sym_def)

lemma links_sym_mark_new:
  assumes "links_wf kb" "prop_id np \<notin> set (kb_ids kb)" "p \<in> set kb"
    "ed_supports np = []" "ed_contradicts np = []"
  shows "links_sym (link_mark np p)
           (append_links (link_targets Support np kb) (link_targets Contradiction np kb) np)"
proof -
  have d: "distinct (kb_ids kb)" using assms(1) by (simp add: links_wf_def kb_distinct_def)
  note f = links_wf_fresh_facts [OF assms(1-3)]
  show ?thesis
    using assms(4,5) f mem_link_targets_fresh [OF assms(2) d assms(3)]
    by (auto simp: links_sym_def)
qed

lemma links_sym_commute: "links_sym p q = links_sym q p"
  by (auto simp: links_sym_def)

lemma links_sym_new_new:
  assumes "prop_id np \<notin> set (kb_ids kb)" "ed_supports np = []" "ed_contradicts np = []"
  shows "links_sym (append_links (link_targets Support np kb) (link_targets Contradiction np kb) np)
           (append_links (link_targets Support np kb) (link_targets Contradiction np kb) np)"
  by (simp add: links_sym_def)


lemma links_wf_link_spec:
  assumes wf: "links_wf kb" and fresh: "prop_id np \<notin> set (kb_ids kb)"
    and empty: "ed_supports np = []" "ed_contradicts np = []"
  shows "links_wf (snd (link_spec np kb) @ [fst (link_spec np kb)])"
proof -
  let ?new = "append_links (link_targets Support np kb) (link_targets Contradiction np kb) np"
  have d: "distinct (kb_ids kb)" using wf by (simp add: links_wf_def kb_distinct_def)
  have ids: "kb_ids (map (link_mark np) kb @ [?new]) = kb_ids kb @ [prop_id np]"
    by (simp add: kb_ids_def comp_def)
  have loc: "\<forall>p\<in>set (map (link_mark np) kb @ [?new]). links_local_wf (insert (prop_id np) (set (kb_ids kb))) p"
    using wf links_wf_fresh_facts [OF wf fresh] links_local_wf_mark links_local_wf_new [OF fresh d empty]
    by (auto simp: links_wf_def)
  have sym: "\<forall>p\<in>set (map (link_mark np) kb @ [?new]). \<forall>q\<in>set (map (link_mark np) kb @ [?new]). links_sym p q"
  proof (intro ballI)
    fix p q
    assume p: "p \<in> set (map (link_mark np) kb @ [?new])" and q: "q \<in> set (map (link_mark np) kb @ [?new])"
    show "links_sym p q"
    proof (cases "p = ?new")
      case pn: True
      show ?thesis
      proof (cases "q = ?new")
        case True
        with pn show ?thesis using links_sym_new_new [OF fresh empty] by simp
      next
        case False
        with q obtain q0 where "q0 \<in> set kb" "q = link_mark np q0" by auto
        with pn show ?thesis using links_sym_mark_new [OF wf fresh _ empty] links_sym_commute by metis
      qed
    next
      case False
      with p obtain p0 where p0: "p0 \<in> set kb" "p = link_mark np p0" by auto
      show ?thesis
      proof (cases "q = ?new")
        case True
        with p0 show ?thesis using links_sym_mark_new [OF wf fresh _ empty] by metis
      next
        case False
        with q obtain q0 where q0: "q0 \<in> set kb" "q = link_mark np q0" by auto
        have "links_sym p0 q0" using wf p0(1) q0(1) by (simp add: links_wf_def)
        with p0 q0 show ?thesis
          using links_sym_mark links_wf_fresh_facts(3) [OF wf fresh] by metis
      qed
    qed
  qed
  have "links_wf (map (link_mark np) kb @ [?new])"
    using loc sym d fresh ids by (simp add: links_wf_def kb_distinct_def)
  then show ?thesis
    by (simp add: link_spec_def)
qed


lemma links_wf_insert_isolated:
  assumes wf: "links_wf kb" and fresh: "prop_id np \<notin> set (kb_ids kb)"
    and empty: "ed_supports np = []" "ed_contradicts np = []"
  shows "links_wf (kb @ [np])"
proof -
  have loc: "links_local_wf (insert (prop_id np) (set (kb_ids kb))) p" if "p \<in> set kb" for p
    using wf that by (auto simp: links_wf_def links_local_wf_def)
  have "links_sym p np" if "p \<in> set kb" for p
    using links_wf_fresh_facts [OF wf fresh that] empty by (simp add: links_sym_def)
  then show ?thesis
    using wf fresh empty loc links_sym_commute
    by (auto simp: links_wf_def kb_distinct_def links_local_wf_def links_sym_def)
qed

lemma find_and_link_wf:
  assumes "links_wf kb" "prop_id np \<notin> set (kb_ids kb)"
    "ed_supports np = []" "ed_contradicts np = []"
  shows "links_wf (snd (find_and_link_evidence_era np kb) @ [fst (find_and_link_evidence_era np kb)])"
proof -
  have "link_loop np kb = link_loop_form np kb"
    using assms by (intro link_loop_spec) (simp_all add: links_wf_def kb_distinct_def)
  then have spec: "link_loop np kb = link_spec np kb"
    using link_spec_fresh [OF assms(1,2)] by simp
  show ?thesis
    using links_wf_insert_isolated [OF assms] links_wf_link_spec [OF assms]
    by (cases "kb = []") (simp_all add: find_and_link_evidence_era_def spec)
qed

subsection \<open>Properties of the linker\<close>

lemma links_wf_kb_edges:
  "links_wf kb \<longleftrightarrow> distinct (map fst (kb_edges kb)) \<and>
     (\<forall>(i, ss, cs)\<in>set (kb_edges kb). distinct ss \<and> distinct cs \<and> set ss \<inter> set cs = {} \<and>
        i \<notin> set ss \<and> i \<notin> set cs \<and> set ss \<subseteq> set (map fst (kb_edges kb)) \<and> set cs \<subseteq> set (map fst (kb_edges kb))) \<and>
     (\<forall>(i, ss, cs)\<in>set (kb_edges kb). \<forall>(j, ts, ds)\<in>set (kb_edges kb).
        (j \<in> set ss \<longleftrightarrow> i \<in> set ts) \<and> (j \<in> set cs \<longleftrightarrow> i \<in> set ds))"
  by (auto simp: links_wf_def links_local_wf_def links_sym_def kb_distinct_def kb_ids_kb_edges)
     (auto simp: kb_edges_def)

lemma links_wf_same_edges: "kb_edges kb' = kb_edges kb \<Longrightarrow> links_wf kb' = links_wf kb"
  by (simp only: links_wf_kb_edges)

lemma link_phase_wf:
  "links_wf kb \<Longrightarrow> \<forall>p\<in>set ps. ed_supports p = [] \<and> ed_contradicts p = [] \<Longrightarrow>
     links_wf (link_phase kb ps)"
proof (induction ps arbitrary: kb)
  case Nil
  then show ?case by simp
next
  case (Cons p ps)
  show ?case
  proof (cases "prop_id p \<in> set (kb_ids kb)")
    case True
    with Cons show ?thesis by simp
  next
    case False
    with Cons.prems have "links_wf (snd (find_and_link_evidence_era p kb) @ [fst (find_and_link_evidence_era p kb)])"
      by (intro find_and_link_wf) simp_all
    with False Cons show ?thesis by simp
  qed
qed

text \<open>C1. The link phase of the pipeline keeps the link graph well formed: starting
  from a well-formed knowledge base and linking freshly extracted propositions (empty
  edge lists), every support and contradiction edge is symmetric, no list holds an id
  twice or its own id, no pair is both supporting and contradicting, and every edge
  names a proposition of the knowledge base.\<close>

theorem link_phase_preserves_wf:
  "links_wf kb \<Longrightarrow> \<forall>p\<in>set ps. ed_supports p = [] \<and> ed_contradicts p = [] \<Longrightarrow>
     links_wf (link_phase kb ps)"
  by (rule link_phase_wf)

theorem link_phase_preserves_wf_witness:
  "links_wf [] \<and>
   ed_supports (ex_prop ''p1'' ''sky'' ''be'' ''blue'' False) = [] \<and>
   ed_contradicts (ex_prop ''p1'' ''sky'' ''be'' ''blue'' False) = [] \<and>
   ed_supports (ex_prop ''p2'' ''sky'' ''be'' ''blue'' True) = [] \<and>
   ed_contradicts (ex_prop ''p2'' ''sky'' ''be'' ''blue'' True) = [] \<and>
   links_wf (link_phase [] [ex_prop ''p1'' ''sky'' ''be'' ''blue'' False, ex_prop ''p2'' ''sky'' ''be'' ''blue'' True])"
proof -
  have h1: "links_wf []" by (simp add: links_wf_def kb_distinct_def)
  have h2: "\<forall>p\<in>set [ex_prop ''p1'' ''sky'' ''be'' ''blue'' False, ex_prop ''p2'' ''sky'' ''be'' ''blue'' True].
      ed_supports p = [] \<and> ed_contradicts p = []"
    by (simp add: make_proposition_def make_epistemic_data_def)
  show ?thesis using link_phase_preserves_wf [OF h1 h2] h1 h2 by simp
qed

text \<open>C2. For a fresh, linkable proposition and a non-empty well-formed knowledge
  base, \<^verbatim>\<open>find_and_link_evidence_era\<close> computes the batch specification of
  \<^verbatim>\<open>spec.md\<close> \<section>4.2: the new proposition gains the ids of the old ones it supports or
  contradicts, in knowledge-base order, and each old proposition gains exactly the
  new id, appended to its supports list when the pair is classified as support and
  to its contradicts list when it is classified as contradiction (\<open>link_mark\<close>,
  which is written with \<open>append_links\<close>, not with the code's \<open>link_update\<close>).\<close>

theorem find_and_link_refines_spec:
  assumes "links_wf kb" "prop_id np \<notin> set (kb_ids kb)" "ed_supports np = []" "ed_contradicts np = []"
    "kb \<noteq> []" "linkable np"
  shows "find_and_link_evidence_era np kb = link_spec np kb"
proof -
  have "link_loop np kb = link_loop_form np kb"
    using assms by (intro link_loop_spec) (simp_all add: links_wf_def kb_distinct_def)
  then have "link_loop np kb = link_spec np kb"
    using link_spec_fresh [OF assms(1,2)] by simp
  with assms(5,6) show ?thesis by (simp add: find_and_link_evidence_era_def)
qed

theorem find_and_link_refines_spec_witness:
  "links_wf [make_proposition ''The sky is blue.'' (make_epistemic_data ''src1'' 0.8 None) ''p1''
        (Some ''sky'') (Some ''be'') (Some ''blue'') False] \<and>
   ''p2'' \<notin> set (kb_ids [make_proposition ''The sky is blue.'' (make_epistemic_data ''src1'' 0.8 None) ''p1''
        (Some ''sky'') (Some ''be'') (Some ''blue'') False]) \<and>
   find_and_link_evidence_era
     (make_proposition ''The sky is not blue.'' (make_epistemic_data ''src2'' 0.7 None) ''p2''
        (Some ''sky'') (Some ''be'') (Some ''blue'') True)
     [make_proposition ''The sky is blue.'' (make_epistemic_data ''src1'' 0.8 None) ''p1''
        (Some ''sky'') (Some ''be'') (Some ''blue'') False] =
   link_spec
     (make_proposition ''The sky is not blue.'' (make_epistemic_data ''src2'' 0.7 None) ''p2''
        (Some ''sky'') (Some ''be'') (Some ''blue'') True)
     [make_proposition ''The sky is blue.'' (make_epistemic_data ''src1'' 0.8 None) ''p1''
        (Some ''sky'') (Some ''be'') (Some ''blue'') False]"
  using find_and_link_refines_spec [of "[make_proposition ''The sky is blue.'' (make_epistemic_data ''src1'' 0.8 None) ''p1''
        (Some ''sky'') (Some ''be'') (Some ''blue'') False]"
      "make_proposition ''The sky is not blue.'' (make_epistemic_data ''src2'' 0.7 None) ''p2''
        (Some ''sky'') (Some ''be'') (Some ''blue'') True"]
  by (simp add: links_wf_def links_local_wf_def links_sym_def kb_distinct_def make_proposition_def
      make_epistemic_data_def linkable_def)

text \<open>C3. Direct contradiction (rule 1 of \<^verbatim>\<open>spec.md\<close> \<section>4.2, line 91): two claims with
  the same subject and relation and equal values after \<^verbatim>\<open>strip()\<close> but opposite
  negation are classified as contradicting.\<close>

theorem direct_contradiction:
  assumes "subject_lemma np = Some s" "subject_lemma op = Some s"
    "relation_lemma np = Some r" "relation_lemma op = Some r"
    "map_option py_strip (value_lemma np) = map_option py_strip (value_lemma op)"
    "is_negated np \<noteq> is_negated op"
  shows "classify_pair np op = Contradiction"
  using assms by (simp add: classify_pair_def)

theorem direct_contradiction_witness:
  "classify_pair (ex_prop ''p2'' ''sky'' ''be'' ''blue'' True) (ex_prop ''p1'' ''sky'' ''be'' ''blue'' False)
     = Contradiction"
  by (rule direct_contradiction [of _ "''sky''" _ "''be''"]) (simp_all add: make_proposition_def)

text \<open>C4. Opposite-concept contradiction (rule 2, line 93): same subject and relation,
  values related in the bidirectional opposites table, same negation.\<close>

theorem opposite_concept_contradiction:
  assumes "subject_lemma np = Some s" "subject_lemma op = Some s"
    "relation_lemma np = Some r" "relation_lemma op = Some r"
    "lex_related bidirectional_opposites (map_option py_strip (value_lemma np)) (map_option py_strip (value_lemma op))"
    "is_negated np = is_negated op"
  shows "classify_pair np op = Contradiction"
  using assms by (simp add: classify_pair_def)

theorem opposite_concept_contradiction_witness:
  "classify_pair (ex_prop ''p8'' ''e'' ''be'' ''cold'' False) (ex_prop ''p7'' ''e'' ''be'' ''hot'' False)
     = Contradiction"
proof -
  have "lex_related bidirectional_opposites (Some ''cold'') (Some ''hot'')" by code_simp
  then show ?thesis
    by (intro opposite_concept_contradiction [of _ "''e''" _ "''be''"])
       (simp_all add: make_proposition_def py_strip_def py_isspace_def)
qed

text \<open>C5. Support (rule 3, line 95): same subject, relation and negation, values not
  opposite, and equal or related in the bidirectional synonyms table.\<close>

theorem synonym_support:
  assumes "subject_lemma np = Some s" "subject_lemma op = Some s"
    "relation_lemma np = Some r" "relation_lemma op = Some r"
    "is_negated np = is_negated op"
    "\<not> lex_related bidirectional_opposites (map_option py_strip (value_lemma np)) (map_option py_strip (value_lemma op))"
    "map_option py_strip (value_lemma np) = map_option py_strip (value_lemma op) \<or>
     lex_related bidirectional_synonyms (map_option py_strip (value_lemma np)) (map_option py_strip (value_lemma op))"
  shows "classify_pair np op = Support"
  using assms by (auto simp: classify_pair_def Let_def)

theorem synonym_support_witness:
  "classify_pair (ex_prop ''p6'' ''d'' ''be'' ''big'' False) (ex_prop ''p5'' ''d'' ''be'' ''large'' False)
     = Support"
proof -
  have "\<not> lex_related bidirectional_opposites (Some ''big'') (Some ''large'')" by code_simp
  moreover have "lex_related bidirectional_synonyms (Some ''big'') (Some ''large'')" by code_simp
  ultimately show ?thesis
    by (intro synonym_support [of _ "''d''" _ "''be''"])
       (simp_all add: make_proposition_def py_strip_def py_isspace_def)
qed

text \<open>C6. Relational opposition (rule 4, lines 99--106): same subject, different
  relations, equal (unstripped) values, same negation, and relations related in the
  opposites table.\<close>

theorem relational_opposition:
  assumes "subject_lemma np = Some s" "subject_lemma op = Some s"
    "relation_lemma np \<noteq> relation_lemma op"
    "value_lemma np = Some v" "value_lemma op = Some v"
    "is_negated np = is_negated op"
    "lex_related bidirectional_opposites (relation_lemma np) (relation_lemma op)"
  shows "classify_pair np op = Contradiction"
  using assms by (simp add: classify_pair_def)

theorem relational_opposition_witness:
  "classify_pair (ex_prop ''q2'' ''price'' ''decrease'' ''tax'' False)
     (ex_prop ''q1'' ''price'' ''increase'' ''tax'' False) = Contradiction"
proof -
  have "lex_related bidirectional_opposites (Some ''decrease'') (Some ''increase'')" by code_simp
  then show ?thesis
    by (intro relational_opposition [of _ "''price''" _ "''tax''"]) (simp_all add: make_proposition_def)
qed

text \<open>C7. The linker never relates propositions about different subjects, nor one
  without a subject: every link implies equal, present subjects. This is what makes
  partitioning the knowledge base by subject (\<^verbatim>\<open>spec.md\<close> \<section>5) sound.\<close>

theorem links_only_same_subject:
  "classify_pair np op \<noteq> No_Link \<Longrightarrow> subject_lemma np \<noteq> None \<and> subject_lemma np = subject_lemma op"
  by (cases "subject_lemma np") (auto simp: classify_pair_def Let_def split: if_splits)

theorem links_only_same_subject_witness:
  "classify_pair (ex_prop ''p2'' ''sky'' ''be'' ''blue'' True) (ex_prop ''p1'' ''sky'' ''be'' ''blue'' False) \<noteq> No_Link \<and>
   subject_lemma (ex_prop ''p2'' ''sky'' ''be'' ''blue'' True) \<noteq> None \<and>
   subject_lemma (ex_prop ''p2'' ''sky'' ''be'' ''blue'' True) = subject_lemma (ex_prop ''p1'' ''sky'' ''be'' ''blue'' False)"
proof -
  have h: "classify_pair (ex_prop ''p2'' ''sky'' ''be'' ''blue'' True) (ex_prop ''p1'' ''sky'' ''be'' ''blue'' False) \<noteq> No_Link"
    by (simp add: classify_pair_def make_proposition_def)
  show ?thesis using links_only_same_subject [OF h] h by blast
qed

text \<open>C8. A new proposition missing its subject, relation or value (\<^verbatim>\<open>None\<close> or the
  empty string, line 75) is not linked: the knowledge base and the proposition are
  returned unchanged.\<close>

theorem unlinkable_unchanged:
  "\<not> linkable np \<Longrightarrow> find_and_link_evidence_era np kb = (np, kb)"
  by (simp add: find_and_link_evidence_era_def)

theorem unlinkable_unchanged_witness:
  "\<not> linkable (make_proposition ''It rains.'' (make_epistemic_data ''s'' 0.5 None) ''p3'' (Some ''it'') (Some ''rain'') None False) \<and>
   find_and_link_evidence_era
     (make_proposition ''It rains.'' (make_epistemic_data ''s'' 0.5 None) ''p3'' (Some ''it'') (Some ''rain'') None False)
     [ex_prop ''p1'' ''sky'' ''be'' ''blue'' False] =
   (make_proposition ''It rains.'' (make_epistemic_data ''s'' 0.5 None) ''p3'' (Some ''it'') (Some ''rain'') None False,
    [ex_prop ''p1'' ''sky'' ''be'' ''blue'' False])"
proof -
  have h: "\<not> linkable (make_proposition ''It rains.'' (make_epistemic_data ''s'' 0.5 None) ''p3'' (Some ''it'') (Some ''rain'') None False)"
    by (simp add: linkable_def make_proposition_def)
  show ?thesis using unlinkable_unchanged [OF h] h by simp
qed

text \<open>C9. Only the new proposition is checked for missing lemmas (line 75): an old
  proposition with the same subject and relation but no value is still classified, and
  this theorem gives its class for every new claim with a value \<open>v\<close>. When the
  negations agree it is a contradiction if \<open>v\<close> has no opposite, because
  \<^verbatim>\<open>bidirectional_opposites.get(nv)\<close> is \<^verbatim>\<open>None\<close> and equals the old value
  \<^verbatim>\<open>None\<close> (line 93), and otherwise a support if \<open>v\<close> has no synonym, by the same
  comparison in line 95. \<^verbatim>\<open>spec.md\<close> \<section>4.2 says such a pair is skipped.\<close>

theorem missing_value_contradicted:
  assumes "subject_lemma np \<noteq> None" "subject_lemma op = subject_lemma np"
    and "relation_lemma np \<noteq> None" "relation_lemma op = relation_lemma np"
    and "value_lemma np = Some v" "value_lemma op = None"
  shows "classify_pair np op =
           (if is_negated np \<noteq> is_negated op then No_Link
            else if map_of bidirectional_opposites (py_strip v) = None then Contradiction
            else if map_of bidirectional_synonyms (py_strip v) = None then Support
            else No_Link)"
  using assms by (simp add: classify_pair_def lex_related_def Let_def)

theorem missing_value_contradicted_witness:
  "subject_lemma (ex_prop ''n1'' ''sky'' ''be'' ''blue'' False) \<noteq> None \<and>
   subject_lemma (make_proposition ''The sky is.'' (make_epistemic_data ''s'' 0.5 None) ''o1'' (Some ''sky'') (Some ''be'') None False) =
     subject_lemma (ex_prop ''n1'' ''sky'' ''be'' ''blue'' False) \<and>
   relation_lemma (ex_prop ''n1'' ''sky'' ''be'' ''blue'' False) \<noteq> None \<and>
   relation_lemma (make_proposition ''The sky is.'' (make_epistemic_data ''s'' 0.5 None) ''o1'' (Some ''sky'') (Some ''be'') None False) =
     relation_lemma (ex_prop ''n1'' ''sky'' ''be'' ''blue'' False) \<and>
   value_lemma (ex_prop ''n1'' ''sky'' ''be'' ''blue'' False) = Some ''blue'' \<and>
   value_lemma (make_proposition ''The sky is.'' (make_epistemic_data ''s'' 0.5 None) ''o1'' (Some ''sky'') (Some ''be'') None False) = None \<and>
   classify_pair (ex_prop ''n1'' ''sky'' ''be'' ''blue'' False)
     (make_proposition ''The sky is.'' (make_epistemic_data ''s'' 0.5 None) ''o1'' (Some ''sky'') (Some ''be'') None False) =
   (if is_negated (ex_prop ''n1'' ''sky'' ''be'' ''blue'' False) \<noteq>
       is_negated (make_proposition ''The sky is.'' (make_epistemic_data ''s'' 0.5 None) ''o1'' (Some ''sky'') (Some ''be'') None False)
    then No_Link
    else if map_of bidirectional_opposites (py_strip ''blue'') = None then Contradiction
    else if map_of bidirectional_synonyms (py_strip ''blue'') = None then Support
    else No_Link)"
  using missing_value_contradicted
    [of "ex_prop ''n1'' ''sky'' ''be'' ''blue'' False"
        "make_proposition ''The sky is.'' (make_epistemic_data ''s'' 0.5 None) ''o1'' (Some ''sky'') (Some ''be'') None False"
        "''blue''"]
  by (simp add: make_proposition_def)

text \<open>The relational rule consults the value-opposites table, not the
  \<^verbatim>\<open>relational_contradictions\<close> table of lines 53--58 (which no code reads): the
  \<^verbatim>\<open>spec.md\<close> example "bigger" against "smaller" is not linked at all.\<close>

theorem bigger_smaller_not_linked:
  "classify_pair (ex_prop ''r2'' ''a'' ''smaller'' ''b'' False) (ex_prop ''r1'' ''a'' ''bigger'' ''b'' False) = No_Link"
proof -
  have "\<not> lex_related bidirectional_opposites (Some ''smaller'') (Some ''bigger'')" by code_simp
  then show ?thesis by (simp add: classify_pair_def make_proposition_def)
qed

end
