(* ===== verification/Bias_Detector.thy ===== *)
theory Bias_Detector
  imports Core_Classes
begin

text \<open>
  The bias heuristics of \<^verbatim>\<open>src/aee_bias_detector.py\<close>.
  \<open>subjects_of_interest\<close> is the \<^verbatim>\<open>defaultdict(list)\<close> of lines 19--21 (subjects in
  first-seen order, each with the ids of its propositions in knowledge-base order);
  \<open>diversity_step\<close> is the body of the loop over it (lines 24--37);
  \<open>detect_source_diversity_bias\<close> the whole function; \<open>balance_flag\<close> and
  \<open>detect_argument_balance_bias\<close> the argument-balance check (lines 40--52); and
  \<open>run_bias_detection_v3\<close> the driver with its empty-knowledge-base guard. The
  thresholds are parameters as in the source (Python ints as \<open>int\<close>, floats as
  \<open>real\<close>); the driver passes the defaults 2, 0.6, 2 and 0.7.
  \<open>monoculture_hit\<close> and \<open>monoculture_spec\<close> state per proposition what
  \<^verbatim>\<open>spec.md\<close> \<section>4.3 promises; the main lemma is that the grouped, mutating loop
  computes exactly that.
\<close>

definition add_flag :: "label \<Rightarrow> Proposition \<Rightarrow> Proposition" where
  "add_flag f p = epistemic_data_update (bias_flags_update (list_append_new f)) p"

definition add_to_group :: "string \<Rightarrow> prop_id \<Rightarrow> (string \<times> prop_id list) list \<Rightarrow> (string \<times> prop_id list) list" where
  "add_to_group s i g = AList.update s ((case map_of g s of None \<Rightarrow> [] | Some xs \<Rightarrow> xs) @ [i]) g"

definition subjects_of_interest :: "kb \<Rightarrow> (string \<times> prop_id list) list" where
  "subjects_of_interest kb =
     fold (\<lambda>p g. if py_truthy (subject_lemma p) then add_to_group (the (subject_lemma p)) (prop_id p) g else g)
       kb []"

definition source_type_bucket :: "Proposition \<Rightarrow> string" where
  "source_type_bucket p =
     (if py_truthy (source_type (epistemic_data p)) then the (source_type (epistemic_data p)) else ''unknown_type'')"

definition flag_props :: "label \<Rightarrow> prop_id list \<Rightarrow> kb \<Rightarrow> kb" where
  "flag_props f ids kb = map (\<lambda>p. if prop_id p \<in> set ids then add_flag f p else p) kb"

definition high_conf_props :: "real \<Rightarrow> kb \<Rightarrow> prop_id list \<Rightarrow> Proposition list" where
  "high_conf_props cthr kb ids =
     filter (\<lambda>p. cthr \<le> initial_confidence (epistemic_data p)) (List.map_filter (kb_get kb) ids)"

definition diversity_step :: "int \<Rightarrow> real \<Rightarrow> int \<Rightarrow> kb \<Rightarrow> prop_id list \<Rightarrow> kb" where
  "diversity_step sthr cthr dthr kb ids =
     (if sthr \<le> int (length ids) then
        (let hc = high_conf_props cthr kb ids;
             types = set (map source_type_bucket hc)
         in if int (card types) < dthr \<and> hc \<noteq> [] then flag_props ''SOURCE_MONOCULTURE'' (map prop_id hc) kb
            else kb)
      else kb)"

definition detect_source_diversity_bias :: "int \<Rightarrow> real \<Rightarrow> int \<Rightarrow> kb \<Rightarrow> kb" where
  "detect_source_diversity_bias sthr cthr dthr kb =
     fold (\<lambda>(s, ids) kb'. diversity_step sthr cthr dthr kb' ids) (subjects_of_interest kb) kb"

definition balance_flag :: "real \<Rightarrow> Proposition \<Rightarrow> Proposition" where
  "balance_flag cthr p =
     (if cthr \<le> ed_conf p \<and> ed_supports p \<noteq> [] \<and> ed_contradicts p = []
      then add_flag ''POTENTIAL_UNBALANCED_ARG'' p else p)"

definition detect_argument_balance_bias :: "real \<Rightarrow> kb \<Rightarrow> kb" where
  "detect_argument_balance_bias cthr kb = map (balance_flag cthr) kb"

definition run_bias_detection_v3 :: "kb \<Rightarrow> kb" where
  "run_bias_detection_v3 kb =
     (if kb = [] then kb
      else detect_argument_balance_bias 0.7 (detect_source_diversity_bias 2 0.6 2 kb))"

text \<open>The per-proposition specification of the source-diversity check.\<close>

definition subject_group :: "kb \<Rightarrow> string \<Rightarrow> Proposition list" where
  "subject_group kb s = filter (\<lambda>q. subject_lemma q = Some s) kb"

definition monoculture_hit :: "int \<Rightarrow> real \<Rightarrow> int \<Rightarrow> kb \<Rightarrow> Proposition \<Rightarrow> bool" where
  "monoculture_hit sthr cthr dthr kb p \<longleftrightarrow>
     py_truthy (subject_lemma p) \<and>
     sthr \<le> int (length (subject_group kb (the (subject_lemma p)))) \<and>
     cthr \<le> initial_confidence (epistemic_data p) \<and>
     int (card (set (map source_type_bucket
        (filter (\<lambda>q. cthr \<le> initial_confidence (epistemic_data q)) (subject_group kb (the (subject_lemma p))))))) < dthr"

definition monoculture_spec :: "int \<Rightarrow> real \<Rightarrow> int \<Rightarrow> kb \<Rightarrow> kb" where
  "monoculture_spec sthr cthr dthr kb =
     map (\<lambda>p. if monoculture_hit sthr cthr dthr kb p then add_flag ''SOURCE_MONOCULTURE'' p else p) kb"

definition mono_mark :: "int \<Rightarrow> real \<Rightarrow> int \<Rightarrow> kb \<Rightarrow> string set \<Rightarrow> kb" where
  "mono_mark sthr cthr dthr kb S =
     map (\<lambda>p. if (\<exists>s\<in>S. subject_lemma p = Some s) \<and> monoculture_hit sthr cthr dthr kb p
               then add_flag ''SOURCE_MONOCULTURE'' p else p) kb"

definition flag_grows :: "Proposition \<Rightarrow> Proposition \<Rightarrow> bool" where
  "flag_grows p q \<longleftrightarrow> prop_id q = prop_id p \<and> set (ed_flags p) \<subseteq> set (ed_flags q) \<and>
     (distinct (ed_flags p) \<longrightarrow> distinct (ed_flags q)) \<and>
     ed_supports q = ed_supports p \<and> ed_contradicts q = ed_contradicts p"

text \<open>Propositions of the \<^verbatim>\<open>spec.md\<close> \<section>8 examples: claims about "ai" with a
  source type and an initial confidence.\<close>

abbreviation bias_ex :: "prop_id \<Rightarrow> string \<Rightarrow> string option \<Rightarrow> real \<Rightarrow> Proposition" where
  "bias_ex i v st ic \<equiv> make_proposition (''AI '' @ v) (make_epistemic_data i ic st) i
     (Some ''ai'') (Some ''be'') (Some v) False"

subsection \<open>Flags\<close>

lemma add_flag_frame [simp]:
  "prop_id (add_flag f p) = prop_id p"
  "subject_lemma (add_flag f p) = subject_lemma p"
  "relation_lemma (add_flag f p) = relation_lemma p"
  "value_lemma (add_flag f p) = value_lemma p"
  "is_negated (add_flag f p) = is_negated p"
  "initial_confidence (epistemic_data (add_flag f p)) = initial_confidence (epistemic_data p)"
  "computed_confidence (epistemic_data (add_flag f p)) = computed_confidence (epistemic_data p)"
  "source_type (epistemic_data (add_flag f p)) = source_type (epistemic_data p)"
  "source_id (epistemic_data (add_flag f p)) = source_id (epistemic_data p)"
  "supports (epistemic_data (add_flag f p)) = supports (epistemic_data p)"
  "contradicts (epistemic_data (add_flag f p)) = contradicts (epistemic_data p)"
  "bias_flags (epistemic_data (add_flag f p)) = list_append_new f (bias_flags (epistemic_data p))"
  by (simp_all add: add_flag_def)

lemma source_type_bucket_add_flag [simp]: "source_type_bucket (add_flag f p) = source_type_bucket p"
  by (simp add: source_type_bucket_def)

lemma flag_grows_refl [simp]: "flag_grows p p"
  by (simp add: flag_grows_def)

lemma flag_grows_trans: "flag_grows p q \<Longrightarrow> flag_grows q r \<Longrightarrow> flag_grows p r"
  by (auto simp: flag_grows_def)

lemma flag_grows_add_flag [simp]: "flag_grows p (add_flag f p)"
  by (auto simp: flag_grows_def)

lemma list_all2_flag_grows_trans:
  "list_all2 flag_grows xs ys \<Longrightarrow> list_all2 flag_grows ys zs \<Longrightarrow> list_all2 flag_grows xs zs"
  by (rule list_all2_trans [of flag_grows flag_grows flag_grows]) (blast intro: flag_grows_trans)+

lemma list_all2_flag_grows_map:
  "(\<And>p. flag_grows p (g p)) \<Longrightarrow> list_all2 flag_grows kb (map g kb)"
  by (induction kb) auto

lemma list_all2_flag_grows_refl: "list_all2 flag_grows kb kb"
  by (induction kb) auto

lemma diversity_step_grows: "list_all2 flag_grows kb (diversity_step sthr cthr dthr kb ids)"
  by (auto simp: diversity_step_def flag_props_def Let_def list_all2_flag_grows_refl
      intro!: list_all2_flag_grows_map)

lemma fold_diversity_step_grows:
  "list_all2 flag_grows kb (fold (\<lambda>(s, ids) kb'. diversity_step sthr cthr dthr kb' ids) G kb)"
proof (induction G arbitrary: kb)
  case Nil
  then show ?case by (simp add: list_all2_flag_grows_refl)
next
  case (Cons g G)
  obtain s ids where g: "g = (s, ids)" by (cases g)
  have "list_all2 flag_grows kb (diversity_step sthr cthr dthr kb ids)"
    by (rule diversity_step_grows)
  moreover have "list_all2 flag_grows (diversity_step sthr cthr dthr kb ids)
      (fold (\<lambda>(s, ids) kb'. diversity_step sthr cthr dthr kb' ids) G (diversity_step sthr cthr dthr kb ids))"
    by (rule Cons.IH)
  ultimately show ?case using g by (simp add: list_all2_flag_grows_trans)
qed

lemma run_bias_detection_grows: "list_all2 flag_grows kb (run_bias_detection_v3 kb)"
proof -
  have "list_all2 flag_grows kb (detect_source_diversity_bias 2 0.6 2 kb)"
    by (simp add: detect_source_diversity_bias_def fold_diversity_step_grows)
  moreover have "list_all2 flag_grows (detect_source_diversity_bias 2 0.6 2 kb)
      (detect_argument_balance_bias 0.7 (detect_source_diversity_bias 2 0.6 2 kb))"
    by (auto simp: detect_argument_balance_bias_def balance_flag_def intro!: list_all2_flag_grows_map)
  ultimately show ?thesis
    by (auto simp: run_bias_detection_v3_def list_all2_flag_grows_refl intro: list_all2_flag_grows_trans)
qed

lemma kb_edges_run_bias_detection [simp]: "kb_edges (run_bias_detection_v3 kb) = kb_edges kb"
  by (rule kb_edges_list_all2, rule list_all2_mono [OF run_bias_detection_grows]) (simp add: flag_grows_def)

subsection \<open>The source-diversity check refines its specification\<close>

lemma subjects_of_interest_snoc:
  "subjects_of_interest (kb @ [p]) =
     (if py_truthy (subject_lemma p) then add_to_group (the (subject_lemma p)) (prop_id p) (subjects_of_interest kb)
      else subjects_of_interest kb)"
  by (simp add: subjects_of_interest_def)

lemma distinct_subjects_of_interest: "distinct (map fst (subjects_of_interest kb))"
proof (induction kb rule: rev_induct)
  case Nil
  then show ?case by (simp add: subjects_of_interest_def)
next
  case (snoc p kb)
  then show ?case by (simp add: subjects_of_interest_snoc add_to_group_def distinct_update)
qed

lemma map_of_subjects_of_interest:
  "map_of (subjects_of_interest kb) s =
     (if s \<noteq> [] \<and> subject_group kb s \<noteq> [] then Some (map prop_id (subject_group kb s)) else None)"
proof (induction kb rule: rev_induct)
  case Nil
  then show ?case by (simp add: subjects_of_interest_def subject_group_def)
next
  case (snoc p kb)
  show ?case
  proof (cases "py_truthy (subject_lemma p)")
    case True
    then obtain t where t: "subject_lemma p = Some t" "t \<noteq> []"
      by (cases "subject_lemma p") auto
    with snoc show ?thesis
      by (auto simp: subjects_of_interest_snoc add_to_group_def update_conv' subject_group_def)
  next
    case False
    then have "subject_lemma p = Some s \<Longrightarrow> s = []"
      by (cases "subject_lemma p") auto
    with False snoc show ?thesis
      by (auto simp: subjects_of_interest_snoc subject_group_def)
  qed
qed


lemma map_filter_kb_get_map:
  assumes "kb_distinct kb" "\<And>p. prop_id (f p) = prop_id p" "set xs \<subseteq> set kb"
  shows "List.map_filter (kb_get (map f kb)) (map prop_id xs) = map f xs"
proof -
  have d: "kb_distinct (map f kb)"
    using assms(1,2) by (simp add: kb_distinct_def kb_ids_def comp_def)
  have "kb_get (map f kb) (prop_id p) = Some (f p)" if "p \<in> set kb" for p
    using kb_get_in_distinct [OF d, of "f p"] that assms(2) by simp
  with assms(3) show ?thesis
    by (induction xs) (auto simp: List.map_filter_def)
qed

lemma diversity_step_mark:
  assumes d: "kb_distinct kb" and s: "s \<notin> S" "s \<noteq> []"
  shows "diversity_step sthr cthr dthr (mono_mark sthr cthr dthr kb S) (map prop_id (subject_group kb s)) =
         mono_mark sthr cthr dthr kb (insert s S)"
proof -
  let ?g = "subject_group kb s"
  let ?hc = "filter (\<lambda>q. cthr \<le> initial_confidence (epistemic_data q)) ?g"
  let ?f = "\<lambda>p. if (\<exists>s\<in>S. subject_lemma p = Some s) \<and> monoculture_hit sthr cthr dthr kb p
               then add_flag ''SOURCE_MONOCULTURE'' p else p"
  have fid: "prop_id (?f p) = prop_id p" for p by simp
  have gsub: "set ?g \<subseteq> set kb" by (auto simp: subject_group_def)
  have unmarked: "map ?f ?g = ?g"
    by (rule map_idI) (use s in \<open>auto simp: subject_group_def\<close>)
  have hc: "high_conf_props cthr (mono_mark sthr cthr dthr kb S) (map prop_id ?g) = ?hc"
    unfolding high_conf_props_def mono_mark_def
    using map_filter_kb_get_map [OF d, of ?f, OF fid gsub] unmarked by simp
  have hit: "monoculture_hit sthr cthr dthr kb p \<longleftrightarrow>
      sthr \<le> int (length ?g) \<and> cthr \<le> initial_confidence (epistemic_data p) \<and>
      int (card (set (map source_type_bucket ?hc))) < dthr"
    if "subject_lemma p = Some s" for p
    using that s by (simp add: monoculture_hit_def)
  have inhc: "prop_id p \<in> set (map prop_id ?hc) \<longleftrightarrow> subject_lemma p = Some s \<and> cthr \<le> initial_confidence (epistemic_data p)"
    if "p \<in> set kb" for p
    using that kb_ids_inj [of kb] d by (auto simp: kb_distinct_def subject_group_def)
  have nonempty: "?hc \<noteq> []" if "p \<in> set kb" "subject_lemma p = Some s" "cthr \<le> initial_confidence (epistemic_data p)" for p
    using that by (auto simp: subject_group_def filter_empty_conv)
  show ?thesis
    unfolding diversity_step_def hc Let_def
    using s hit inhc nonempty
    by (auto simp: mono_mark_def flag_props_def)
qed


lemma fold_diversity_step_mark:
  assumes d: "kb_distinct kb"
    and G: "distinct (map fst G)" "\<forall>(s, ids)\<in>set G. s \<noteq> [] \<and> ids = map prop_id (subject_group kb s)"
    and disj: "set (map fst G) \<inter> S = {}"
  shows "fold (\<lambda>(s, ids) kb'. diversity_step sthr cthr dthr kb' ids) G (mono_mark sthr cthr dthr kb S) =
         mono_mark sthr cthr dthr kb (S \<union> set (map fst G))"
  using G disj
proof (induction G arbitrary: S)
  case Nil
  then show ?case by simp
next
  case (Cons g G)
  obtain s ids where g: "g = (s, ids)" by (cases g)
  with Cons.prems have s: "s \<notin> S" "s \<noteq> []" "ids = map prop_id (subject_group kb s)" by auto
  have "diversity_step sthr cthr dthr (mono_mark sthr cthr dthr kb S) ids = mono_mark sthr cthr dthr kb (insert s S)"
    using diversity_step_mark [OF d s(1,2)] s(3) by simp
  moreover have "fold (\<lambda>(s, ids) kb'. diversity_step sthr cthr dthr kb' ids) G (mono_mark sthr cthr dthr kb (insert s S)) =
      mono_mark sthr cthr dthr kb (insert s S \<union> set (map fst G))"
    using Cons.prems g by (intro Cons.IH) auto
  ultimately show ?case using g by simp
qed

lemma mono_mark_empty: "mono_mark sthr cthr dthr kb {} = kb"
  by (simp add: mono_mark_def)

lemma source_diversity_refines_spec:
  assumes "kb_distinct kb"
  shows "detect_source_diversity_bias sthr cthr dthr kb = monoculture_spec sthr cthr dthr kb"
proof -
  let ?G = "subjects_of_interest kb"
  have G: "\<forall>(s, ids)\<in>set ?G. s \<noteq> [] \<and> ids = map prop_id (subject_group kb s)"
  proof (intro ballI, clarify)
    fix s ids assume "(s, ids) \<in> set ?G"
    then have "map_of ?G s = Some ids"
      using distinct_subjects_of_interest by (rule map_of_is_SomeI [rotated])
    then show "s \<noteq> [] \<and> ids = map prop_id (subject_group kb s)"
      by (simp add: map_of_subjects_of_interest split: if_splits)
  qed
  have keys: "(\<exists>s\<in>set (map fst ?G). subject_lemma p = Some s)" if "p \<in> set kb" "monoculture_hit sthr cthr dthr kb p" for p
  proof -
    from that obtain t where t: "subject_lemma p = Some t" "t \<noteq> []"
      by (cases "subject_lemma p") (auto simp: monoculture_hit_def)
    with that(1) have "map_of ?G t \<noteq> None"
      by (auto simp: map_of_subjects_of_interest subject_group_def filter_empty_conv)
    then have "t \<in> set (map fst ?G)"
      by (simp add: map_of_eq_None_iff image_iff)
    with t show ?thesis by blast
  qed
  have "detect_source_diversity_bias sthr cthr dthr kb = mono_mark sthr cthr dthr kb (set (map fst ?G))"
    using fold_diversity_step_mark [OF assms distinct_subjects_of_interest G, of "{}"]
    by (simp add: detect_source_diversity_bias_def mono_mark_empty)
  also have "\<dots> = monoculture_spec sthr cthr dthr kb"
    unfolding mono_mark_def monoculture_spec_def using keys by (intro map_cong) auto
  finally show ?thesis .
qed

subsection \<open>Properties of the bias detector\<close>

text \<open>C11. On a knowledge base with distinct ids, \<^verbatim>\<open>run_bias_detection_v3\<close> adds
  \<^verbatim>\<open>SOURCE_MONOCULTURE\<close> to exactly the propositions \<open>monoculture_hit\<close> selects
  (subject present, subject group of at least 2, initial confidence at least 0.6, fewer
  than 2 source-type buckets among the group's high-confidence members), and then runs
  the argument-balance check: the grouped, in-place loop of the source refines the
  per-proposition rule of \<^verbatim>\<open>spec.md\<close> \<section>4.3.\<close>

theorem run_bias_detection_refines_spec:
  "kb_distinct kb \<Longrightarrow> kb \<noteq> [] \<Longrightarrow>
     run_bias_detection_v3 kb = detect_argument_balance_bias 0.7 (monoculture_spec 2 0.6 2 kb)"
  by (simp add: run_bias_detection_v3_def source_diversity_refines_spec)

theorem run_bias_detection_refines_spec_witness:
  "kb_distinct [bias_ex ''a1'' ''beneficial'' (Some ''blog'') 0.8, bias_ex ''a2'' ''efficient'' (Some ''blog'') 0.7] \<and>
   [bias_ex ''a1'' ''beneficial'' (Some ''blog'') 0.8, bias_ex ''a2'' ''efficient'' (Some ''blog'') 0.7] \<noteq> [] \<and>
   run_bias_detection_v3 [bias_ex ''a1'' ''beneficial'' (Some ''blog'') 0.8, bias_ex ''a2'' ''efficient'' (Some ''blog'') 0.7] =
   detect_argument_balance_bias 0.7
     (monoculture_spec 2 0.6 2 [bias_ex ''a1'' ''beneficial'' (Some ''blog'') 0.8, bias_ex ''a2'' ''efficient'' (Some ''blog'') 0.7])"
proof -
  have h: "kb_distinct [bias_ex ''a1'' ''beneficial'' (Some ''blog'') 0.8, bias_ex ''a2'' ''efficient'' (Some ''blog'') 0.7]"
    by (simp add: kb_distinct_def make_proposition_def)
  show ?thesis using run_bias_detection_refines_spec [OF h] h by simp
qed

text \<open>The argument-balance check flags a proposition exactly when its computed
  confidence is at least the threshold, its support list is non-empty and its
  contradiction list is empty (or it was flagged already).\<close>

theorem argument_balance_flag_iff:
  "''POTENTIAL_UNBALANCED_ARG'' \<in> set (ed_flags (balance_flag cthr p)) \<longleftrightarrow>
     ''POTENTIAL_UNBALANCED_ARG'' \<in> set (ed_flags p) \<or>
     (cthr \<le> ed_conf p \<and> ed_supports p \<noteq> [] \<and> ed_contradicts p = [])"
  by (auto simp: balance_flag_def)

text \<open>C13. Bias flags stay duplicate-free: if no proposition carries a label twice
  before bias detection, none does after it.\<close>

theorem bias_flags_stay_distinct:
  "\<forall>p\<in>set kb. distinct (ed_flags p) \<Longrightarrow> \<forall>q\<in>set (run_bias_detection_v3 kb). distinct (ed_flags q)"
proof (intro ballI)
  fix q
  assume pre: "\<forall>p\<in>set kb. distinct (ed_flags p)" and q: "q \<in> set (run_bias_detection_v3 kb)"
  have g: "list_all2 flag_grows kb (run_bias_detection_v3 kb)"
    by (rule run_bias_detection_grows)
  from q obtain i where i: "i < length (run_bias_detection_v3 kb)" "q = run_bias_detection_v3 kb ! i"
    by (auto simp: in_set_conv_nth)
  with g have "flag_grows (kb ! i) q" "i < length kb"
    by (auto simp: list_all2_conv_all_nth)
  moreover have "distinct (ed_flags (kb ! i))"
    using pre \<open>i < length kb\<close> by simp
  ultimately show "distinct (ed_flags q)"
    by (simp add: flag_grows_def)
qed

theorem bias_flags_stay_distinct_witness:
  "distinct (ed_flags (bias_ex ''a1'' ''beneficial'' (Some ''blog'') 0.8)) \<and>
   list_all (\<lambda>q. distinct (ed_flags q)) (run_bias_detection_v3 [bias_ex ''a1'' ''beneficial'' (Some ''blog'') 0.8])"
proof -
  have h: "\<forall>p\<in>set [bias_ex ''a1'' ''beneficial'' (Some ''blog'') 0.8]. distinct (ed_flags p)"
    by (simp add: make_proposition_def make_epistemic_data_def)
  show ?thesis using bias_flags_stay_distinct [OF h] h by (simp add: list_all_iff)
qed

text \<open>Bias detection is append-only (\<^verbatim>\<open>spec.md\<close> \<section>8 asks whether flags are
  ever retracted): every proposition keeps its id and position, and every flag it had
  is still there afterwards.\<close>

theorem bias_flags_never_retracted:
  "list_all2 (\<lambda>p q. prop_id q = prop_id p \<and> set (ed_flags p) \<subseteq> set (ed_flags q))
     kb (run_bias_detection_v3 kb)"
  using run_bias_detection_grows [of kb]
  by (rule list_all2_mono) (simp add: flag_grows_def)

end
