(* ===== verification/Reliability.thy ===== *)
theory Reliability
  imports Core_Classes
begin

text \<open>
  The source reliability calculator of \<^verbatim>\<open>src/aee_updater_era.py\<close>: the constants of
  lines 16--20, \<^verbatim>\<open>calculate_source_reliability_era\<close> (lines 23--29) and the first
  loop of \<^verbatim>\<open>run_updates_era\<close> (lines 112--116), which walks the \<^verbatim>\<open>set\<close> of source
  ids, computes each source's score from the current knowledge base, records it in
  the \<^verbatim>\<open>source_reliability_scores\<close> dict and writes it into every proposition of
  that source. A Python \<^verbatim>\<open>set\<close> of strings has no fixed iteration order (string
  hashing is randomised per process), so the loop is modelled over an arbitrary
  enumeration \<open>sids\<close> of the set; the lemmas show the result does not depend on it.
\<close>

definition DEFAULT_SOURCE_RELIABILITY :: real where "DEFAULT_SOURCE_RELIABILITY = 0.6"
definition RELIABLE_SOURCE_SCORE :: real where "RELIABLE_SOURCE_SCORE = 0.75"
definition UNRELIABLE_SOURCE_SCORE :: real where "UNRELIABLE_SOURCE_SCORE = 0.35"

definition calculate_source_reliability_era :: "string \<Rightarrow> kb \<Rightarrow> real" where
  "calculate_source_reliability_era sid kb =
     (let props_from_source = filter (\<lambda>p. source_id (epistemic_data p) = sid) kb in
      if props_from_source = [] then DEFAULT_SOURCE_RELIABILITY
      else if list_ex (\<lambda>p. ed_contradicts p \<noteq> []) props_from_source then UNRELIABLE_SOURCE_SCORE
      else RELIABLE_SOURCE_SCORE)"

definition source_ids :: "kb \<Rightarrow> string set" where
  "source_ids kb = (\<lambda>p. source_id (epistemic_data p)) ` set kb"

definition set_reliability :: "string \<Rightarrow> real \<Rightarrow> kb \<Rightarrow> kb" where
  "set_reliability sid r kb =
     map (\<lambda>p. if source_id (epistemic_data p) = sid
               then epistemic_data_update (reliability_score_update (\<lambda>_. Some r)) p else p) kb"

definition reliability_step :: "string \<Rightarrow> kb \<times> (string \<rightharpoonup> real) \<Rightarrow> kb \<times> (string \<rightharpoonup> real)" where
  "reliability_step sid st =
     (let (kb, scores) = st; r = calculate_source_reliability_era sid kb
      in (set_reliability sid r kb, scores(sid \<mapsto> r)))"

definition reliability_loop :: "string list \<Rightarrow> kb \<Rightarrow> kb \<times> (string \<rightharpoonup> real)" where
  "reliability_loop sids kb = fold reliability_step sids (kb, Map.empty)"

text \<open>What the loop promises (\<^verbatim>\<open>spec.md\<close> \<section>4.4), independent of any order.\<close>

definition reliability_spec :: "kb \<Rightarrow> kb \<times> (string \<rightharpoonup> real)" where
  "reliability_spec kb =
     (map (\<lambda>p. epistemic_data_update (reliability_score_update
              (\<lambda>_. Some (calculate_source_reliability_era (source_id (epistemic_data p)) kb))) p) kb,
      \<lambda>sid. if sid \<in> source_ids kb then Some (calculate_source_reliability_era sid kb) else None)"

definition rel_mark :: "kb \<Rightarrow> string set \<Rightarrow> kb" where
  "rel_mark kb S =
     map (\<lambda>p. if source_id (epistemic_data p) \<in> S
               then epistemic_data_update (reliability_score_update
                      (\<lambda>_. Some (calculate_source_reliability_era (source_id (epistemic_data p)) kb))) p
               else p) kb"

definition rel_scores :: "kb \<Rightarrow> string set \<Rightarrow> string \<rightharpoonup> real" where
  "rel_scores kb S = (\<lambda>sid. if sid \<in> S then Some (calculate_source_reliability_era sid kb) else None)"

text \<open>Example propositions: an id, a source and a contradiction list.\<close>

abbreviation rel_ex :: "prop_id \<Rightarrow> string \<Rightarrow> prop_id list \<Rightarrow> Proposition" where
  "rel_ex i sid cs \<equiv> make_proposition i ((make_epistemic_data sid 0.8 None)\<lparr>contradicts := cs\<rparr>) i
     (Some ''x'') (Some ''be'') (Some i) False"

subsection \<open>Reliability does not read what the loop writes\<close>

lemma calculate_map_frame:
  assumes "\<And>p. source_id (epistemic_data (g p)) = source_id (epistemic_data p)"
    "\<And>p. ed_contradicts (g p) = ed_contradicts p"
  shows "calculate_source_reliability_era sid (map g kb) = calculate_source_reliability_era sid kb"
proof -
  have "filter (\<lambda>p. source_id (epistemic_data p) = sid) (map g kb) =
        map g (filter (\<lambda>p. source_id (epistemic_data p) = sid) kb)"
    using assms(1) by (simp add: filter_map comp_def)
  moreover have "list_ex (\<lambda>p. ed_contradicts p \<noteq> []) (map g xs) = list_ex (\<lambda>p. ed_contradicts p \<noteq> []) xs" for xs
    using assms(2) by (induction xs) simp_all
  ultimately show ?thesis
    by (simp add: calculate_source_reliability_era_def Let_def)
qed

lemma calculate_rel_mark [simp]:
  "calculate_source_reliability_era sid (rel_mark kb S) = calculate_source_reliability_era sid kb"
  unfolding rel_mark_def by (rule calculate_map_frame) simp_all

lemma rel_mark_empty: "rel_mark kb {} = kb"
  by (simp add: rel_mark_def)

lemma set_reliability_rel_mark:
  "s \<notin> S \<Longrightarrow>
     set_reliability s (calculate_source_reliability_era s kb) (rel_mark kb S) = rel_mark kb (insert s S)"
  by (auto simp: set_reliability_def rel_mark_def)

lemma fold_reliability_step:
  "distinct sids \<Longrightarrow> set sids \<inter> S = {} \<Longrightarrow>
     fold reliability_step sids (rel_mark kb S, rel_scores kb S) =
     (rel_mark kb (S \<union> set sids), rel_scores kb (S \<union> set sids))"
proof (induction sids arbitrary: S)
  case Nil
  then show ?case by simp
next
  case (Cons s sids)
  have "reliability_step s (rel_mark kb S, rel_scores kb S) = (rel_mark kb (insert s S), rel_scores kb (insert s S))"
    using Cons.prems by (simp add: reliability_step_def set_reliability_rel_mark rel_scores_def fun_eq_iff)
  moreover have "fold reliability_step sids (rel_mark kb (insert s S), rel_scores kb (insert s S)) =
      (rel_mark kb (insert s S \<union> set sids), rel_scores kb (insert s S \<union> set sids))"
    using Cons.prems by (intro Cons.IH) auto
  ultimately show ?case by simp
qed

lemma reliability_loop_spec:
  assumes "distinct sids" "set sids = source_ids kb"
  shows "reliability_loop sids kb = reliability_spec kb"
proof -
  have "reliability_loop sids kb = (rel_mark kb (set sids), rel_scores kb (set sids))"
    using fold_reliability_step [OF assms(1), of "{}" kb]
    by (simp add: reliability_loop_def rel_mark_empty rel_scores_def)
  moreover have "rel_mark kb (source_ids kb) = fst (reliability_spec kb)"
    by (auto simp: rel_mark_def reliability_spec_def source_ids_def)
  ultimately show ?thesis
    using assms(2) by (simp add: reliability_spec_def rel_scores_def prod_eq_iff)
qed

lemma kb_edges_reliability_loop [simp]: "kb_edges (fst (reliability_loop sids kb)) = kb_edges kb"
proof -
  have "kb_edges (fst (fold reliability_step sids st)) = kb_edges (fst st)" for st
    by (induction sids arbitrary: st)
       (auto simp: reliability_step_def set_reliability_def kb_edges_def Let_def split: prod.split)
  then show ?thesis by (simp add: reliability_loop_def)
qed

lemma kb_ids_reliability_loop [simp]: "kb_ids (fst (reliability_loop sids kb)) = kb_ids kb"
  by (simp add: kb_ids_kb_edges)

lemma calculate_source_reliability_present:
  "sid \<in> source_ids kb \<Longrightarrow>
     calculate_source_reliability_era sid kb \<in> {UNRELIABLE_SOURCE_SCORE, RELIABLE_SOURCE_SCORE}"
  by (auto simp: calculate_source_reliability_era_def source_ids_def Let_def filter_empty_conv)

subsection \<open>Properties of the reliability calculator\<close>

text \<open>C15. The reliability loop does not depend on the iteration order of the Python
  \<^verbatim>\<open>set\<close> of source ids: any two enumerations of the sources give the same
  knowledge base and the same score table.\<close>

theorem reliability_loop_order_independent:
  "distinct s1 \<Longrightarrow> distinct s2 \<Longrightarrow> set s1 = source_ids kb \<Longrightarrow> set s2 = source_ids kb \<Longrightarrow>
     reliability_loop s1 kb = reliability_loop s2 kb"
  by (simp add: reliability_loop_spec)

theorem reliability_loop_order_independent_witness:
  "distinct [''s1'', ''s2''] \<and> distinct [''s2'', ''s1''] \<and>
   set [''s1'', ''s2''] = source_ids [rel_ex ''p1'' ''s1'' [''p2''], rel_ex ''p2'' ''s2'' [''p1'']] \<and>
   set [''s2'', ''s1''] = source_ids [rel_ex ''p1'' ''s1'' [''p2''], rel_ex ''p2'' ''s2'' [''p1'']] \<and>
   reliability_loop [''s1'', ''s2''] [rel_ex ''p1'' ''s1'' [''p2''], rel_ex ''p2'' ''s2'' [''p1'']] =
   reliability_loop [''s2'', ''s1''] [rel_ex ''p1'' ''s1'' [''p2''], rel_ex ''p2'' ''s2'' [''p1'']]"
proof -
  have h1: "set [''s1'', ''s2''] = source_ids [rel_ex ''p1'' ''s1'' [''p2''], rel_ex ''p2'' ''s2'' [''p1'']]"
    and h2: "set [''s2'', ''s1''] = source_ids [rel_ex ''p1'' ''s1'' [''p2''], rel_ex ''p2'' ''s2'' [''p1'']]"
    by (auto simp: source_ids_def make_proposition_def make_epistemic_data_def)
  show ?thesis
    using reliability_loop_order_independent [OF _ _ h1 h2] h1 h2 by simp
qed

text \<open>C16. After the loop every proposition carries a reliability score of 0.35 or 0.75
  (\<^verbatim>\<open>spec.md\<close> \<section>8), whatever the enumeration of the sources.\<close>

theorem reliability_scores_bounded:
  "distinct sids \<Longrightarrow> set sids = source_ids kb \<Longrightarrow>
     \<forall>p\<in>set (fst (reliability_loop sids kb)).
        reliability_score (epistemic_data p) \<in> {Some UNRELIABLE_SOURCE_SCORE, Some RELIABLE_SOURCE_SCORE}"
proof -
  assume "distinct sids" "set sids = source_ids kb"
  then have "reliability_loop sids kb = reliability_spec kb" by (rule reliability_loop_spec)
  moreover have "source_id (epistemic_data p) \<in> source_ids kb" if "p \<in> set kb" for p
    using that by (simp add: source_ids_def)
  ultimately show ?thesis
    using calculate_source_reliability_present by (fastforce simp: reliability_spec_def)
qed

theorem reliability_scores_bounded_witness:
  "distinct [''s1''] \<and> set [''s1''] = source_ids [rel_ex ''p1'' ''s1'' []] \<and>
   list_all (\<lambda>p. reliability_score (epistemic_data p) \<in> {Some UNRELIABLE_SOURCE_SCORE, Some RELIABLE_SOURCE_SCORE})
     (fst (reliability_loop [''s1''] [rel_ex ''p1'' ''s1'' []]))"
proof -
  have h: "set [''s1''] = source_ids [rel_ex ''p1'' ''s1'' []]"
    by (simp add: source_ids_def make_proposition_def make_epistemic_data_def)
  show ?thesis using reliability_scores_bounded [OF _ h] h by (simp add: list_all_iff)
qed

text \<open>A source present in the knowledge base is scored unreliable exactly when one
  of its propositions has a non-empty contradiction list, and reliable otherwise.\<close>

theorem reliability_unreliable_iff:
  "sid \<in> source_ids kb \<Longrightarrow>
     calculate_source_reliability_era sid kb =
       (if \<exists>p\<in>set kb. source_id (epistemic_data p) = sid \<and> ed_contradicts p \<noteq> []
        then UNRELIABLE_SOURCE_SCORE else RELIABLE_SOURCE_SCORE)"
  by (auto simp: calculate_source_reliability_era_def source_ids_def Let_def filter_empty_conv list_ex_iff)

theorem reliability_unreliable_iff_witness:
  "''s1'' \<in> source_ids [rel_ex ''p1'' ''s1'' [''p2''], rel_ex ''p2'' ''s2'' [''p1'']] \<and>
   calculate_source_reliability_era ''s1'' [rel_ex ''p1'' ''s1'' [''p2''], rel_ex ''p2'' ''s2'' [''p1'']] =
     UNRELIABLE_SOURCE_SCORE"
proof -
  have h: "''s1'' \<in> source_ids [rel_ex ''p1'' ''s1'' [''p2''], rel_ex ''p2'' ''s2'' [''p1'']]"
    by (simp add: source_ids_def make_proposition_def make_epistemic_data_def)
  show ?thesis
    using reliability_unreliable_iff [OF h] h by (simp add: make_proposition_def make_epistemic_data_def)
qed

text \<open>A source id with no proposition in the knowledge base gets the default
  reliability 0.6 instead of an error (\<^verbatim>\<open>spec.md\<close> \<section>7).\<close>

theorem reliability_absent_source_default:
  "sid \<notin> source_ids kb \<Longrightarrow> calculate_source_reliability_era sid kb = DEFAULT_SOURCE_RELIABILITY"
  by (auto simp: calculate_source_reliability_era_def source_ids_def Let_def filter_empty_conv)

theorem reliability_absent_source_default_witness:
  "''s9'' \<notin> source_ids [rel_ex ''p1'' ''s1'' []] \<and>
   calculate_source_reliability_era ''s9'' [rel_ex ''p1'' ''s1'' []] = DEFAULT_SOURCE_RELIABILITY"
proof -
  have h: "''s9'' \<notin> source_ids [rel_ex ''p1'' ''s1'' []]"
    by (simp add: source_ids_def make_proposition_def make_epistemic_data_def)
  show ?thesis using reliability_absent_source_default [OF h] h by simp
qed

end
