(* ===== verification/Cycles.thy ===== *)
theory Cycles
  imports Core_Classes
begin

text \<open>
  The circular-support detector \<^verbatim>\<open>detect_circular_support_era\<close> of
  \<^verbatim>\<open>src/aee_updater_era.py\<close> (lines 32--59): a depth-first search over the
  \<^verbatim>\<open>supports\<close> lists with a global \<^verbatim>\<open>visited_globally\<close> set, a per-start
  \<^verbatim>\<open>recursion_stack\<close> and \<^verbatim>\<open>path\<close>, that flags every node of the path suffix
  closed by a back edge with \<^verbatim>\<open>CIRCULAR_SUPPORT\<close>. The nested Python function
  \<^verbatim>\<open>dfs_visit\<close> and its neighbour loop are the mutually recursive
  \<open>dfs_visit\<close>/\<open>dfs_nbrs\<close>, threading the closure's state as a record; the
  recursion depth is bounded by fuel, and the fuel chosen by
  \<open>detect_circular_support_era\<close> is proved enough.
\<close>

definition CIRCULAR_SUPPORT :: label where
  "CIRCULAR_SUPPORT = ''CIRCULAR_SUPPORT''"

record dfs_state =
  ds_kb :: kb
  visited :: "prop_id set"
  rstack :: "prop_id set"
  path :: "prop_id list"
  flagged :: nat

text \<open>Line 54: flag one node of a detected cycle, counting it.\<close>

definition flag_cycle_node :: "prop_id \<Rightarrow> dfs_state \<Rightarrow> dfs_state" where
  "flag_cycle_node i st =
     (case kb_get (ds_kb st) i of
        None \<Rightarrow> st
      | Some p \<Rightarrow>
          if CIRCULAR_SUPPORT \<in> set (ed_flags p) then st
          else st\<lparr>ds_kb := kb_put (epistemic_data_update
                                    (bias_flags_update (\<lambda>fs. fs @ [CIRCULAR_SUPPORT])) p) (ds_kb st),
                  flagged := Suc (flagged st)\<rparr>)"

text \<open>Lines 50--55: \<^verbatim>\<open>path[path.index(nb):]\<close> is the suffix of the path from the
  first occurrence of the back-edge target; when the target is not on the path,
  \<^verbatim>\<open>index\<close> raises \<^verbatim>\<open>ValueError\<close>, which is passed over, and the suffix
  computed by \<open>dropWhile\<close> is empty.\<close>

definition flag_cycle :: "prop_id \<Rightarrow> dfs_state \<Rightarrow> dfs_state" where
  "flag_cycle nb st = fold flag_cycle_node (dropWhile (\<lambda>x. x \<noteq> nb) (path st)) st"

text \<open>\<^verbatim>\<open>recursion_stack.remove(current_node_id); path.pop()\<close>.\<close>

definition dfs_pop :: "prop_id \<Rightarrow> dfs_state \<Rightarrow> dfs_state" where
  "dfs_pop cur st = st\<lparr>rstack := rstack st - {cur}, path := butlast (path st)\<rparr>"

definition dfs_push :: "prop_id \<Rightarrow> dfs_state \<Rightarrow> dfs_state" where
  "dfs_push cur st = st\<lparr>visited := insert cur (visited st), rstack := insert cur (rstack st),
                        path := path st @ [cur]\<rparr>"

text \<open>Lines 40--57. The result is the Python return value and the closure's state;
  \<open>None\<close> is running out of fuel. A \<^verbatim>\<open>True\<close> return leaves the stack and path as
  they are, as the source does.\<close>

fun dfs_visit :: "nat \<Rightarrow> prop_id \<Rightarrow> dfs_state \<Rightarrow> (bool \<times> dfs_state) option"
and dfs_nbrs :: "nat \<Rightarrow> prop_id list \<Rightarrow> dfs_state \<Rightarrow> (bool \<times> dfs_state) option" where
  "dfs_visit 0 cur st = None"
| "dfs_visit (Suc n) cur st =
     (let st1 = dfs_push cur st in
      case kb_get (ds_kb st1) cur of
        None \<Rightarrow> Some (False, dfs_pop cur st1)
      | Some p \<Rightarrow>
          if ed_supports p = [] then Some (False, dfs_pop cur st1)
          else (case dfs_nbrs n (ed_supports p) st1 of
                  None \<Rightarrow> None
                | Some (b, st2) \<Rightarrow> if b then Some (True, st2) else Some (False, dfs_pop cur st2)))"
| "dfs_nbrs n [] st = Some (False, st)"
| "dfs_nbrs n (nb # nbs) st =
     (if nb \<notin> visited st then
        (case dfs_visit n nb st of
           None \<Rightarrow> None
         | Some (b, st') \<Rightarrow> if b then Some (True, st') else dfs_nbrs n nbs st')
      else if nb \<in> rstack st then Some (True, flag_cycle nb st)
      else dfs_nbrs n nbs st)"

text \<open>Lines 37--38 and 58: the outer loop over \<^verbatim>\<open>kb.keys()\<close>, with a fresh
  stack and path for every start not yet visited.\<close>

definition dfs_start :: "nat \<Rightarrow> prop_id \<Rightarrow> dfs_state \<Rightarrow> dfs_state option" where
  "dfs_start n s st =
     (if s \<in> visited st then Some st
      else map_option snd (dfs_visit n s (st\<lparr>rstack := {}, path := []\<rparr>)))"

fun dfs_outer :: "nat \<Rightarrow> prop_id list \<Rightarrow> dfs_state \<Rightarrow> dfs_state option" where
  "dfs_outer n [] st = Some st"
| "dfs_outer n (s # ss) st = (case dfs_start n s st of None \<Rightarrow> None | Some st' \<Rightarrow> dfs_outer n ss st')"

definition dfs_init :: "kb \<Rightarrow> dfs_state" where
  "dfs_init kb = \<lparr>ds_kb = kb, visited = {}, rstack = {}, path = [], flagged = 0\<rparr>"

text \<open>The result is the mutated knowledge base and \<^verbatim>\<open>flagged_props_count\<close>,
  which the source prints.\<close>

definition detect_circular_support_fuel :: "nat \<Rightarrow> kb \<Rightarrow> (kb \<times> nat) option" where
  "detect_circular_support_fuel n kb =
     map_option (\<lambda>st. (ds_kb st, flagged st)) (dfs_outer n (kb_ids kb) (dfs_init kb))"

text \<open>Every node a search enters is a key of the knowledge base or a supported id,
  and is entered at most once; one more than their number is enough fuel.\<close>

definition support_nodes :: "kb \<Rightarrow> prop_id list" where
  "support_nodes kb = remdups (kb_ids kb @ concat (map ed_supports kb))"

definition detect_circular_support_era :: "kb \<Rightarrow> (kb \<times> nat) option" where
  "detect_circular_support_era kb = detect_circular_support_fuel (Suc (length (support_nodes kb))) kb"

text \<open>The support graph the search walks: an edge from a key to every id in its
  \<^verbatim>\<open>supports\<close> list.\<close>

definition supports_edge :: "kb \<Rightarrow> prop_id \<Rightarrow> prop_id \<Rightarrow> bool" where
  "supports_edge kb a b = (case kb_get kb a of None \<Rightarrow> False | Some p \<Rightarrow> b \<in> set (ed_supports p))"

text \<open>What the search may do to one proposition of the original knowledge base
  \<open>kb0\<close>: keep its id and edges, and add the flag only on a support cycle.\<close>

definition cyc_ok :: "kb \<Rightarrow> Proposition \<Rightarrow> Proposition \<Rightarrow> bool" where
  "cyc_ok kb0 p0 p \<longleftrightarrow> prop_id p = prop_id p0 \<and> ed_supports p = ed_supports p0 \<and>
     ed_contradicts p = ed_contradicts p0 \<and>
     (CIRCULAR_SUPPORT \<in> set (ed_flags p) \<longrightarrow>
        CIRCULAR_SUPPORT \<in> set (ed_flags p0) \<or> (supports_edge kb0)\<^sup>+\<^sup>+ (prop_id p) (prop_id p))"

definition dfs_inv :: "kb \<Rightarrow> dfs_state \<Rightarrow> bool" where
  "dfs_inv kb0 st \<longleftrightarrow> list_all2 (cyc_ok kb0) kb0 (ds_kb st) \<and> kb_distinct (ds_kb st) \<and>
     rstack st = set (path st) \<and> set (path st) \<subseteq> visited st \<and>
     successively (supports_edge kb0) (path st)"

subsection \<open>The search only writes flags\<close>

definition sup_closed :: "prop_id set \<Rightarrow> kb \<Rightarrow> bool" where
  "sup_closed U kb \<longleftrightarrow> (\<forall>p\<in>set kb. set (ed_supports p) \<subseteq> U)"

lemma flag_cycle_node_frame [simp]:
  "visited (flag_cycle_node i st) = visited st"
  "rstack (flag_cycle_node i st) = rstack st"
  "path (flag_cycle_node i st) = path st"
  by (simp_all add: flag_cycle_node_def split: option.split)

lemma fold_flag_cycle_node_frame [simp]:
  "visited (fold flag_cycle_node xs st) = visited st"
  "rstack (fold flag_cycle_node xs st) = rstack st"
  "path (fold flag_cycle_node xs st) = path st"
  by (induction xs arbitrary: st) simp_all

lemma flag_cycle_frame [simp]:
  "visited (flag_cycle nb st) = visited st"
  "rstack (flag_cycle nb st) = rstack st"
  "path (flag_cycle nb st) = path st"
  by (simp_all add: flag_cycle_def)

lemma sup_closed_kb_put:
  assumes "sup_closed U kb" "kb_get kb i = Some p" "ed_supports q = ed_supports p"
  shows "sup_closed U (kb_put q kb)"
proof -
  have "p \<in> set kb" using assms(2) by (rule kb_get_Some_in)
  then show ?thesis using assms(1,3) unfolding sup_closed_def kb_put_def by (auto; metis subsetD)
qed

lemma sup_closed_flag_cycle_node:
  "sup_closed U (ds_kb st) \<Longrightarrow> sup_closed U (ds_kb (flag_cycle_node i st))"
  by (auto simp: flag_cycle_node_def intro: sup_closed_kb_put split: option.split)

lemma sup_closed_flag_cycle:
  "sup_closed U (ds_kb st) \<Longrightarrow> sup_closed U (ds_kb (flag_cycle nb st))"
proof -
  have "sup_closed U (ds_kb st) \<Longrightarrow> sup_closed U (ds_kb (fold flag_cycle_node xs st))" for xs
    by (induction xs arbitrary: st) (simp_all add: sup_closed_flag_cycle_node)
  then show "sup_closed U (ds_kb st) \<Longrightarrow> ?thesis" by (simp add: flag_cycle_def)
qed

lemma dfs_push_pop [simp]:
  "ds_kb (dfs_push cur st) = ds_kb st" "visited (dfs_push cur st) = insert cur (visited st)"
  "ds_kb (dfs_pop cur st) = ds_kb st" "visited (dfs_pop cur st) = visited st"
  by (simp_all add: dfs_push_def dfs_pop_def)

subsection \<open>Enough fuel\<close>

text \<open>Every call of \<open>dfs_visit\<close> enters a node of \<open>U\<close> not yet visited, so the
  number of unvisited nodes of \<open>U\<close> bounds the recursion depth.\<close>

text \<open>The search only adds to \<^verbatim>\<open>visited_globally\<close>, and a visit adds its node.\<close>

lemma dfs_visited_mono:
  shows "dfs_visit n cur st = Some (b, st') \<Longrightarrow> insert cur (visited st) \<subseteq> visited st'"
    and "dfs_nbrs n nbs st = Some (b, st') \<Longrightarrow> visited st \<subseteq> visited st'"
proof (induction n cur st and n nbs st arbitrary: b st' and b st' rule: dfs_visit_dfs_nbrs.induct)
  case (2 n cur st)
  then show ?case
    by (fastforce simp: Let_def dfs_push_def dfs_pop_def split: option.splits if_splits prod.splits)
next
  case (4 n nb nbs st)
  then show ?case
    by (fastforce split: option.splits if_splits prod.splits)
qed simp_all

lemma dfs_total:
  shows "finite U \<Longrightarrow> sup_closed U (ds_kb st) \<Longrightarrow> visited st \<subseteq> U \<Longrightarrow> cur \<in> U - visited st \<Longrightarrow>
           card (U - visited st) \<le> n \<Longrightarrow>
           \<exists>b st'. dfs_visit n cur st = Some (b, st') \<and> visited st \<subseteq> visited st' \<and> visited st' \<subseteq> U \<and>
                   sup_closed U (ds_kb st')"
    and "finite U \<Longrightarrow> sup_closed U (ds_kb st) \<Longrightarrow> visited st \<subseteq> U \<Longrightarrow> set nbs \<subseteq> U \<Longrightarrow>
           card (U - visited st) \<le> n \<Longrightarrow>
           \<exists>b st'. dfs_nbrs n nbs st = Some (b, st') \<and> visited st \<subseteq> visited st' \<and> visited st' \<subseteq> U \<and>
                   sup_closed U (ds_kb st')"
proof (induction n cur st and n nbs st rule: dfs_visit_dfs_nbrs.induct)
  case (1 cur st)
  then have "card (U - visited st) > 0" by (auto simp: card_gt_0_iff)
  with 1 show ?case by simp
next
  case (2 n cur st)
  let ?st1 = "dfs_push cur st"
  have "U - visited ?st1 = (U - visited st) - {cur}" by auto
  then have "card (U - visited ?st1) = card (U - visited st) - 1"
    using 2(5) by (simp add: card_Diff_singleton)
  then have c1: "card (U - visited ?st1) \<le> n" using 2(6) by simp
  show ?case
  proof (cases "kb_get (ds_kb st) cur")
    case None
    with 2(2-) show ?thesis by auto
  next
    case (Some p)
    have sp: "set (ed_supports p) \<subseteq> U"
      using 2(3) Some by (auto simp: sup_closed_def dest: kb_get_Some_in)
    show ?thesis
    proof (cases "ed_supports p = []")
      case True
      with Some 2(2-) show ?thesis by auto
    next
      case False
      have "\<exists>b st'. dfs_nbrs n (ed_supports p) ?st1 = Some (b, st') \<and> visited ?st1 \<subseteq> visited st' \<and>
                    visited st' \<subseteq> U \<and> sup_closed U (ds_kb st')"
        using 2(1) [OF refl _ False] Some 2(2-) sp c1 by auto
      then show ?thesis using Some False by (auto simp: Let_def)
    qed
  qed
next
  case (3 n st)
  then show ?case by auto
next
  case (4 n nb nbs st)
  show ?case
  proof (cases "nb \<in> visited st")
    case False
    obtain b st' where v: "dfs_visit n nb st = Some (b, st')" and m: "visited st \<subseteq> visited st'"
      and u: "visited st' \<subseteq> U" and sc: "sup_closed U (ds_kb st')"
      using 4(1) [OF False] 4(4-) False by auto
    have "card (U - visited st') \<le> card (U - visited st)"
      by (rule card_mono) (use m 4(4) in auto)
    then have "\<exists>b st''. dfs_nbrs n nbs st' = Some (b, st'') \<and> visited st' \<subseteq> visited st'' \<and>
                 visited st'' \<subseteq> U \<and> sup_closed U (ds_kb st'')" if "\<not> b"
      using 4(2) [OF False v _ that] 4(4-) u sc by auto
    with v m u sc False show ?thesis by (cases b) auto
  next
    case True
    with 4(4-) 4(3) show ?thesis by (auto simp: sup_closed_flag_cycle)
  qed
qed

lemma dfs_outer_total:
  "finite U \<Longrightarrow> sup_closed U (ds_kb st) \<Longrightarrow> visited st \<subseteq> U \<Longrightarrow> set ss \<subseteq> U \<Longrightarrow> card U \<le> n \<Longrightarrow>
     \<exists>st'. dfs_outer n ss st = Some st'"
proof (induction ss arbitrary: st)
  case Nil
  then show ?case by simp
next
  case (Cons s ss)
  have cU: "card (U - visited st) \<le> n"
    using Cons.prems(1,5) by (meson Diff_subset card_mono order_trans)
  show ?case
  proof (cases "s \<in> visited st")
    case True
    then show ?thesis using Cons by (simp add: dfs_start_def)
  next
    case False
    obtain b st' where v: "dfs_visit n s (st\<lparr>rstack := {}, path := []\<rparr>) = Some (b, st')"
      and "visited st' \<subseteq> U" "sup_closed U (ds_kb st')"
      using dfs_total(1) [of U "st\<lparr>rstack := {}, path := []\<rparr>" s n] Cons.prems cU False by auto
    then show ?thesis using Cons False by (simp add: dfs_start_def)
  qed
qed

lemma dfs_outer_visited:
  "dfs_outer n ss st = Some st' \<Longrightarrow> visited st \<union> set ss \<subseteq> visited st'"
proof (induction ss arbitrary: st)
  case (Cons s ss)
  then obtain st1 where s: "dfs_start n s st = Some st1" and o: "dfs_outer n ss st1 = Some st'"
    by (auto split: option.splits)
  have "insert s (visited st) \<subseteq> visited st1"
    using s dfs_visited_mono(1) [of n s "st\<lparr>rstack := {}, path := []\<rparr>"]
    by (auto simp: dfs_start_def split: if_splits)
  with Cons.IH [OF o] show ?case by auto
qed simp

lemma support_nodes_closed: "sup_closed (set (support_nodes kb)) kb"
  by (auto simp: sup_closed_def support_nodes_def)

lemma kb_ids_support_nodes: "set (kb_ids kb) \<subseteq> set (support_nodes kb)"
  by (auto simp: support_nodes_def)

lemma card_support_nodes: "card (set (support_nodes kb)) \<le> Suc (length (support_nodes kb))"
  by (simp add: card_length le_SucI)

lemma kb_ids_flag_cycle [simp]: "kb_ids (ds_kb (flag_cycle nb st)) = kb_ids (ds_kb st)"
proof -
  have "kb_ids (ds_kb (fold flag_cycle_node xs st)) = kb_ids (ds_kb st)" for xs
    by (induction xs arbitrary: st) (simp_all add: flag_cycle_node_def split: option.split)
  then show ?thesis by (simp add: flag_cycle_def)
qed

lemma dfs_kb_ids:
  shows "dfs_visit n cur st = Some (b, st') \<Longrightarrow> kb_ids (ds_kb st') = kb_ids (ds_kb st)"
    and "dfs_nbrs n nbs st = Some (b, st') \<Longrightarrow> kb_ids (ds_kb st') = kb_ids (ds_kb st)"
proof (induction n cur st and n nbs st arbitrary: b st' and b st' rule: dfs_visit_dfs_nbrs.induct)
  case (2 n cur st)
  show ?case
  proof (cases "kb_get (ds_kb st) cur")
    case None
    then show ?thesis using 2(2) by (auto simp: Let_def)
  next
    case (Some p)
    show ?thesis
    proof (cases "ed_supports p = []")
      case False
      then obtain b2 st2 where r: "dfs_nbrs n (ed_supports p) (dfs_push cur st) = Some (b2, st2)"
        using 2(2) Some by (auto simp: Let_def split: option.splits)
      have "kb_ids (ds_kb st2) = kb_ids (ds_kb st)"
        using 2(1) [OF refl _ False r] Some by simp
      then show ?thesis using 2(2) Some False r by (cases b2) (auto simp: Let_def)
    qed (use 2(2) Some in \<open>auto simp: Let_def\<close>)
  qed
next
  case (4 n nb nbs st)
  show ?case
  proof (cases "nb \<in> visited st")
    case False
    then obtain b1 st1 where v: "dfs_visit n nb st = Some (b1, st1)"
      using 4(4) by (auto split: option.splits)
    have "kb_ids (ds_kb st1) = kb_ids (ds_kb st)" using 4(1) [OF False v] .
    then show ?thesis using 4(2) [OF False v refl] 4(4) False v by (cases b1) auto
  next
    case True
    then show ?thesis using 4(3) 4(4) by (cases "nb \<in> rstack st") auto
  qed
qed auto

lemma dfs_outer_kb_ids:
  "dfs_outer n ss st = Some st' \<Longrightarrow> kb_ids (ds_kb st') = kb_ids (ds_kb st)"
proof (induction ss arbitrary: st)
  case (Cons s ss)
  then obtain st1 where "dfs_start n s st = Some st1" "dfs_outer n ss st1 = Some st'"
    by (auto split: option.splits)
  moreover have "kb_ids (ds_kb st1) = kb_ids (ds_kb st)"
    using calculation(1) dfs_kb_ids(1) [of n s "st\<lparr>rstack := {}, path := []\<rparr>"]
    by (auto simp: dfs_start_def split: if_splits)
  ultimately show ?case using Cons.IH by simp
qed simp

lemma detect_circular_support_some:
  "\<exists>kb' c. detect_circular_support_era kb = Some (kb', c) \<and> kb_ids kb' = kb_ids kb"
proof -
  let ?U = "set (support_nodes kb)"
  have "\<exists>st'. dfs_outer (Suc (length (support_nodes kb))) (kb_ids kb) (dfs_init kb) = Some st'"
    by (rule dfs_outer_total [of ?U])
       (simp_all add: dfs_init_def support_nodes_closed kb_ids_support_nodes card_support_nodes)
  then obtain st' where "dfs_outer (Suc (length (support_nodes kb))) (kb_ids kb) (dfs_init kb) = Some st'"
    by blast
  moreover then have "kb_ids (ds_kb st') = kb_ids kb"
    using dfs_outer_kb_ids by (fastforce simp: dfs_init_def)
  ultimately show ?thesis by (auto simp: detect_circular_support_era_def detect_circular_support_fuel_def)
qed

text \<open>Without supports lists the search enters each node once and returns at once,
  so the knowledge base and the count are unchanged.\<close>

lemma dfs_outer_no_supports:
  "list_all (\<lambda>p. ed_supports p = []) (ds_kb st) \<Longrightarrow>
     \<exists>st'. dfs_outer (Suc n) ss st = Some st' \<and> ds_kb st' = ds_kb st \<and> flagged st' = flagged st"
proof (induction ss arbitrary: st)
  case (Cons s ss)
  let ?st0 = "st\<lparr>rstack := {}, path := []\<rparr>"
  have "\<exists>st1. dfs_start (Suc n) s st = Some st1 \<and> ds_kb st1 = ds_kb st \<and> flagged st1 = flagged st"
  proof (cases "kb_get (ds_kb st) s")
    case (Some p)
    then have "ed_supports p = []" using Cons.prems by (auto simp: list_all_iff dest: kb_get_Some_in)
    then show ?thesis using Some by (auto simp: dfs_start_def Let_def dfs_pop_def dfs_push_def)
  qed (auto simp: dfs_start_def Let_def dfs_pop_def dfs_push_def)
  then obtain st1 where "dfs_start (Suc n) s st = Some st1" "ds_kb st1 = ds_kb st" "flagged st1 = flagged st"
    by blast
  then show ?case using Cons.IH [of st1] Cons.prems by auto
qed simp

lemma detect_no_supports:
  "list_all (\<lambda>p. ed_supports p = []) kb \<Longrightarrow> detect_circular_support_era kb = Some (kb, 0)"
  using dfs_outer_no_supports [of "dfs_init kb"]
  by (fastforce simp: detect_circular_support_era_def detect_circular_support_fuel_def dfs_init_def)

subsection \<open>Soundness: only nodes on a support cycle are flagged\<close>

lemma kb_get_list_all2_supports:
  assumes "list_all2 (cyc_ok kb0) kb1 kb"
  shows "map_option ed_supports (kb_get kb i) = map_option ed_supports (kb_get kb1 i)"
  using assms by (induction rule: list_all2_induct) (auto simp: cyc_ok_def)

lemma supports_edge_list_all2:
  assumes "list_all2 (cyc_ok kb0) kb1 kb"
  shows "supports_edge kb = supports_edge kb1"
proof (intro ext)
  fix a b
  show "supports_edge kb a b = supports_edge kb1 a b"
    using kb_get_list_all2_supports [OF assms, of a]
    by (cases "kb_get kb a"; cases "kb_get kb1 a") (simp_all add: supports_edge_def)
qed

lemma successively_rtranclp_last:
  "successively R xs \<Longrightarrow> x \<in> set xs \<Longrightarrow> R\<^sup>*\<^sup>* x (last xs)"
proof (induction xs arbitrary: x)
  case (Cons a xs)
  show ?case
  proof (cases xs)
    case (Cons b ys)
    then have "R a b" "successively R xs" "R\<^sup>*\<^sup>* b (last xs)"
      using Cons.prems(1) Cons.IH [of b] by auto
    then show ?thesis
      using Cons.prems Cons.IH \<open>xs = b # ys\<close> by (auto intro: converse_rtranclp_into_rtranclp)
  qed (use Cons.prems in simp)
qed simp

lemma successively_rtranclp_hd:
  "successively R (y # ys) \<Longrightarrow> x \<in> set (y # ys) \<Longrightarrow> R\<^sup>*\<^sup>* y x"
proof (induction ys arbitrary: y)
  case (Cons z zs)
  then show ?case by (auto intro: converse_rtranclp_into_rtranclp)
qed simp

lemma successively_dropWhile:
  "successively R xs \<Longrightarrow> successively R (dropWhile P xs)"
  by (metis successively_append_iff takeWhile_dropWhile_id)

text \<open>Every node of the flagged path suffix lies on a cycle: it reaches the end of
  the path, the back edge leads to \<open>nb\<close>, and \<open>nb\<close> reaches it.\<close>

lemma cycle_suffix_on_cycle:
  assumes "successively R xs" "nb \<in> set xs" "R (last xs) nb" "x \<in> set (dropWhile (\<lambda>y. y \<noteq> nb) xs)"
  shows "R\<^sup>+\<^sup>+ x x"
proof -
  let ?ys = "dropWhile (\<lambda>y. y \<noteq> nb) xs"
  have ys: "?ys = nb # tl ?ys" using assms(2)
    by (induction xs) auto
  have s: "successively R ?ys" using assms(1) by (rule successively_dropWhile)
  have "x \<in> set xs" using assms(4) set_dropWhileD by fast
  then have "R\<^sup>*\<^sup>* x (last xs)" by (rule successively_rtranclp_last [OF assms(1)])
  then have "R\<^sup>+\<^sup>+ x nb" using assms(3) by (rule rtranclp_into_tranclp1)
  moreover have "R\<^sup>*\<^sup>* nb x" using s ys assms(4) successively_rtranclp_hd by metis
  ultimately
  show ?thesis by (rule tranclp_rtranclp_tranclp)
qed

lemma list_all2_map_right:
  "list_all2 P xs ys \<Longrightarrow> (\<And>x y. P x y \<Longrightarrow> y \<in> set ys \<Longrightarrow> Q x (f y)) \<Longrightarrow> list_all2 Q xs (map f ys)"
  by (induction rule: list_all2_induct) auto

lemma cyc_ok_flag_cycle_node:
  assumes "list_all2 (cyc_ok kb0) kb0 (ds_kb st)" "kb_distinct (ds_kb st)"
    and "(supports_edge kb0)\<^sup>+\<^sup>+ i i"
  shows "list_all2 (cyc_ok kb0) kb0 (ds_kb (flag_cycle_node i st)) \<and> kb_distinct (ds_kb (flag_cycle_node i st))"
proof (cases "kb_get (ds_kb st) i")
  case (Some p)
  let ?p' = "epistemic_data_update (bias_flags_update (\<lambda>fs. fs @ [CIRCULAR_SUPPORT])) p"
  have p: "p \<in> set (ds_kb st)" "prop_id p = i"
    using Some by (simp_all add: kb_get_Some_in kb_get_Some_id)
  have "list_all2 (cyc_ok kb0) kb0 (kb_put ?p' (ds_kb st))"
    unfolding kb_put_def
  proof (rule list_all2_map_right [OF assms(1)])
    fix x y assume xy: "cyc_ok kb0 x y" "y \<in> set (ds_kb st)"
    show "cyc_ok kb0 x (if prop_id y = prop_id ?p' then ?p' else y)"
    proof (cases "prop_id y = i")
      case True
      then have "y = p" using kb_ids_inj assms(2) xy(2) p by (metis kb_distinct_def)
      then show ?thesis using xy(1) p(2) assms(3) by (auto simp: cyc_ok_def)
    qed (use xy p in auto)
  qed
  then show ?thesis using Some assms(1,2) by (simp add: flag_cycle_node_def kb_distinct_def)
qed (use assms in \<open>simp add: flag_cycle_node_def\<close>)

lemma cyc_ok_fold_flag_cycle_node:
  "list_all2 (cyc_ok kb0) kb0 (ds_kb st) \<Longrightarrow> kb_distinct (ds_kb st) \<Longrightarrow>
     list_all (\<lambda>x. (supports_edge kb0)\<^sup>+\<^sup>+ x x) xs \<Longrightarrow>
     list_all2 (cyc_ok kb0) kb0 (ds_kb (fold flag_cycle_node xs st)) \<and>
     kb_distinct (ds_kb (fold flag_cycle_node xs st))"
  by (induction xs arbitrary: st) (simp_all add: cyc_ok_flag_cycle_node)

lemma cyc_ok_flag_cycle:
  assumes "dfs_inv kb0 st" "nb \<in> rstack st" "path st \<noteq> []" "supports_edge kb0 (last (path st)) nb"
  shows "list_all2 (cyc_ok kb0) kb0 (ds_kb (flag_cycle nb st)) \<and> kb_distinct (ds_kb (flag_cycle nb st))"
proof -
  have "list_all (\<lambda>x. (supports_edge kb0)\<^sup>+\<^sup>+ x x) (dropWhile (\<lambda>x. x \<noteq> nb) (path st))"
    using assms cycle_suffix_on_cycle [of "supports_edge kb0" "path st" nb]
    by (auto simp: dfs_inv_def list_all_iff)
  then show ?thesis using assms(1) cyc_ok_fold_flag_cycle_node unfolding flag_cycle_def dfs_inv_def by blast
qed

lemma dfs_inv_push:
  assumes "dfs_inv kb0 st" "cur \<notin> visited st" "path st \<noteq> [] \<longrightarrow> supports_edge kb0 (last (path st)) cur"
  shows "dfs_inv kb0 (dfs_push cur st) \<and> path (dfs_push cur st) = path st @ [cur]"
  using assms by (auto simp: dfs_inv_def dfs_push_def successively_append_iff)

lemma dfs_inv_pop:
  assumes "dfs_inv kb0 st" "cur \<notin> visited st" "dfs_inv kb0 st2" "path st2 = path st @ [cur]"
  shows "dfs_inv kb0 (dfs_pop cur st2) \<and> path (dfs_pop cur st2) = path st"
proof -
  have "cur \<notin> set (path st)" using assms(1,2) by (auto simp: dfs_inv_def)
  then show ?thesis using assms(1,3,4) by (auto simp: dfs_inv_def dfs_pop_def)
qed

lemma dfs_sound:
  shows "dfs_inv kb0 st \<Longrightarrow> cur \<notin> visited st \<Longrightarrow>
           (path st \<noteq> [] \<longrightarrow> supports_edge kb0 (last (path st)) cur) \<Longrightarrow>
           dfs_visit n cur st = Some (b, st') \<Longrightarrow>
           list_all2 (cyc_ok kb0) kb0 (ds_kb st') \<and> kb_distinct (ds_kb st') \<and>
           (\<not> b \<longrightarrow> dfs_inv kb0 st' \<and> path st' = path st)"
    and "dfs_inv kb0 st \<Longrightarrow> path st \<noteq> [] \<Longrightarrow> list_all (supports_edge kb0 (last (path st))) nbs \<Longrightarrow>
           dfs_nbrs n nbs st = Some (b, st') \<Longrightarrow>
           list_all2 (cyc_ok kb0) kb0 (ds_kb st') \<and> kb_distinct (ds_kb st') \<and>
           (\<not> b \<longrightarrow> dfs_inv kb0 st' \<and> path st' = path st)"
proof (induction n cur st and n nbs st arbitrary: b st' and b st' rule: dfs_visit_dfs_nbrs.induct)
  case (1 cur st)
  then show ?case by simp
next
  case (2 n cur st)
  let ?st1 = "dfs_push cur st"
  have i1: "dfs_inv kb0 ?st1" "path ?st1 = path st @ [cur]"
    using dfs_inv_push [OF 2(2-4)] by auto
  have popped: "dfs_inv kb0 (dfs_pop cur st2) \<and> path (dfs_pop cur st2) = path st"
    if "dfs_inv kb0 st2" "path st2 = path st @ [cur]" for st2
    using dfs_inv_pop [OF 2(2,3) that] .
  have res: "list_all2 (cyc_ok kb0) kb0 (ds_kb st2) \<and> kb_distinct (ds_kb st2)" if "dfs_inv kb0 st2" for st2
    using that by (simp add: dfs_inv_def)
  show ?case
  proof (cases "kb_get (ds_kb st) cur")
    case None
    then show ?thesis using 2(5) popped [OF i1] res [OF i1(1)] by auto
  next
    case (Some p)
    show ?thesis
    proof (cases "ed_supports p = []")
      case True
      then show ?thesis using Some 2(5) popped [OF i1] res [OF i1(1)] by auto
    next
      case False
      have eq: "supports_edge (ds_kb st) = supports_edge kb0"
        using 2(2) supports_edge_list_all2 by (auto simp: dfs_inv_def)
      have "list_all (supports_edge (ds_kb st) cur) (ed_supports p)"
        using Some by (simp add: list_all_iff supports_edge_def)
      then have e: "list_all (supports_edge kb0 (last (path ?st1))) (ed_supports p)"
        using eq i1(2) by simp
      obtain b2 st2 where r: "dfs_nbrs n (ed_supports p) ?st1 = Some (b2, st2)"
        using 2(5) Some False by (auto simp: Let_def split: option.splits)
      have ih: "list_all2 (cyc_ok kb0) kb0 (ds_kb st2) \<and> kb_distinct (ds_kb st2) \<and>
                (\<not> b2 \<longrightarrow> dfs_inv kb0 st2 \<and> path st2 = path ?st1)"
        using 2(1) [OF refl _ False i1(1) _ e r] Some i1(2) by simp
      show ?thesis
      proof (cases b2)
        case True
        then show ?thesis using 2(5) Some False r ih by (simp add: Let_def)
      next
        case False': False
        then have "dfs_inv kb0 (dfs_pop cur st2) \<and> path (dfs_pop cur st2) = path st"
          using popped ih i1(2) by simp
        then show ?thesis
          using 2(5) Some False False' r res by (auto simp: Let_def)
      qed
    qed
  qed
next
  case (3 n st)
  then show ?case by (auto simp: dfs_inv_def)
next
  case (4 n nb nbs st)
  have e: "supports_edge kb0 (last (path st)) nb" "list_all (supports_edge kb0 (last (path st))) nbs"
    using 4(6) by simp_all
  show ?case
  proof (cases "nb \<in> visited st")
    case False
    obtain b1 st1 where v: "dfs_visit n nb st = Some (b1, st1)"
      using 4(7) False by (auto split: option.splits)
    have ih1: "list_all2 (cyc_ok kb0) kb0 (ds_kb st1) \<and> kb_distinct (ds_kb st1) \<and>
               (\<not> b1 \<longrightarrow> dfs_inv kb0 st1 \<and> path st1 = path st)"
      using 4(1) [OF False 4(4) False _ v] e(1) by simp
    show ?thesis
    proof (cases b1)
      case True
      then show ?thesis using 4(7) False v ih1 by simp
    next
      case False': False
      then have "dfs_nbrs n nbs st1 = Some (b, st')" using 4(7) False v by simp
      then show ?thesis
        using 4(2) [OF False v refl False'] ih1 False' 4(5) e(2) by auto
    qed
  next
    case True
    show ?thesis
    proof (cases "nb \<in> rstack st")
      case True': True
      then show ?thesis using 4(7) True cyc_ok_flag_cycle [OF 4(4) True' 4(5) e(1)] by simp
    next
      case False
      then show ?thesis using 4(3) [OF _ False 4(4,5) e(2)] 4(7) True by simp
    qed
  qed
qed

lemma dfs_outer_sound:
  "list_all2 (cyc_ok kb0) kb0 (ds_kb st) \<Longrightarrow> kb_distinct (ds_kb st) \<Longrightarrow> dfs_outer n ss st = Some st' \<Longrightarrow>
     list_all2 (cyc_ok kb0) kb0 (ds_kb st') \<and> kb_distinct (ds_kb st')"
proof (induction ss arbitrary: st)
  case (Cons s ss)
  obtain st1 where s1: "dfs_start n s st = Some st1" and r: "dfs_outer n ss st1 = Some st'"
    using Cons.prems(3) by (auto split: option.splits)
  have "list_all2 (cyc_ok kb0) kb0 (ds_kb st1) \<and> kb_distinct (ds_kb st1)"
  proof (cases "s \<in> visited st")
    case False
    let ?st0 = "st\<lparr>rstack := {}, path := []\<rparr>"
    have "dfs_inv kb0 ?st0" using Cons.prems(1,2) by (simp add: dfs_inv_def)
    moreover obtain b where "dfs_visit n s ?st0 = Some (b, st1)"
      using s1 False by (auto simp: dfs_start_def)
    ultimately show ?thesis using dfs_sound(1) [of kb0 ?st0 s n b st1] False by simp
  qed (use s1 Cons.prems in \<open>simp add: dfs_start_def\<close>)
  then show ?case using Cons.IH r by blast
qed simp

text \<open>Example propositions with a supports list and a flags list.\<close>

abbreviation cyc_ex :: "prop_id \<Rightarrow> prop_id list \<Rightarrow> label list \<Rightarrow> Proposition" where
  "cyc_ex i ss fs \<equiv> make_proposition i ((make_epistemic_data i 0.8 None)\<lparr>supports := ss, bias_flags := fs\<rparr>) i
     (Some ''x'') (Some ''be'') (Some i) False"

subsection \<open>Properties of the circular-support detector\<close>

text \<open>C19. The depth-first search terminates on every knowledge base: with the fuel
  \<open>detect_circular_support_era\<close> gives it, it always returns a knowledge base and
  a count.\<close>

theorem detect_circular_support_terminates:
  "\<exists>kb' c. detect_circular_support_era kb = Some (kb', c)"
  using detect_circular_support_some by blast

text \<open>C18. Every key of the knowledge base is eventually visited: the outer loop of
  the search, with the fuel \<open>detect_circular_support_era\<close> gives it, returns a state
  whose \<^verbatim>\<open>visited_globally\<close> set contains every key, so no proposition escapes
  the search, whatever the early \<^verbatim>\<open>return True\<close> of a nested visit skips.\<close>

theorem detect_visits_every_key:
  "\<exists>st. dfs_outer (Suc (length (support_nodes kb))) (kb_ids kb) (dfs_init kb) = Some st \<and>
        set (kb_ids kb) \<subseteq> visited st"
proof -
  have "\<exists>st. dfs_outer (Suc (length (support_nodes kb))) (kb_ids kb) (dfs_init kb) = Some st"
    by (rule dfs_outer_total [of "set (support_nodes kb)"])
       (simp_all add: dfs_init_def support_nodes_closed kb_ids_support_nodes card_support_nodes)
  then show ?thesis using dfs_outer_visited by blast
qed

lemma detect_circular_support_cyc_ok:
  assumes d: "kb_distinct kb" and r: "detect_circular_support_era kb = Some (kb', c)"
  shows "list_all2 (cyc_ok kb) kb kb'"
proof -
  obtain st' where "dfs_outer (Suc (length (support_nodes kb))) (kb_ids kb) (dfs_init kb) = Some st'"
    and "kb' = ds_kb st'"
    using r by (auto simp: detect_circular_support_era_def detect_circular_support_fuel_def)
  moreover have "list_all2 (cyc_ok kb) kb kb"
    by (simp add: list_all2_refl cyc_ok_def)
  ultimately show ?thesis
    using dfs_outer_sound [of kb "dfs_init kb"] d by (simp add: dfs_init_def)
qed

lemma kb_edges_detect_circular_support:
  "kb_distinct kb \<Longrightarrow> detect_circular_support_era kb = Some (kb', c) \<Longrightarrow> kb_edges kb' = kb_edges kb"
  by (rule kb_edges_list_all2, rule list_all2_mono [OF detect_circular_support_cyc_ok]) (auto simp: cyc_ok_def)

text \<open>C20. Soundness of the detector: it changes no id and no supports list, and a
  proposition that carries \<^verbatim>\<open>CIRCULAR_SUPPORT\<close> afterwards either carried it
  before or lies on a cycle of the support graph.\<close>

theorem circular_flag_sound:
  "kb_distinct kb \<Longrightarrow> detect_circular_support_era kb = Some (kb', c) \<Longrightarrow>
     list_all2 (\<lambda>p0 p. prop_id p = prop_id p0 \<and> ed_supports p = ed_supports p0 \<and>
                  (CIRCULAR_SUPPORT \<in> set (ed_flags p) \<longrightarrow>
                     CIRCULAR_SUPPORT \<in> set (ed_flags p0) \<or> (supports_edge kb)\<^sup>+\<^sup>+ (prop_id p) (prop_id p)))
       kb kb'"
  by (rule list_all2_mono [OF detect_circular_support_cyc_ok]) (auto simp: cyc_ok_def)

theorem circular_flag_sound_witness:
  "kb_distinct [cyc_ex ''A'' [''B''] [], cyc_ex ''B'' [''A''] []] \<and>
   detect_circular_support_era [cyc_ex ''A'' [''B''] [], cyc_ex ''B'' [''A''] []] =
     Some ([cyc_ex ''A'' [''B''] [CIRCULAR_SUPPORT], cyc_ex ''B'' [''A''] [CIRCULAR_SUPPORT]], 2) \<and>
   list_all2 (\<lambda>p0 p. prop_id p = prop_id p0 \<and> ed_supports p = ed_supports p0 \<and>
                  (CIRCULAR_SUPPORT \<in> set (ed_flags p) \<longrightarrow>
                     CIRCULAR_SUPPORT \<in> set (ed_flags p0) \<or>
                     (supports_edge [cyc_ex ''A'' [''B''] [], cyc_ex ''B'' [''A''] []])\<^sup>+\<^sup>+ (prop_id p) (prop_id p)))
     [cyc_ex ''A'' [''B''] [], cyc_ex ''B'' [''A''] []]
     [cyc_ex ''A'' [''B''] [CIRCULAR_SUPPORT], cyc_ex ''B'' [''A''] [CIRCULAR_SUPPORT]]"
proof -
  have h1: "kb_distinct [cyc_ex ''A'' [''B''] [], cyc_ex ''B'' [''A''] []]"
    by (simp add: kb_distinct_def make_proposition_def)
  have h2: "detect_circular_support_era [cyc_ex ''A'' [''B''] [], cyc_ex ''B'' [''A''] []] =
     Some ([cyc_ex ''A'' [''B''] [CIRCULAR_SUPPORT], cyc_ex ''B'' [''A''] [CIRCULAR_SUPPORT]], 2)"
    by code_simp
  show ?thesis using circular_flag_sound [OF h1 h2] h1 h2 by blast
qed

text \<open>The detector misses cycles. Its \<^verbatim>\<open>return True\<close> on the first back edge
  abandons the search from that start, and the nodes it entered stay in
  \<^verbatim>\<open>visited_globally\<close>. For the symmetric support chain A--B--C that the linker
  builds, A and B are flagged and C is not, although C lies on the cycle C, B, C.\<close>

theorem circular_support_missed_cycle:
  "detect_circular_support_era [cyc_ex ''A'' [''B''] [], cyc_ex ''B'' [''A'', ''C''] [], cyc_ex ''C'' [''B''] []] =
     Some ([cyc_ex ''A'' [''B''] [CIRCULAR_SUPPORT], cyc_ex ''B'' [''A'', ''C''] [CIRCULAR_SUPPORT],
            cyc_ex ''C'' [''B''] []], 2) \<and>
   (supports_edge [cyc_ex ''A'' [''B''] [], cyc_ex ''B'' [''A'', ''C''] [], cyc_ex ''C'' [''B''] []])\<^sup>+\<^sup>+ ''C'' ''C''"
proof
  show "detect_circular_support_era [cyc_ex ''A'' [''B''] [], cyc_ex ''B'' [''A'', ''C''] [], cyc_ex ''C'' [''B''] []] =
     Some ([cyc_ex ''A'' [''B''] [CIRCULAR_SUPPORT], cyc_ex ''B'' [''A'', ''C''] [CIRCULAR_SUPPORT],
            cyc_ex ''C'' [''B''] []], 2)"
    by code_simp
  let ?E = "supports_edge [cyc_ex ''A'' [''B''] [], cyc_ex ''B'' [''A'', ''C''] [], cyc_ex ''C'' [''B''] []]"
  have "?E ''C'' ''B''" "?E ''B'' ''C''"
    by (simp_all add: supports_edge_def make_proposition_def kb_get_def)
  then show "?E\<^sup>+\<^sup>+ ''C'' ''C''" by (meson tranclp.r_into_trancl tranclp.trancl_into_trancl)
qed

end
