(* ===== verification/Confidence.thy ===== *)
theory Confidence
  imports Reliability Cycles
begin

text \<open>
  The confidence propagator of \<^verbatim>\<open>src/aee_updater_era.py\<close>:
  \<^verbatim>\<open>update_proposition_confidence_era\<close> (lines 63--104) as a function from the
  proposition, the live knowledge base and the reliability table to the updated
  proposition, the single in-place pass over \<^verbatim>\<open>list(kb.values())\<close> (lines
  119--121) as a fold over the positions of the knowledge base, and the whole
  \<^verbatim>\<open>run_updates_era\<close> (lines 107--123): reliability loop, cycle detection,
  confidence pass. Python floats are modelled as reals; rounding is not modelled.
\<close>

definition MIN_CONFIDENCE :: real where "MIN_CONFIDENCE = 0.01"
definition MAX_CONFIDENCE :: real where "MAX_CONFIDENCE = 0.99"
definition SUPPORT_WEIGHT :: real where "SUPPORT_WEIGHT = 0.10"
definition CONTRADICTION_WEIGHT :: real where "CONTRADICTION_WEIGHT = 0.35"
definition RELIABILITY_DAMPENING_FACTOR :: real where "RELIABILITY_DAMPENING_FACTOR = 0.5"
definition BIAS_PENALTY_MULTIPLIER :: real where "BIAS_PENALTY_MULTIPLIER = 0.85"
definition CIRCULAR_SUPPORT_PENALTY_MULTIPLIER :: real where "CIRCULAR_SUPPORT_PENALTY_MULTIPLIER = 0.75"
definition PLAUSIBILITY_WEIGHT_FACTOR :: real where "PLAUSIBILITY_WEIGHT_FACTOR = 1.0"

text \<open>\<^verbatim>\<open>source_reliability_scores.get(source_id, DEFAULT_SOURCE_RELIABILITY)\<close>.\<close>

definition reliability_lookup :: "(string \<rightharpoonup> real) \<Rightarrow> string \<Rightarrow> real" where
  "reliability_lookup scores sid = (case scores sid of None \<Rightarrow> DEFAULT_SOURCE_RELIABILITY | Some r \<Rightarrow> r)"

text \<open>Lines 71--73 and 77--79: the sum over the linked ids found in the knowledge base
  of a weight times their current \<^verbatim>\<open>computed_confidence\<close> times a factor fixed
  before the loop.\<close>

definition neighbour_effect :: "real \<Rightarrow> kb \<Rightarrow> prop_id list \<Rightarrow> real \<Rightarrow> real" where
  "neighbour_effect w kb ids f =
     sum_list (map (\<lambda>i. case kb_get kb i of None \<Rightarrow> 0 | Some q \<Rightarrow> w * ed_conf q * f) ids)"

text \<open>Lines 85--92: the two independent bias penalties.\<close>

definition bias_penalty :: "label list \<Rightarrow> real \<Rightarrow> real" where
  "bias_penalty fs c =
     (if fs = [] then c
      else (let c1 = (if CIRCULAR_SUPPORT \<in> set fs then c * CIRCULAR_SUPPORT_PENALTY_MULTIPLIER else c)
            in if list_ex (\<lambda>f. f \<noteq> CIRCULAR_SUPPORT) fs then c1 * BIAS_PENALTY_MULTIPLIER else c1))"

text \<open>Lines 98--101: plausibility scaling.\<close>

definition plausibility_scale :: "real option \<Rightarrow> real \<Rightarrow> real" where
  "plausibility_scale pl c =
     (case pl of None \<Rightarrow> c
      | Some v \<Rightarrow> c * (v * PLAUSIBILITY_WEIGHT_FACTOR + (1 - PLAUSIBILITY_WEIGHT_FACTOR)))"

text \<open>The raw (unclamped) value computed by lines 65--101.\<close>

definition raw_confidence :: "Proposition \<Rightarrow> kb \<Rightarrow> (string \<rightharpoonup> real) \<Rightarrow> real" where
  "raw_confidence p kb scores =
     (let ed = epistemic_data p; ic = initial_confidence ed;
          r = reliability_lookup scores (source_id ed);
          c0 = ic * (1 - RELIABILITY_DAMPENING_FACTOR) + (ic * r) * RELIABILITY_DAMPENING_FACTOR;
          c1 = c0 + neighbour_effect SUPPORT_WEIGHT kb (supports ed) (1 - c0);
          c2 = c1 - neighbour_effect CONTRADICTION_WEIGHT kb (contradicts ed) c1
      in plausibility_scale (plausibility_score ed) (bias_penalty (bias_flags ed) c2))"

text \<open>Line 104, \<^verbatim>\<open>max(MIN_CONFIDENCE, min(MAX_CONFIDENCE, current_confidence))\<close>: the clamped value is stored into the proposition.\<close>

definition update_proposition_confidence_era :: "Proposition \<Rightarrow> kb \<Rightarrow> (string \<rightharpoonup> real) \<Rightarrow> Proposition" where
  "update_proposition_confidence_era p kb scores =
     epistemic_data_update
       (computed_confidence_update (\<lambda>_. py_clamp MIN_CONFIDENCE MAX_CONFIDENCE (raw_confidence p kb scores))) p"

text \<open>Lines 119--121: the objects are updated in the order of \<^verbatim>\<open>kb.values()\<close>, each
  reading the live knowledge base with the earlier updates already in it.\<close>

definition confidence_step :: "(string \<rightharpoonup> real) \<Rightarrow> nat \<Rightarrow> kb \<Rightarrow> kb" where
  "confidence_step scores n kb = kb[n := update_proposition_confidence_era (kb ! n) kb scores]"

definition confidence_pass :: "(string \<rightharpoonup> real) \<Rightarrow> kb \<Rightarrow> kb" where
  "confidence_pass scores kb = fold (confidence_step scores) [0..<length kb] kb"

text \<open>Lines 107--123. The source ids are enumerated in first-occurrence order; the
  reliability loop does not depend on the order
  (\<open>Reliability.reliability_loop_order_independent\<close>). The result is \<open>None\<close> only
  if the cycle detector ran out of fuel, which it never does.\<close>

definition run_updates_era :: "kb \<Rightarrow> kb option" where
  "run_updates_era kb =
     (if kb = [] then Some kb
      else (let (kb1, scores) = reliability_loop (remdups (map (source_id \<circ> epistemic_data) kb)) kb
            in case detect_circular_support_era kb1 of
                 None \<Rightarrow> None
               | Some (kb2, _) \<Rightarrow> Some (confidence_pass scores kb2)))"

text \<open>The alternative of \<^verbatim>\<open>spec.md\<close> \<section>9 (a): every update reads the knowledge base
  as it was before the pass.\<close>

definition confidence_snapshot :: "(string \<rightharpoonup> real) \<Rightarrow> kb \<Rightarrow> kb" where
  "confidence_snapshot scores kb = map (\<lambda>p. update_proposition_confidence_era p kb scores) kb"

subsection \<open>The update as a product of factors\<close>

definition neighbour_conf :: "kb \<Rightarrow> prop_id list \<Rightarrow> real" where
  "neighbour_conf kb ids = sum_list (map (\<lambda>i. case kb_get kb i of None \<Rightarrow> 0 | Some q \<Rightarrow> ed_conf q) ids)"

definition penalty_factor :: "label list \<Rightarrow> real option \<Rightarrow> real" where
  "penalty_factor fs pl = bias_penalty fs 1 * plausibility_scale pl 1"

definition base_confidence :: "Proposition \<Rightarrow> (string \<rightharpoonup> real) \<Rightarrow> real" where
  "base_confidence p scores =
     (let ic = initial_confidence (epistemic_data p); r = reliability_lookup scores (source_id (epistemic_data p))
      in ic * (1 - RELIABILITY_DAMPENING_FACTOR) + (ic * r) * RELIABILITY_DAMPENING_FACTOR)"

definition supported_confidence :: "Proposition \<Rightarrow> kb \<Rightarrow> (string \<rightharpoonup> real) \<Rightarrow> real" where
  "supported_confidence p kb scores =
     base_confidence p scores + SUPPORT_WEIGHT * (1 - base_confidence p scores) * neighbour_conf kb (ed_supports p)"

lemma neighbour_effect_factor:
  "neighbour_effect w kb ids f = w * f * neighbour_conf kb ids"
  by (induction ids) (auto simp: neighbour_effect_def neighbour_conf_def algebra_simps split: option.split)

lemma bias_penalty_factor: "bias_penalty fs c = bias_penalty fs 1 * c"
  by (simp add: bias_penalty_def Let_def)

lemma plausibility_scale_factor: "plausibility_scale pl c = plausibility_scale pl 1 * c"
  by (simp add: plausibility_scale_def split: option.split)

lemma raw_confidence_factored:
  "raw_confidence p kb scores =
     penalty_factor (ed_flags p) (plausibility_score (epistemic_data p)) *
     (supported_confidence p kb scores * (1 - CONTRADICTION_WEIGHT * neighbour_conf kb (ed_contradicts p)))"
  unfolding raw_confidence_def penalty_factor_def supported_confidence_def base_confidence_def Let_def
  by (subst plausibility_scale_factor, subst bias_penalty_factor)
     (simp add: neighbour_effect_factor algebra_simps)

lemma bias_penalty_one_bounds: "0 \<le> bias_penalty fs 1" "bias_penalty fs 1 \<le> 1"
  by (simp_all add: bias_penalty_def Let_def CIRCULAR_SUPPORT_PENALTY_MULTIPLIER_def BIAS_PENALTY_MULTIPLIER_def)

lemma penalty_factor_nonneg:
  "(case pl of None \<Rightarrow> True | Some v \<Rightarrow> 0 \<le> v) \<Longrightarrow> 0 \<le> penalty_factor fs pl"
  using bias_penalty_one_bounds(1) [of fs]
  by (auto simp: penalty_factor_def plausibility_scale_def PLAUSIBILITY_WEIGHT_FACTOR_def split: option.split)

lemma base_confidence_bounds:
  assumes "0 \<le> initial_confidence (epistemic_data p)" "initial_confidence (epistemic_data p) \<le> 1"
    and "0 \<le> reliability_lookup scores (source_id (epistemic_data p))"
    and "reliability_lookup scores (source_id (epistemic_data p)) \<le> 1"
  shows "0 \<le> base_confidence p scores" "base_confidence p scores \<le> 1"
proof -
  let ?ic = "initial_confidence (epistemic_data p)" and ?r = "reliability_lookup scores (source_id (epistemic_data p))"
  have eq: "base_confidence p scores = ?ic * (1 + ?r) / 2"
    by (simp add: base_confidence_def RELIABILITY_DAMPENING_FACTOR_def Let_def field_simps)
  have "?ic * (1 + ?r) \<le> 1 * 2" using assms by (intro mult_mono) auto
  then show "base_confidence p scores \<le> 1" using eq by simp
  have "0 \<le> ?ic * (1 + ?r)" using assms by simp
  then show "0 \<le> base_confidence p scores" using eq by simp
qed

lemma neighbour_conf_nonneg:
  "list_all (\<lambda>q. 0 \<le> ed_conf q) kb \<Longrightarrow> 0 \<le> neighbour_conf kb ids"
  unfolding neighbour_conf_def
  by (induction ids) (auto simp: list_all_iff dest: kb_get_Some_in split: option.split)

lemma neighbour_conf_snoc:
  "neighbour_conf kb (ids @ [j]) = neighbour_conf kb ids + (case kb_get kb j of None \<Rightarrow> 0 | Some q \<Rightarrow> ed_conf q)"
  by (simp add: neighbour_conf_def)

lemma conf_bounds_consts: "0 < MIN_CONFIDENCE" "MIN_CONFIDENCE \<le> MAX_CONFIDENCE"
  by (simp_all add: MIN_CONFIDENCE_def MAX_CONFIDENCE_def)

lemma update_confidence_bounded:
  "MIN_CONFIDENCE \<le> ed_conf (update_proposition_confidence_era p kb scores) \<and>
   ed_conf (update_proposition_confidence_era p kb scores) \<le> MAX_CONFIDENCE"
  using py_clamp_bounds [OF conf_bounds_consts(2)]
  by (simp add: update_proposition_confidence_era_def)

lemma update_confidence_frame [simp]:
  "prop_id (update_proposition_confidence_era p kb scores) = prop_id p"
  "ed_supports (update_proposition_confidence_era p kb scores) = ed_supports p"
  "ed_contradicts (update_proposition_confidence_era p kb scores) = ed_contradicts p"
  "ed_flags (update_proposition_confidence_era p kb scores) = ed_flags p"
  by (simp_all add: update_proposition_confidence_era_def)

lemma length_confidence_step [simp]: "length (confidence_step scores n kb) = length kb"
  by (simp add: confidence_step_def)

lemma kb_ids_confidence_step [simp]: "kb_ids (confidence_step scores n kb) = kb_ids kb"
proof (cases "n < length kb")
  case True
  then have "(map prop_id kb)[n := prop_id (kb ! n)] = map prop_id kb" by (metis list_update_id nth_map)
  then show ?thesis by (simp add: confidence_step_def kb_ids_def map_update)
qed (simp add: confidence_step_def list_update_beyond)

lemma confidence_step_nth:
  "m < length kb \<Longrightarrow> confidence_step scores n kb ! m =
     (if m = n then update_proposition_confidence_era (kb ! n) kb scores else kb ! m)"
  by (simp add: confidence_step_def nth_list_update)

lemma length_fold_confidence_step [simp]:
  "length (fold (confidence_step scores) ns kb) = length kb"
  by (induction ns arbitrary: kb) simp_all

lemma kb_ids_fold_confidence_step [simp]:
  "kb_ids (fold (confidence_step scores) ns kb) = kb_ids kb"
  by (induction ns arbitrary: kb) simp_all

text \<open>After the first \<open>k\<close> steps of the pass, the first \<open>k\<close> positions hold values
  written by the update and the others are untouched.\<close>

lemma fold_confidence_step_nth:
  "k \<le> length kb \<Longrightarrow> m < length kb \<Longrightarrow>
     fold (confidence_step scores) [0..<k] kb ! m =
       (if m < k then update_proposition_confidence_era (fold (confidence_step scores) [0..<m] kb ! m)
                        (fold (confidence_step scores) [0..<m] kb) scores
        else kb ! m)"
proof (induction k)
  case (Suc k)
  have "fold (confidence_step scores) [0..<Suc k] kb =
          confidence_step scores k (fold (confidence_step scores) [0..<k] kb)" by simp
  then show ?case using Suc by (auto simp: confidence_step_nth simp del: upt_Suc)
qed simp

lemma confidence_pass_conf_bounds:
  "list_all (\<lambda>p. MIN_CONFIDENCE \<le> ed_conf p \<and> ed_conf p \<le> MAX_CONFIDENCE) (confidence_pass scores kb)"
  unfolding list_all_length confidence_pass_def
  using fold_confidence_step_nth [of "length kb" kb] update_confidence_bounded by simp

lemma kb_ids_confidence_pass [simp]: "kb_ids (confidence_pass scores kb) = kb_ids kb"
  by (simp add: confidence_pass_def)

lemma ed_conf_update:
  "ed_conf (update_proposition_confidence_era p kb scores) =
     py_clamp MIN_CONFIDENCE MAX_CONFIDENCE (raw_confidence p kb scores)"
  by (simp add: update_proposition_confidence_era_def)

lemma neighbour_conf_absent:
  "list_all (\<lambda>i. i \<notin> set (kb_ids kb)) ids \<Longrightarrow> neighbour_conf kb ids = 0"
  by (induction ids) (auto simp: neighbour_conf_def kb_get_None_iff [symmetric])

lemma update_isolated:
  assumes "kb_ids kb' = kb_ids kb" "list_all (\<lambda>i. i \<notin> set (kb_ids kb)) (ed_supports p @ ed_contradicts p)"
  shows "update_proposition_confidence_era p kb' scores = update_proposition_confidence_era p kb scores"
proof -
  have "raw_confidence p kb' scores = raw_confidence p kb scores"
    using assms neighbour_conf_absent [of kb] neighbour_conf_absent [of kb']
    by (simp add: raw_confidence_factored supported_confidence_def)
  then show ?thesis by (simp add: update_proposition_confidence_era_def)
qed

text \<open>Example propositions with supports and contradicts lists, initial
  confidence 0.8 and no source type.\<close>

abbreviation conf_ex :: "prop_id \<Rightarrow> prop_id list \<Rightarrow> prop_id list \<Rightarrow> Proposition" where
  "conf_ex i ss cs \<equiv> make_proposition i ((make_epistemic_data i 0.8 None)\<lparr>supports := ss, contradicts := cs\<rparr>) i
     (Some ''x'') (Some ''be'') (Some i) False"

lemma fold_confidence_step_untouched:
  "k \<le> m \<Longrightarrow> m < length kb \<Longrightarrow> fold (confidence_step scores) [0..<k] kb ! m = kb ! m"
  by (induction k) (simp_all add: confidence_step_nth)

text \<open>The unfoldings that evaluate an update on a concrete knowledge base.\<close>

lemmas confidence_eval = confidence_pass_def confidence_snapshot_def confidence_step_def
  raw_confidence_def Let_def make_proposition_def make_epistemic_data_def reliability_lookup_def
  DEFAULT_SOURCE_RELIABILITY_def neighbour_effect_def bias_penalty_def plausibility_scale_def py_clamp_def
  MIN_CONFIDENCE_def MAX_CONFIDENCE_def SUPPORT_WEIGHT_def CONTRADICTION_WEIGHT_def
  RELIABILITY_DAMPENING_FACTOR_def update_proposition_confidence_era_def

subsection \<open>Properties of the confidence propagator\<close>

lemma kb_edges_confidence_step [simp]: "kb_edges (confidence_step scores n kb) = kb_edges kb"
proof (cases "n < length kb")
  case True
  then have "(kb_edges kb)[n := (prop_id (kb ! n), ed_supports (kb ! n), ed_contradicts (kb ! n))] = kb_edges kb"
    by (metis (no_types, lifting) kb_edges_def list_update_id nth_map)
  then show ?thesis by (simp add: confidence_step_def kb_edges_def map_update)
qed (simp add: confidence_step_def list_update_beyond)

lemma kb_edges_confidence_pass [simp]: "kb_edges (confidence_pass scores kb) = kb_edges kb"
proof -
  have "kb_edges (fold (confidence_step scores) ns kb) = kb_edges kb" for ns
    by (induction ns arbitrary: kb) simp_all
  then show ?thesis by (simp add: confidence_pass_def)
qed

lemma run_updates_era_ok:
  "\<exists>kb'. run_updates_era kb = Some kb' \<and> kb_ids kb' = kb_ids kb \<and>
         (kb_distinct kb \<longrightarrow> kb_edges kb' = kb_edges kb) \<and>
         list_all (\<lambda>p. MIN_CONFIDENCE \<le> ed_conf p \<and> ed_conf p \<le> MAX_CONFIDENCE) kb'"
proof (cases "kb = []")
  case False
  obtain kb1 scores where r: "reliability_loop (remdups (map (source_id \<circ> epistemic_data) kb)) kb = (kb1, scores)"
    by fastforce
  then have i1: "kb_ids kb1 = kb_ids kb" "kb_edges kb1 = kb_edges kb"
    using kb_ids_reliability_loop kb_edges_reliability_loop by (metis fst_conv)+
  obtain kb2 c where d: "detect_circular_support_era kb1 = Some (kb2, c)" and i2: "kb_ids kb2 = kb_ids kb1"
    using detect_circular_support_some by blast
  have "kb_distinct kb \<Longrightarrow> kb_edges kb2 = kb_edges kb1"
    using kb_edges_detect_circular_support [OF _ d] i1(1) by (simp add: kb_distinct_def)
  then show ?thesis
    using False r d i1 i2 confidence_pass_conf_bounds [of scores kb2] by (simp add: run_updates_era_def)
qed (simp add: run_updates_era_def)

text \<open>C22. The whole update stage \<^verbatim>\<open>run_updates_era\<close> always returns, keeps the keys
  of the knowledge base in order, and leaves every computed confidence in
  [0.01, 0.99].\<close>

theorem run_updates_era_bounded:
  "\<exists>kb'. run_updates_era kb = Some kb' \<and> kb_ids kb' = kb_ids kb \<and>
         list_all (\<lambda>p. MIN_CONFIDENCE \<le> ed_conf p \<and> ed_conf p \<le> MAX_CONFIDENCE) kb'"
  using run_updates_era_ok by blast

text \<open>C23. Adding a supporter never lowers the updated confidence, when confidences,
  the source's reliability and the plausibility score are non-negative and the
  initial confidence and reliability are at most 1.\<close>

theorem support_never_lowers:
  assumes "0 \<le> initial_confidence (epistemic_data p)" "initial_confidence (epistemic_data p) \<le> 1"
    and "0 \<le> reliability_lookup scores (source_id (epistemic_data p))"
    and "reliability_lookup scores (source_id (epistemic_data p)) \<le> 1"
    and "list_all (\<lambda>q. 0 \<le> ed_conf q) kb"
    and "case plausibility_score (epistemic_data p) of None \<Rightarrow> True | Some v \<Rightarrow> 0 \<le> v"
  shows "ed_conf (update_proposition_confidence_era p kb scores) \<le>
         ed_conf (update_proposition_confidence_era (epistemic_data_update (supports_update (\<lambda>ss. ss @ [j])) p) kb scores)"
proof -
  let ?p' = "epistemic_data_update (supports_update (\<lambda>ss. ss @ [j])) p"
  have b: "base_confidence ?p' scores = base_confidence p scores"
    by (simp add: base_confidence_def)
  have b01: "0 \<le> base_confidence p scores" "base_confidence p scores \<le> 1"
    using base_confidence_bounds [OF assms(1-4)] by simp_all
  have n: "neighbour_conf kb (ed_supports p) \<le> neighbour_conf kb (ed_supports ?p')"
    using assms(5) by (auto simp: neighbour_conf_snoc list_all_iff dest: kb_get_Some_in split: option.split)
  have s0: "0 \<le> supported_confidence p kb scores"
    using b01 neighbour_conf_nonneg [OF assms(5)] by (simp add: supported_confidence_def SUPPORT_WEIGHT_def)
  have s1: "supported_confidence p kb scores \<le> supported_confidence ?p' kb scores"
    using b b01 n by (simp add: supported_confidence_def SUPPORT_WEIGHT_def mult_left_mono)
  show ?thesis
    unfolding ed_conf_update raw_confidence_factored
    using py_clamp_scaled_mono [OF penalty_factor_nonneg [OF assms(6)] s0 s1 conf_bounds_consts]
    by simp
qed

theorem support_never_lowers_witness:
  "0 \<le> initial_confidence (epistemic_data (conf_ex ''A'' [] [])) \<and>
   initial_confidence (epistemic_data (conf_ex ''A'' [] [])) \<le> 1 \<and>
   0 \<le> reliability_lookup Map.empty (source_id (epistemic_data (conf_ex ''A'' [] []))) \<and>
   reliability_lookup Map.empty (source_id (epistemic_data (conf_ex ''A'' [] []))) \<le> 1 \<and>
   list_all (\<lambda>q. 0 \<le> ed_conf q) [conf_ex ''A'' [] [], conf_ex ''B'' [] []] \<and>
   (case plausibility_score (epistemic_data (conf_ex ''A'' [] [])) of None \<Rightarrow> True | Some v \<Rightarrow> 0 \<le> v) \<and>
   ed_conf (update_proposition_confidence_era (conf_ex ''A'' [] []) [conf_ex ''A'' [] [], conf_ex ''B'' [] []] Map.empty) \<le>
   ed_conf (update_proposition_confidence_era
              (epistemic_data_update (supports_update (\<lambda>ss. ss @ [''B''])) (conf_ex ''A'' [] []))
              [conf_ex ''A'' [] [], conf_ex ''B'' [] []] Map.empty)"
proof -
  have h: "0 \<le> initial_confidence (epistemic_data (conf_ex ''A'' [] []))"
    "initial_confidence (epistemic_data (conf_ex ''A'' [] [])) \<le> 1"
    "0 \<le> reliability_lookup Map.empty (source_id (epistemic_data (conf_ex ''A'' [] [])))"
    "reliability_lookup Map.empty (source_id (epistemic_data (conf_ex ''A'' [] []))) \<le> 1"
    "list_all (\<lambda>q. 0 \<le> ed_conf q) [conf_ex ''A'' [] [], conf_ex ''B'' [] []]"
    "case plausibility_score (epistemic_data (conf_ex ''A'' [] [])) of None \<Rightarrow> True | Some v \<Rightarrow> 0 \<le> v"
    by (simp_all add: make_proposition_def make_epistemic_data_def reliability_lookup_def
                      DEFAULT_SOURCE_RELIABILITY_def)
  show ?thesis using support_never_lowers [OF h, of "''B''"] h by blast
qed

text \<open>C24. Adding a contradictor never raises the updated confidence, under the same
  conditions.\<close>

theorem contradiction_never_raises:
  assumes "0 \<le> initial_confidence (epistemic_data p)" "initial_confidence (epistemic_data p) \<le> 1"
    and "0 \<le> reliability_lookup scores (source_id (epistemic_data p))"
    and "reliability_lookup scores (source_id (epistemic_data p)) \<le> 1"
    and "list_all (\<lambda>q. 0 \<le> ed_conf q) kb"
    and "case plausibility_score (epistemic_data p) of None \<Rightarrow> True | Some v \<Rightarrow> 0 \<le> v"
  shows "ed_conf (update_proposition_confidence_era (epistemic_data_update (contradicts_update (\<lambda>cs. cs @ [j])) p) kb scores) \<le>
         ed_conf (update_proposition_confidence_era p kb scores)"
proof -
  let ?p' = "epistemic_data_update (contradicts_update (\<lambda>cs. cs @ [j])) p"
  let ?K = "penalty_factor (ed_flags p) (plausibility_score (epistemic_data p))"
  let ?S = "supported_confidence p kb scores"
  have b01: "0 \<le> base_confidence p scores" "base_confidence p scores \<le> 1"
    using base_confidence_bounds [OF assms(1-4)] by simp_all
  have s: "supported_confidence ?p' kb scores = ?S"
    by (simp add: supported_confidence_def base_confidence_def)
  have s0: "0 \<le> ?S"
    using b01 neighbour_conf_nonneg [OF assms(5)] by (simp add: supported_confidence_def SUPPORT_WEIGHT_def)
  have n: "neighbour_conf kb (ed_contradicts p) \<le> neighbour_conf kb (ed_contradicts ?p')"
    using assms(5) by (auto simp: neighbour_conf_snoc list_all_iff dest: kb_get_Some_in split: option.split)
  have "0 \<le> ?K * ?S" using penalty_factor_nonneg [OF assms(6)] s0 by simp
  then have "?K * ?S * (1 - CONTRADICTION_WEIGHT * neighbour_conf kb (ed_contradicts ?p')) \<le>
             ?K * ?S * (1 - CONTRADICTION_WEIGHT * neighbour_conf kb (ed_contradicts p))"
    using n by (intro mult_left_mono) (auto simp: CONTRADICTION_WEIGHT_def)
  then show ?thesis
    unfolding ed_conf_update raw_confidence_factored s
    by (intro py_clamp_mono) (simp add: mult.assoc)
qed

theorem contradiction_never_raises_witness:
  "0 \<le> initial_confidence (epistemic_data (conf_ex ''A'' [] [])) \<and>
   initial_confidence (epistemic_data (conf_ex ''A'' [] [])) \<le> 1 \<and>
   0 \<le> reliability_lookup Map.empty (source_id (epistemic_data (conf_ex ''A'' [] []))) \<and>
   reliability_lookup Map.empty (source_id (epistemic_data (conf_ex ''A'' [] []))) \<le> 1 \<and>
   list_all (\<lambda>q. 0 \<le> ed_conf q) [conf_ex ''A'' [] [], conf_ex ''B'' [] []] \<and>
   (case plausibility_score (epistemic_data (conf_ex ''A'' [] [])) of None \<Rightarrow> True | Some v \<Rightarrow> 0 \<le> v) \<and>
   ed_conf (update_proposition_confidence_era
              (epistemic_data_update (contradicts_update (\<lambda>cs. cs @ [''B''])) (conf_ex ''A'' [] []))
              [conf_ex ''A'' [] [], conf_ex ''B'' [] []] Map.empty) \<le>
   ed_conf (update_proposition_confidence_era (conf_ex ''A'' [] []) [conf_ex ''A'' [] [], conf_ex ''B'' [] []] Map.empty)"
proof -
  have h: "0 \<le> initial_confidence (epistemic_data (conf_ex ''A'' [] []))"
    "initial_confidence (epistemic_data (conf_ex ''A'' [] [])) \<le> 1"
    "0 \<le> reliability_lookup Map.empty (source_id (epistemic_data (conf_ex ''A'' [] [])))"
    "reliability_lookup Map.empty (source_id (epistemic_data (conf_ex ''A'' [] []))) \<le> 1"
    "list_all (\<lambda>q. 0 \<le> ed_conf q) [conf_ex ''A'' [] [], conf_ex ''B'' [] []]"
    "case plausibility_score (epistemic_data (conf_ex ''A'' [] [])) of None \<Rightarrow> True | Some v \<Rightarrow> 0 \<le> v"
    by (simp_all add: make_proposition_def make_epistemic_data_def reliability_lookup_def
                      DEFAULT_SOURCE_RELIABILITY_def)
  show ?thesis using contradiction_never_raises [OF h, of "''B''"] h by blast
qed

text \<open>The single in-place pass is order dependent (\<^verbatim>\<open>spec.md\<close> \<section>9): for two
  propositions supporting each other, the one updated second reads its
  supporter's new confidence, so the same proposition B ends with a different
  confidence depending on its position, while the snapshot update gives both the
  same.\<close>

theorem confidence_pass_order_dependent:
  "map ed_conf (confidence_pass Map.empty [conf_ex ''A'' [''B''] [], conf_ex ''B'' [''A''] []]) =
     [418 / 625, 51881 / 78125] \<and>
   map ed_conf (confidence_pass Map.empty [conf_ex ''B'' [''A''] [], conf_ex ''A'' [''B''] []]) =
     [418 / 625, 51881 / 78125] \<and>
   map ed_conf (confidence_snapshot Map.empty [conf_ex ''A'' [''B''] [], conf_ex ''B'' [''A''] []]) =
     [418 / 625, 418 / 625]"
  by (intro conjI) (simp_all add: confidence_eval)

text \<open>C25. Without links inside the knowledge base the in-place pass computes the
  snapshot update of \<^verbatim>\<open>spec.md\<close> \<section>9 (a): the order of the pass only matters
  through linked propositions.\<close>

theorem confidence_pass_isolated_eq_snapshot:
  "list_all (\<lambda>p. list_all (\<lambda>i. i \<notin> set (kb_ids kb)) (ed_supports p @ ed_contradicts p)) kb \<Longrightarrow>
     confidence_pass scores kb = confidence_snapshot scores kb"
proof -
  assume iso: "list_all (\<lambda>p. list_all (\<lambda>i. i \<notin> set (kb_ids kb)) (ed_supports p @ ed_contradicts p)) kb"
  have eq: "confidence_pass scores kb ! m = confidence_snapshot scores kb ! m" if m: "m < length kb" for m
  proof -
    let ?kbm = "fold (confidence_step scores) [0..<m] kb"
    have "?kbm ! m = kb ! m" using fold_confidence_step_untouched [of m m kb] m by simp
    moreover have "kb_ids ?kbm = kb_ids kb" by simp
    moreover have "list_all (\<lambda>i. i \<notin> set (kb_ids kb)) (ed_supports (kb ! m) @ ed_contradicts (kb ! m))"
      using iso m by (simp add: list_all_length)
    ultimately have "update_proposition_confidence_era (?kbm ! m) ?kbm scores =
                     update_proposition_confidence_era (kb ! m) kb scores"
      using update_isolated by metis
    moreover have "confidence_pass scores kb ! m = update_proposition_confidence_era (?kbm ! m) ?kbm scores"
      using fold_confidence_step_nth [of "length kb" kb m] m by (simp add: confidence_pass_def)
    ultimately show ?thesis using m by (simp add: confidence_snapshot_def)
  qed
  moreover have "length (confidence_pass scores kb) = length (confidence_snapshot scores kb)"
    by (simp add: confidence_pass_def confidence_snapshot_def)
  ultimately show ?thesis by (metis nth_equalityI length_map confidence_snapshot_def)
qed

theorem confidence_pass_isolated_eq_snapshot_witness:
  "list_all (\<lambda>p. list_all (\<lambda>i. i \<notin> set (kb_ids [conf_ex ''A'' [''Z''] [], conf_ex ''B'' [] [''Y'']]))
                  (ed_supports p @ ed_contradicts p)) [conf_ex ''A'' [''Z''] [], conf_ex ''B'' [] [''Y'']] \<and>
   confidence_pass Map.empty [conf_ex ''A'' [''Z''] [], conf_ex ''B'' [] [''Y'']] =
   confidence_snapshot Map.empty [conf_ex ''A'' [''Z''] [], conf_ex ''B'' [] [''Y'']]"
proof -
  have h: "list_all (\<lambda>p. list_all (\<lambda>i. i \<notin> set (kb_ids [conf_ex ''A'' [''Z''] [], conf_ex ''B'' [] [''Y'']]))
                  (ed_supports p @ ed_contradicts p)) [conf_ex ''A'' [''Z''] [], conf_ex ''B'' [] [''Y'']]"
    by (simp add: make_proposition_def make_epistemic_data_def)
  show ?thesis using confidence_pass_isolated_eq_snapshot [OF h] h by blast
qed

end
