(* ===== verification/Validator.thy ===== *)
theory Validator
  imports Core_Classes
begin

text \<open>
  The plausibility validator \<^verbatim>\<open>check_plausibility_v_era\<close> of
  \<^verbatim>\<open>src/aee_validator.py\<close> (lines 15--62): keyword rules on the subject and value
  lemmas giving a score in [0, 1] and a list of notes. The early return for a
  missing \<^verbatim>\<open>Proposition\<close> class or a falsy argument (lines 26--27) cannot occur
  for a dataclass instance once the module imported, and is not modelled.
\<close>

definition sky_colors :: "string list" where
  "sky_colors = [''blue'', ''grey'', ''gray'', ''black'', ''red'', ''orange'', ''pink'', ''purple'']"

definition water_states :: "string list" where
  "water_states = [''solid'', ''liquid'', ''gas'', ''steam'', ''ice'']"

text \<open>Lines 43--59. \<^verbatim>\<open>value not in [...]\<close> holds for \<^verbatim>\<open>None\<close>, so a sky
  proposition without a value scores 0.2.\<close>

definition check_plausibility_v_era :: "Proposition \<Rightarrow> real option \<times> string list" where
  "check_plausibility_v_era p =
     (let subject = subject_lemma p; value = value_lemma p;
          (score, notes) =
            (if subject = Some ''sky'' \<and> value \<notin> set (map Some sky_colors)
             then (0.2, [''Value is an uncommon color for the sky.''])
             else if subject = Some ''water'' \<and> value \<in> set (map Some water_states) then (0.9, [])
             else (0.8, []))
      in (Some (py_clamp 0 1 score), notes))"

text \<open>Lines 78--81 of \<^verbatim>\<open>src/aee_era_main.py\<close>: the score is stored and the notes
  are appended to the proposition's notes.\<close>

definition validate_prop :: "Proposition \<Rightarrow> Proposition" where
  "validate_prop p =
     (let (s, ns) = check_plausibility_v_era p
      in epistemic_data_update (\<lambda>ed. ed\<lparr>plausibility_score := s, validation_notes := validation_notes ed @ ns\<rparr>) p)"

text \<open>Example claims: a subject and an optional value.\<close>

abbreviation val_ex :: "string \<Rightarrow> string option \<Rightarrow> Proposition" where
  "val_ex s v \<equiv> make_proposition s (make_epistemic_data ''src'' 0.5 None) ''p'' (Some s) (Some ''be'') v False"

subsection \<open>Properties of the validator\<close>

lemma validate_prop_frame [simp]:
  "prop_id (validate_prop p) = prop_id p" "subject_lemma (validate_prop p) = subject_lemma p"
  "relation_lemma (validate_prop p) = relation_lemma p" "value_lemma (validate_prop p) = value_lemma p"
  "is_negated (validate_prop p) = is_negated p"
  "ed_supports (validate_prop p) = ed_supports p" "ed_contradicts (validate_prop p) = ed_contradicts p"
  "ed_flags (validate_prop p) = ed_flags p"
  "initial_confidence (epistemic_data (validate_prop p)) = initial_confidence (epistemic_data p)"
  "source_id (epistemic_data (validate_prop p)) = source_id (epistemic_data p)"
  "source_type (epistemic_data (validate_prop p)) = source_type (epistemic_data p)"
  "ed_conf (validate_prop p) = ed_conf p"
  by (simp_all add: validate_prop_def split: prod.split)

lemma validate_prop_score:
  "\<exists>v. plausibility_score (epistemic_data (validate_prop p)) = Some v \<and> 0 \<le> v \<and> v \<le> 1"
  using py_clamp_bounds [of 0 1]
  by (simp add: validate_prop_def check_plausibility_v_era_def Let_def split: prod.split)

text \<open>The validator's keyword rules: a sky of an uncommon colour, or of no value
  at all (\<^verbatim>\<open>None not in [...]\<close> is true), scores 0.2 with a note; a known sky
  colour and any other claim score 0.8; a known state of water scores 0.9.\<close>

theorem check_plausibility_rules:
  "check_plausibility_v_era (val_ex ''sky'' (Some ''green'')) = (Some 0.2, [''Value is an uncommon color for the sky.'']) \<and>
   check_plausibility_v_era (val_ex ''sky'' None) = (Some 0.2, [''Value is an uncommon color for the sky.'']) \<and>
   check_plausibility_v_era (val_ex ''sky'' (Some ''blue'')) = (Some 0.8, []) \<and>
   check_plausibility_v_era (val_ex ''water'' (Some ''ice'')) = (Some 0.9, []) \<and>
   check_plausibility_v_era (val_ex ''water'' (Some ''wine'')) = (Some 0.8, [])"
  by (simp add: check_plausibility_v_era_def make_proposition_def sky_colors_def water_states_def py_clamp_def)

end
