(* ===== verification/Extractor.thy ===== *)
theory Extractor
  imports Core_Classes
begin

text \<open>
  The proposition extractor of \<^verbatim>\<open>src/aee_extractor_era.py\<close> from the parsed
  document on. Tokenising, lemmatising and dependency parsing are done by spaCy,
  an external library, and are not modelled: a parsed sentence is given as a
  \<open>Sentence\<close> record whose tokens carry the spaCy attributes the code reads
  (\<^verbatim>\<open>lemma_\<close>, \<^verbatim>\<open>pos_\<close>, \<^verbatim>\<open>dep_\<close>, and \<^verbatim>\<open>head\<close> as a position in the
  sentence; the root is its own head, as in spaCy). Everything the module computes
  from these attributes is modelled: \<^verbatim>\<open>get_token_lemma\<close>, \<^verbatim>\<open>find_negation\<close>, the
  source-based and linguistic confidence heuristics, and
  \<^verbatim>\<open>extract_propositions_era\<close>. The \<^verbatim>\<open>uuid4\<close> ids of the new propositions
  are an injective supply \<open>fresh\<close> indexed by the number of propositions made so
  far.
\<close>

record Token =
  tok_lemma :: string
  tok_pos :: string
  tok_dep :: string
  tok_head :: nat

record Sentence =
  sent_text :: string
  sent_tokens :: "Token list"
  sent_root :: nat

definition EXTRACTOR_MIN_CONFIDENCE :: real where "EXTRACTOR_MIN_CONFIDENCE = 0.01"
definition EXTRACTOR_MAX_CONFIDENCE :: real where "EXTRACTOR_MAX_CONFIDENCE = 0.99"

text \<open>Lines 42--44; a token is a position of the sentence.\<close>

definition get_token_lemma :: "Sentence \<Rightarrow> nat option \<Rightarrow> string option" where
  "get_token_lemma sent t = map_option (\<lambda>i. py_lower (tok_lemma (sent_tokens sent ! i))) t"

text \<open>\<^verbatim>\<open>token.children\<close>: the other tokens whose head it is, in document order.\<close>

definition children :: "Sentence \<Rightarrow> nat \<Rightarrow> nat list" where
  "children sent i = filter (\<lambda>j. tok_head (sent_tokens sent ! j) = i \<and> j \<noteq> i) [0..<length (sent_tokens sent)]"

definition has_child :: "Sentence \<Rightarrow> nat \<Rightarrow> (Token \<Rightarrow> bool) \<Rightarrow> bool" where
  "has_child sent i P \<longleftrightarrow> list_ex (\<lambda>j. P (sent_tokens sent ! j)) (children sent i)"

text \<open>Lines 46--68, the three checks in order.\<close>

definition find_negation :: "Sentence \<Rightarrow> nat option \<Rightarrow> bool" where
  "find_negation sent t =
     (case t of
        None \<Rightarrow> False
      | Some i \<Rightarrow>
          (let tok = sent_tokens sent ! i; h = tok_head tok in
           if has_child sent i (\<lambda>c. tok_dep c = ''neg'') then True
           else if h \<noteq> i \<and> tok_pos (sent_tokens sent ! h) = ''AUX'' \<and>
                   has_child sent h (\<lambda>c. tok_dep c = ''neg'') then True
           else if tok_lemma tok = ''be'' then
             has_child sent i (\<lambda>c. tok_dep c = ''neg'') \<or>
             has_child sent i (\<lambda>c. tok_dep c = ''advmod'' \<and> tok_lemma c = ''not'')
           else False))"

text \<open>Lines 72--84.\<close>

definition get_source_based_confidence :: "string \<Rightarrow> real" where
  "get_source_based_confidence sid =
     (let s = py_lower sid in
      if py_in ''user'' s \<or> py_in ''comment'' s \<or> py_in ''diary'' s then 0.45
      else if py_in ''blog'' s \<or> py_in ''opinion'' s \<or> py_in ''forum'' s then 0.50
      else if py_in ''news'' s \<or> list_ex (\<lambda>d. py_in d s) [''.com'', ''.org'', ''.net''] then 0.65
      else if py_in ''wiki'' s then 0.70
      else if py_in ''report'' s \<or> py_in ''fact_sheet'' s then 0.75
      else if py_in ''textbook'' s \<or> py_in ''.edu'' s then 0.80
      else if py_in ''science'' s \<or> py_in ''research'' s \<or> py_in ''expert'' s \<or> py_in ''paper'' s then 0.85
      else if py_in ''common_knowledge'' s then 0.90
      else 0.55)"

definition uncertainty_markers :: "string list" where
  "uncertainty_markers = [''may'', ''might'', ''could'', ''perhaps'', ''possibly'', ''suggest'', ''appear'',
     ''seem'', ''likely'', ''probably'', ''believe'', ''think'', ''assume'', ''sometimes'']"

definition certainty_markers :: "string list" where
  "certainty_markers = [''will'', ''must'', ''definitely'', ''certainly'', ''undoubtedly'', ''always'',
     ''never'', ''prove'', ''confirm'', ''show'', ''demonstrate'', ''fact'']"

text \<open>Lines 86--127. The loops stop at the first marker; as their only effect is the
  flag they set, they are \<open>list_ex\<close>. The negation markers of line 91 are never
  read.\<close>

definition calculate_linguistic_confidence_modifier :: "Sentence \<Rightarrow> real" where
  "calculate_linguistic_confidence_modifier sent =
     (let toks = sent_tokens sent;
          has_uncertainty = list_ex (\<lambda>t. (tok_pos t \<in> {''AUX'', ''VERB''} \<and> py_lower (tok_lemma t) \<in> set uncertainty_markers) \<or>
                                          (tok_pos t = ''ADV'' \<and> py_lower (tok_lemma t) \<in> set uncertainty_markers)) toks;
          has_certainty = (\<not> has_uncertainty \<and>
             list_ex (\<lambda>t. (tok_pos t = ''ADV'' \<and> py_lower (tok_lemma t) \<in> set certainty_markers) \<or>
                          (tok_pos t = ''VERB'' \<and> py_lower (tok_lemma t) \<in> set certainty_markers)) toks)
      in if has_uncertainty then 0.80 else if has_certainty then 1.15 else 1.0)"

text \<open>Lines 194--200: the source type guessed from the source id.\<close>

definition guess_source_type :: "string \<Rightarrow> string option" where
  "guess_source_type sid =
     (let s = py_lower sid in
      if py_in ''user'' s then Some ''user'' else if py_in ''news'' s then Some ''news''
      else if py_in ''common'' s then Some ''common'' else if py_in ''textbook'' s then Some ''textbook''
      else None)"

text \<open>Lines 149--155 and 158--163: the first subject attached to the root, and the
  last object and last attribute attached to it (later matches overwrite).\<close>

definition find_subject :: "Sentence \<Rightarrow> nat option" where
  "find_subject sent =
     find (\<lambda>j. tok_dep (sent_tokens sent ! j) \<in> {''nsubj'', ''nsubjpass''} \<and>
               tok_head (sent_tokens sent ! j) = sent_root sent) [0..<length (sent_tokens sent)]"

definition find_last :: "Sentence \<Rightarrow> string set \<Rightarrow> nat option" where
  "find_last sent deps =
     fold (\<lambda>j acc. if tok_head (sent_tokens sent ! j) = sent_root sent \<and> tok_dep (sent_tokens sent ! j) \<in> deps
                   then Some j else acc) [0..<length (sent_tokens sent)] None"

text \<open>Lines 144--221 for one sentence: the proposition it yields, if any, given its
  fresh id. Each \<^verbatim>\<open>continue\<close> and the final completeness test is a \<open>None\<close>.\<close>

definition extract_sentence :: "string \<Rightarrow> prop_id \<Rightarrow> Sentence \<Rightarrow> Proposition option" where
  "extract_sentence sid i sent =
     (case find_subject sent of
        None \<Rightarrow> None
      | Some subj \<Rightarrow>
          (let attribute = find_last sent {''attr'', ''acomp'', ''xcomp''};
               prop_object = find_last sent {''dobj'', ''pobj''};
               relation_lemma = get_token_lemma sent (Some (sent_root sent));
               subject_lemma = get_token_lemma sent (Some subj);
               value_token = (case attribute of Some a \<Rightarrow> Some a | None \<Rightarrow> prop_object)
           in case value_token of
                None \<Rightarrow> None
              | Some v \<Rightarrow>
                  (let value_lemma = get_token_lemma sent (Some v);
                       neg = (find_negation sent (Some v) \<or> find_negation sent (Some (sent_root sent)))
                   in if py_truthy subject_lemma \<and> py_truthy relation_lemma \<and> py_truthy value_lemma then
                        Some (make_proposition (sent_text sent)
                                (make_epistemic_data sid
                                   (py_clamp EXTRACTOR_MIN_CONFIDENCE EXTRACTOR_MAX_CONFIDENCE
                                      (get_source_based_confidence sid * calculate_linguistic_confidence_modifier sent))
                                   (guess_source_type sid))
                                i subject_lemma relation_lemma value_lemma neg)
                      else None)))"

text \<open>Lines 134--226: the loop over the sentences. The ids come from a global
  supply: \<open>fresh (k + n)\<close> is the id of the \<open>n\<close>-th proposition this call creates
  when \<open>k\<close> were created before it.\<close>

fun extract_loop :: "(nat \<Rightarrow> prop_id) \<Rightarrow> nat \<Rightarrow> string \<Rightarrow> Sentence list \<Rightarrow> Proposition list \<Rightarrow> Proposition list" where
  "extract_loop fresh k sid [] acc = acc"
| "extract_loop fresh k sid (s # ss) acc =
     extract_loop fresh k sid ss
       (case extract_sentence sid (fresh (k + length acc)) s of None \<Rightarrow> acc | Some p \<Rightarrow> acc @ [p])"

definition extract_propositions_era :: "(nat \<Rightarrow> prop_id) \<Rightarrow> nat \<Rightarrow> Sentence list \<Rightarrow> string \<Rightarrow> Proposition list" where
  "extract_propositions_era fresh k doc sid = extract_loop fresh k sid doc []"

text \<open>Parsed example sentences, as spaCy's English model parses them.\<close>

abbreviation tok :: "string \<Rightarrow> string \<Rightarrow> string \<Rightarrow> nat \<Rightarrow> Token" where
  "tok l p d h \<equiv> \<lparr>tok_lemma = l, tok_pos = p, tok_dep = d, tok_head = h\<rparr>"

definition sky_not_blue :: Sentence where
  "sky_not_blue = \<lparr>sent_text = ''The sky is not blue.'',
     sent_tokens = [tok ''the'' ''DET'' ''det'' 1, tok ''sky'' ''NOUN'' ''nsubj'' 2, tok ''be'' ''AUX'' ''ROOT'' 2,
       tok ''not'' ''PART'' ''neg'' 2, tok ''blue'' ''ADJ'' ''acomp'' 2, tok ''.'' ''PUNCT'' ''punct'' 2],
     sent_root = 2\<rparr>"

definition sky_might_be_blue :: Sentence where
  "sky_might_be_blue = \<lparr>sent_text = ''The sky might be blue.'',
     sent_tokens = [tok ''the'' ''DET'' ''det'' 1, tok ''sky'' ''NOUN'' ''nsubj'' 3, tok ''might'' ''AUX'' ''aux'' 3,
       tok ''be'' ''AUX'' ''ROOT'' 3, tok ''blue'' ''ADJ'' ''acomp'' 3, tok ''.'' ''PUNCT'' ''punct'' 3],
     sent_root = 3\<rparr>"

definition sky_definitely_blue :: Sentence where
  "sky_definitely_blue = \<lparr>sent_text = ''The sky is definitely blue.'',
     sent_tokens = [tok ''the'' ''DET'' ''det'' 1, tok ''sky'' ''NOUN'' ''nsubj'' 2, tok ''be'' ''AUX'' ''ROOT'' 2,
       tok ''definitely'' ''ADV'' ''advmod'' 2, tok ''blue'' ''ADJ'' ''acomp'' 2, tok ''.'' ''PUNCT'' ''punct'' 2],
     sent_root = 2\<rparr>"

definition he_runs :: Sentence where
  "he_runs = \<lparr>sent_text = ''He runs.'',
     sent_tokens = [tok ''he'' ''PRON'' ''nsubj'' 1, tok ''run'' ''VERB'' ''ROOT'' 1, tok ''.'' ''PUNCT'' ''punct'' 1],
     sent_root = 1\<rparr>"

subsection \<open>What an extracted proposition looks like\<close>

text \<open>The output contract of the extractor, which the linker and the pipeline rely
  on: fresh edge lists and flags, a subject, relation and value, an initial
  confidence in the declared range, and the source id it was read from.\<close>

definition extracted_ok :: "string \<Rightarrow> Proposition \<Rightarrow> bool" where
  "extracted_ok sid p \<longleftrightarrow> ed_supports p = [] \<and> ed_contradicts p = [] \<and> ed_flags p = [] \<and>
     py_truthy (subject_lemma p) \<and> py_truthy (relation_lemma p) \<and> py_truthy (value_lemma p) \<and>
     EXTRACTOR_MIN_CONFIDENCE \<le> initial_confidence (epistemic_data p) \<and>
     initial_confidence (epistemic_data p) \<le> EXTRACTOR_MAX_CONFIDENCE \<and>
     computed_confidence (epistemic_data p) = initial_confidence (epistemic_data p) \<and>
     source_id (epistemic_data p) = sid"

lemma extract_sentence_ok:
  assumes "extract_sentence sid i s = Some p"
  shows "extracted_ok sid p \<and> prop_id p = i"
proof -
  have b: "EXTRACTOR_MIN_CONFIDENCE \<le> EXTRACTOR_MAX_CONFIDENCE"
    by (simp add: EXTRACTOR_MIN_CONFIDENCE_def EXTRACTOR_MAX_CONFIDENCE_def)
  show ?thesis
    using assms py_clamp_bounds [OF b]
    by (auto simp: extract_sentence_def extracted_ok_def make_proposition_def make_epistemic_data_def Let_def
             split: option.splits if_splits)
qed

lemma extract_loop_ok:
  "list_all (extracted_ok sid) acc \<Longrightarrow> list_all (extracted_ok sid) (extract_loop fresh k sid ss acc)"
  by (induction ss arbitrary: acc) (auto dest: extract_sentence_ok split: option.split)

lemma extract_loop_ids:
  "map prop_id acc = map fresh [k..<k + length acc] \<Longrightarrow>
     map prop_id (extract_loop fresh k sid ss acc) = map fresh [k..<k + length (extract_loop fresh k sid ss acc)]"
proof (induction ss arbitrary: acc)
  case (Cons s ss)
  show ?case
  proof (cases "extract_sentence sid (fresh (k + length acc)) s")
    case (Some p)
    then have "prop_id p = fresh (k + length acc)" using extract_sentence_ok by blast
    then show ?thesis using Cons Some by simp
  qed (use Cons in simp)
qed simp

subsection \<open>Properties of the extractor\<close>

text \<open>C28. Every proposition the extractor creates is well formed for the rest of
  the pipeline: empty support, contradiction and flag lists, a non-empty subject,
  relation and value, an initial confidence in [0.01, 0.99] equal to its computed
  confidence, and the source id it was read from.\<close>

theorem extracted_propositions_well_formed:
  "list_all (extracted_ok sid) (extract_propositions_era fresh k doc sid)"
  by (simp add: extract_propositions_era_def extract_loop_ok)

text \<open>The extracted propositions carry consecutive ids of the supply, so an
  injective supply (as \<^verbatim>\<open>uuid4\<close> is meant to be) gives distinct ids.\<close>

theorem extracted_ids_fresh:
  "map prop_id (extract_propositions_era fresh k doc sid) =
     map fresh [k..<k + length (extract_propositions_era fresh k doc sid)]"
  unfolding extract_propositions_era_def by (rule extract_loop_ids) simp

end
