(* ===== verification/Updater_V2.thy ===== *)
theory Updater_V2
  imports Confidence
begin

text \<open>
  The legacy v2 updater \<^verbatim>\<open>src/aee_updater.py\<close>, kept beside the Era updater as
  its predecessor: the same reliability heuristic written as a loop with
  \<^verbatim>\<open>break\<close>, the confidence update without bias penalties and plausibility, and
  \<^verbatim>\<open>run_updates_v2\<close> without cycle detection. It imports the v2 data classes
  (\<^verbatim>\<open>aee_core_classes\<close>, not part of the repository's sources); the fields it reads
  are those of the Era records, which are used here. The theorems show where the
  Era updater is a conservative extension of it.
\<close>

text \<open>Lines 36--40: the loop that stops at the first proposition with a
  contradiction.\<close>

fun has_contradiction_loop :: "Proposition list \<Rightarrow> bool" where
  "has_contradiction_loop [] = False"
| "has_contradiction_loop (p # ps) = (if ed_contradicts p \<noteq> [] then True else has_contradiction_loop ps)"

text \<open>Lines 26--47.\<close>

definition calculate_source_reliability_v2 :: "string \<Rightarrow> kb \<Rightarrow> real" where
  "calculate_source_reliability_v2 sid kb =
     (let props_from_source = filter (\<lambda>p. source_id (epistemic_data p) = sid) kb in
      if props_from_source = [] then DEFAULT_SOURCE_RELIABILITY
      else if has_contradiction_loop props_from_source then UNRELIABLE_SOURCE_SCORE
      else RELIABLE_SOURCE_SCORE)"

text \<open>Lines 68--91: the two loops with their debug counters, which only feed
  commented-out prints and are not modelled.\<close>

fun support_loop :: "kb \<Rightarrow> real \<Rightarrow> prop_id list \<Rightarrow> real \<Rightarrow> real" where
  "support_loop kb c [] acc = acc"
| "support_loop kb c (i # ids) acc =
     support_loop kb c ids
       (case kb_get kb i of None \<Rightarrow> acc | Some q \<Rightarrow> acc + SUPPORT_WEIGHT * ed_conf q * (1 - c))"

fun contradiction_loop :: "kb \<Rightarrow> real \<Rightarrow> prop_id list \<Rightarrow> real \<Rightarrow> real" where
  "contradiction_loop kb c [] acc = acc"
| "contradiction_loop kb c (i # ids) acc =
     contradiction_loop kb c ids
       (case kb_get kb i of None \<Rightarrow> acc | Some q \<Rightarrow> acc + CONTRADICTION_WEIGHT * ed_conf q * c)"

text \<open>Lines 50--94.\<close>

definition update_proposition_confidence_v2 :: "Proposition \<Rightarrow> kb \<Rightarrow> (string \<rightharpoonup> real) \<Rightarrow> Proposition" where
  "update_proposition_confidence_v2 p kb scores =
     (let ed = epistemic_data p; ic = initial_confidence ed;
          r = reliability_lookup scores (source_id ed);
          c0 = ic * (1 - RELIABILITY_DAMPENING_FACTOR) + (ic * r) * RELIABILITY_DAMPENING_FACTOR;
          c1 = c0 + support_loop kb c0 (supports ed) 0;
          c2 = c1 - contradiction_loop kb c1 (contradicts ed) 0
      in epistemic_data_update (computed_confidence_update (\<lambda>_. py_clamp MIN_CONFIDENCE MAX_CONFIDENCE c2)) p)"

text \<open>Lines 114--120: the reliability loop body of v2.\<close>

definition reliability_step_v2 :: "string \<Rightarrow> kb \<times> (string \<rightharpoonup> real) \<Rightarrow> kb \<times> (string \<rightharpoonup> real)" where
  "reliability_step_v2 sid st =
     (let (kb, scores) = st; r = calculate_source_reliability_v2 sid kb
      in (set_reliability sid r kb, scores(sid \<mapsto> r)))"

definition confidence_step_v2 :: "(string \<rightharpoonup> real) \<Rightarrow> nat \<Rightarrow> kb \<Rightarrow> kb" where
  "confidence_step_v2 scores n kb = kb[n := update_proposition_confidence_v2 (kb ! n) kb scores]"

text \<open>Lines 100--129, with the same enumeration of the source-id set as the Era
  model.\<close>

definition run_updates_v2 :: "kb \<Rightarrow> kb" where
  "run_updates_v2 kb =
     (if kb = [] then kb
      else (let (kb1, scores) = fold reliability_step_v2 (remdups (map (source_id \<circ> epistemic_data) kb)) (kb, Map.empty)
            in fold (confidence_step_v2 scores) [0..<length kb1] kb1))"

text \<open>The propositions on which the two updaters are compared: no bias flags, no
  plausibility score, no supports.\<close>

definition v2_domain :: "Proposition \<Rightarrow> bool" where
  "v2_domain p \<longleftrightarrow> ed_flags p = [] \<and> plausibility_score (epistemic_data p) = None \<and> ed_supports p = []"

subsection \<open>The Era updater extends v2\<close>

lemma has_contradiction_loop_iff: "has_contradiction_loop ps = list_ex (\<lambda>p. ed_contradicts p \<noteq> []) ps"
  by (induction ps) auto

lemma calculate_source_reliability_v2_eq:
  "calculate_source_reliability_v2 = calculate_source_reliability_era"
  unfolding calculate_source_reliability_v2_def calculate_source_reliability_era_def has_contradiction_loop_iff ..

lemma support_loop_eq: "support_loop kb c ids acc = acc + neighbour_effect SUPPORT_WEIGHT kb ids (1 - c)"
  by (induction ids arbitrary: acc) (auto simp: neighbour_effect_def split: option.split)

lemma contradiction_loop_eq: "contradiction_loop kb c ids acc = acc + neighbour_effect CONTRADICTION_WEIGHT kb ids c"
  by (induction ids arbitrary: acc) (auto simp: neighbour_effect_def split: option.split)

lemma update_v2_eq:
  "ed_flags p = [] \<Longrightarrow> plausibility_score (epistemic_data p) = None \<Longrightarrow>
     update_proposition_confidence_v2 p kb scores = update_proposition_confidence_era p kb scores"
  by (simp add: update_proposition_confidence_v2_def update_proposition_confidence_era_def raw_confidence_def
                support_loop_eq contradiction_loop_eq bias_penalty_def plausibility_scale_def Let_def)

lemma reliability_step_v2_eq: "reliability_step_v2 = reliability_step"
  unfolding reliability_step_v2_def reliability_step_def calculate_source_reliability_v2_eq ..

lemma v2_domain_set_reliability:
  "list_all v2_domain kb \<Longrightarrow> list_all v2_domain (set_reliability sid r kb)"
  by (auto simp: set_reliability_def list_all_iff v2_domain_def)

lemma fst_reliability_step:
  "fst (reliability_step sid st) = set_reliability sid (calculate_source_reliability_era sid (fst st)) (fst st)"
  by (cases st) (simp add: reliability_step_def Let_def)

lemma v2_domain_reliability_loop:
  "list_all v2_domain kb \<Longrightarrow> list_all v2_domain (fst (reliability_loop sids kb))"
proof -
  have "list_all v2_domain (fst st) \<Longrightarrow> list_all v2_domain (fst (fold reliability_step sids st))" for st
  proof (induction sids arbitrary: st)
    case (Cons s ss)
    then show ?case by (simp add: fst_reliability_step v2_domain_set_reliability)
  qed simp
  then show "list_all v2_domain kb \<Longrightarrow> ?thesis" by (simp add: reliability_loop_def)
qed

lemma v2_domain_update:
  "v2_domain p \<Longrightarrow> v2_domain (update_proposition_confidence_era p kb scores)"
  by (simp add: v2_domain_def update_proposition_confidence_era_def)

lemma fold_confidence_step_v2_eq:
  "list_all v2_domain kb \<Longrightarrow>
     fold (confidence_step_v2 scores) ns kb = fold (confidence_step scores) ns kb \<and>
     list_all v2_domain (fold (confidence_step scores) ns kb)"
proof (induction ns arbitrary: kb)
  case (Cons n ns)
  have dn: "n < length kb \<Longrightarrow> v2_domain (kb ! n)" using Cons.prems by (simp add: list_all_length)
  have d: "list_all v2_domain (confidence_step scores n kb)"
  proof -
    have "set (confidence_step scores n kb) \<subseteq> insert (update_proposition_confidence_era (kb ! n) kb scores) (set kb)"
      by (simp add: confidence_step_def set_update_subset_insert)
    moreover have "n < length kb \<Longrightarrow> v2_domain (update_proposition_confidence_era (kb ! n) kb scores)"
      by (rule v2_domain_update [OF dn])
    ultimately show ?thesis using Cons.prems
      by (cases "n < length kb") (auto simp: list_all_iff confidence_step_def list_update_beyond)
  qed
  have e: "confidence_step_v2 scores n kb = confidence_step scores n kb"
  proof (cases "n < length kb")
    case True
    have "update_proposition_confidence_v2 (kb ! n) kb scores = update_proposition_confidence_era (kb ! n) kb scores"
      using dn [OF True] by (intro update_v2_eq) (simp_all add: v2_domain_def)
    then show ?thesis by (simp add: confidence_step_v2_def confidence_step_def)
  qed (simp add: confidence_step_v2_def confidence_step_def list_update_beyond)
  have "fold (confidence_step_v2 scores) (n # ns) kb = fold (confidence_step_v2 scores) ns (confidence_step scores n kb)"
    using e by simp
  then show ?case using Cons.IH [OF d] by simp
qed simp

text \<open>C32. The Era updater is a conservative extension of the legacy v2 updater:
  on a knowledge base without bias flags, plausibility scores or supports (where
  cycle detection, bias penalties and plausibility scaling have nothing to act on),
  \<^verbatim>\<open>run_updates_era\<close> computes exactly what \<^verbatim>\<open>run_updates_v2\<close> computes,
  although v2 finds contradictions with an early-exit loop and sums the neighbour
  effects in loops with counters.\<close>

theorem run_updates_era_extends_v2:
  "list_all (\<lambda>p. ed_flags p = [] \<and> plausibility_score (epistemic_data p) = None \<and> ed_supports p = []) kb \<Longrightarrow>
     run_updates_era kb = Some (run_updates_v2 kb)"
proof -
  assume a: "list_all (\<lambda>p. ed_flags p = [] \<and> plausibility_score (epistemic_data p) = None \<and> ed_supports p = []) kb"
  then have d: "list_all v2_domain kb" by (simp add: list_all_iff v2_domain_def)
  show ?thesis
  proof (cases "kb = []")
    case False
    obtain kb1 scores where r: "reliability_loop (remdups (map (source_id \<circ> epistemic_data) kb)) kb = (kb1, scores)"
      by fastforce
    then have d1: "list_all v2_domain kb1" using v2_domain_reliability_loop [OF d] by (metis fst_conv)
    then have "list_all (\<lambda>p. ed_supports p = []) kb1" by (simp add: list_all_iff v2_domain_def)
    then have "detect_circular_support_era kb1 = Some (kb1, 0)" by (rule detect_no_supports)
    moreover have "fold reliability_step_v2 (remdups (map (source_id \<circ> epistemic_data) kb)) (kb, Map.empty) = (kb1, scores)"
      using r by (simp add: reliability_step_v2_eq reliability_loop_def)
    ultimately show ?thesis
      using False fold_confidence_step_v2_eq [OF d1, of scores "[0..<length kb1]"] r
      by (simp add: run_updates_era_def run_updates_v2_def confidence_pass_def)
  qed (simp add: run_updates_era_def run_updates_v2_def)
qed

theorem run_updates_era_extends_v2_witness:
  "list_all (\<lambda>p. ed_flags p = [] \<and> plausibility_score (epistemic_data p) = None \<and> ed_supports p = [])
     [conf_ex ''A'' [] [''B''], conf_ex ''B'' [] [''A'']] \<and>
   run_updates_era [conf_ex ''A'' [] [''B''], conf_ex ''B'' [] [''A'']] =
     Some (run_updates_v2 [conf_ex ''A'' [] [''B''], conf_ex ''B'' [] [''A'']])"
proof -
  have h: "list_all (\<lambda>p. ed_flags p = [] \<and> plausibility_score (epistemic_data p) = None \<and> ed_supports p = [])
     [conf_ex ''A'' [] [''B''], conf_ex ''B'' [] [''A'']]"
    by (simp add: make_proposition_def make_epistemic_data_def)
  show ?thesis using run_updates_era_extends_v2 [OF h] h by blast
qed

end
