(* ===== verification/Utils.thy ===== *)
theory Utils
  imports Linker
begin

text \<open>
  \<^verbatim>\<open>get_linked_propositions\<close> of \<^verbatim>\<open>src/aee_utils.py\<close> (lines 19--36): the
  propositions a proposition is linked to, by support, contradiction or both,
  each id looked up once. (\<^verbatim>\<open>get_proposition_by_id\<close>, lines 15--17, is
  \<open>Core_Classes.kb_get\<close>.) Its only caller in the sources is the explainer.
\<close>

text \<open>Lines 30--35: ids already processed are skipped; ids not in the knowledge base
  are marked processed and dropped.\<close>

fun linked_loop :: "kb \<Rightarrow> prop_id list \<Rightarrow> prop_id set \<Rightarrow> Proposition list \<Rightarrow> Proposition list" where
  "linked_loop kb [] processed acc = acc"
| "linked_loop kb (i # ids) processed acc =
     (if i \<notin> processed
      then linked_loop kb ids (insert i processed) (case kb_get kb i of None \<Rightarrow> acc | Some q \<Rightarrow> acc @ [q])
      else linked_loop kb ids processed acc)"

text \<open>Lines 19--36; \<open>link_type\<close> is the string argument with its default
  \<^verbatim>\<open>'all'\<close>.\<close>

definition get_linked_propositions :: "prop_id \<Rightarrow> kb \<Rightarrow> string \<Rightarrow> Proposition list" where
  "get_linked_propositions pid kb link_type =
     (case kb_get kb pid of
        None \<Rightarrow> []
      | Some mp \<Rightarrow>
          (let link_ids = (if link_type = ''supports'' \<or> link_type = ''all'' then ed_supports mp else []) @
                          (if link_type = ''contradicts'' \<or> link_type = ''all'' then ed_contradicts mp else [])
           in linked_loop kb link_ids {} []))"

text \<open>Example propositions with a contradicts list.\<close>

abbreviation lk_ex :: "prop_id \<Rightarrow> prop_id list \<Rightarrow> Proposition" where
  "lk_ex i cs \<equiv> make_proposition i ((make_epistemic_data ''src'' 0.5 None)\<lparr>contradicts := cs\<rparr>) i
     (Some ''sky'') (Some ''be'') (Some ''blue'') False"

subsection \<open>Lookup of linked propositions\<close>

text \<open>The lookup keeps the order of the ids: in a knowledge base where every id of a
  duplicate-free list is a key, the propositions returned carry exactly those ids.\<close>

lemma linked_loop_ids:
  "distinct ids \<Longrightarrow> set ids \<inter> P = {} \<Longrightarrow> set ids \<subseteq> set (kb_ids kb) \<Longrightarrow>
     map prop_id (linked_loop kb ids P acc) = map prop_id acc @ ids"
proof (induction ids arbitrary: P acc)
  case (Cons i ids)
  then obtain q where q: "kb_get kb i = Some q" using kb_get_None_iff by (cases "kb_get kb i") auto
  then have "prop_id q = i" by (rule kb_get_Some_id)
  with q Cons.prems show ?case using Cons.IH [of "insert i P" "acc @ [q]"] by auto
qed simp

lemma get_linked_ids:
  assumes "links_wf kb" "kb_get kb pid = Some p"
  shows "map prop_id (get_linked_propositions pid kb ''supports'') = ed_supports p"
    and "map prop_id (get_linked_propositions pid kb ''contradicts'') = ed_contradicts p"
    and "map prop_id (get_linked_propositions pid kb ''all'') = ed_supports p @ ed_contradicts p"
proof -
  have "links_local_wf (set (kb_ids kb)) p"
    using assms kb_get_Some_in by (auto simp: links_wf_def)
  then show "map prop_id (get_linked_propositions pid kb ''supports'') = ed_supports p"
    and "map prop_id (get_linked_propositions pid kb ''contradicts'') = ed_contradicts p"
    and "map prop_id (get_linked_propositions pid kb ''all'') = ed_supports p @ ed_contradicts p"
    using assms(2) by (simp_all add: get_linked_propositions_def links_local_wf_def linked_loop_ids)
qed

text \<open>C21. In a well-formed knowledge base the lookup returns exactly the linked
  propositions, in the order of the lists: for \<^verbatim>\<open>'supports'\<close> the proposition's
  supports list, for \<^verbatim>\<open>'contradicts'\<close> its contradicts list, and for the default
  \<^verbatim>\<open>'all'\<close> the two concatenated, each id once; an unknown id gives the empty
  list (line 23).\<close>

theorem linked_lookup_exact:
  "links_wf kb \<Longrightarrow> kb_get kb pid = Some p \<Longrightarrow>
     map prop_id (get_linked_propositions pid kb ''supports'') = ed_supports p \<and>
     map prop_id (get_linked_propositions pid kb ''contradicts'') = ed_contradicts p \<and>
     map prop_id (get_linked_propositions pid kb ''all'') = ed_supports p @ ed_contradicts p \<and>
     (\<forall>i lt. kb_get kb i = None \<longrightarrow> get_linked_propositions i kb lt = [])"
  using get_linked_ids by (simp add: get_linked_propositions_def)

theorem linked_lookup_exact_witness:
  "links_wf [lk_ex ''p1'' [''p2''], lk_ex ''p2'' [''p1'']] \<and>
   kb_get [lk_ex ''p1'' [''p2''], lk_ex ''p2'' [''p1'']] ''p1'' = Some (lk_ex ''p1'' [''p2'']) \<and>
   map prop_id (get_linked_propositions ''p1'' [lk_ex ''p1'' [''p2''], lk_ex ''p2'' [''p1'']] ''supports'') =
     ed_supports (lk_ex ''p1'' [''p2'']) \<and>
   map prop_id (get_linked_propositions ''p1'' [lk_ex ''p1'' [''p2''], lk_ex ''p2'' [''p1'']] ''contradicts'') =
     ed_contradicts (lk_ex ''p1'' [''p2'']) \<and>
   map prop_id (get_linked_propositions ''p1'' [lk_ex ''p1'' [''p2''], lk_ex ''p2'' [''p1'']] ''all'') =
     ed_supports (lk_ex ''p1'' [''p2'']) @ ed_contradicts (lk_ex ''p1'' [''p2'']) \<and>
   kb_get [lk_ex ''p1'' [''p2''], lk_ex ''p2'' [''p1'']] ''p9'' = None \<and>
   get_linked_propositions ''p9'' [lk_ex ''p1'' [''p2''], lk_ex ''p2'' [''p1'']] ''all'' = []"
proof -
  have w: "links_wf [lk_ex ''p1'' [''p2''], lk_ex ''p2'' [''p1'']]"
    by (simp add: links_wf_def links_local_wf_def links_sym_def kb_distinct_def make_proposition_def
                  make_epistemic_data_def)
  have g: "kb_get [lk_ex ''p1'' [''p2''], lk_ex ''p2'' [''p1'']] ''p1'' = Some (lk_ex ''p1'' [''p2''])"
    by (simp add: make_proposition_def)
  have n: "kb_get [lk_ex ''p1'' [''p2''], lk_ex ''p2'' [''p1'']] ''p9'' = None"
    by (simp add: make_proposition_def)
  show ?thesis using linked_lookup_exact [OF w g] w g n by blast
qed

end
