(* ===== verification/Py_Format.thy ===== *)
theory Py_Format
  imports AEE_Prelude
begin

text \<open>
  Python's string rendering as the explainer and the report use it: \<^verbatim>\<open>str(n)\<close> of a
  natural number (\<open>string_of_nat\<close>), the fixed-point format specification
  \<^verbatim>\<open>f"{x:.2f}"\<close> (\<open>py_fmt_fixed\<close>), \<^verbatim>\<open>str()\<close> of an optional string
  (\<open>py_str_opt\<close>, \<^verbatim>\<open>None\<close> prints as \<^verbatim>\<open>None\<close>) and \<^verbatim>\<open>sep.join(xs)\<close>
  (\<open>py_join\<close>). The fixed-point format rounds the exact value half to even, as
  CPython's correctly rounded \<^verbatim>\<open>format\<close> does; the model rounds the real number,
  so a decimal literal that is not a binary float may round the other way at an
  exact tie. \<open>read_fixed\<close> reads a rendered number back (Python's
  \<^verbatim>\<open>float()\<close> on it); it states what the rendering means and is not code.
\<close>

definition NL :: string where
  "NL = [CHR 0x0A]"

definition QUOTE :: string where
  "QUOTE = [CHR 0x27]"

fun string_of_nat :: "nat \<Rightarrow> string" where
  "string_of_nat n =
     (if n < 10 then [char_of (48 + n)] else string_of_nat (n div 10) @ [char_of (48 + n mod 10)])"

definition round_half_even :: "real \<Rightarrow> int" where
  "round_half_even y =
     (let m = \<lfloor>y\<rfloor>; r = y - of_int m in
      if r < 1/2 then m else if 1/2 < r then m + 1 else if even m then m else m + 1)"

definition py_fmt_fixed :: "nat \<Rightarrow> real \<Rightarrow> string" where
  "py_fmt_fixed d x =
     (let s = string_of_nat (nat (round_half_even (\<bar>x\<bar> * 10 ^ d)));
          s' = replicate (Suc d - length s) (CHR ''0'') @ s;
          k = length s' - d
      in (if x < 0 then ''-'' else []) @ take k s' @ (if d = 0 then [] else ''.'' @ drop k s'))"

fun py_str_opt :: "string option \<Rightarrow> string" where
  "py_str_opt None = ''None''"
| "py_str_opt (Some s) = s"

fun py_join :: "string \<Rightarrow> string list \<Rightarrow> string" where
  "py_join sep [] = []"
| "py_join sep [x] = x"
| "py_join sep (x # y # ys) = x @ sep @ py_join sep (y # ys)"

text \<open>\<^verbatim>\<open>', '.join(xs) if xs else 'None'\<close>, the rendering of every list field.\<close>

definition join_or_none :: "string list \<Rightarrow> string" where
  "join_or_none xs = (if xs = [] then ''None'' else py_join '', '' xs)"

definition digits_val :: "string \<Rightarrow> nat" where
  "digits_val s = foldl (\<lambda>acc c. 10 * acc + (of_char c - 48)) 0 s"

text \<open>Python's \<^verbatim>\<open>float()\<close> on a rendered number: an optional sign, the integer
  digits up to the point, and the fraction digits after it, each read in base ten.\<close>

definition read_fixed :: "string \<Rightarrow> real" where
  "read_fixed s =
     (let neg = (take 1 s = ''-''); t = (if neg then drop 1 s else s);
          ip = takeWhile (\<lambda>c. c \<noteq> CHR ''.'') t;
          fp = drop 1 (dropWhile (\<lambda>c. c \<noteq> CHR ''.'') t);
          v = real (digits_val ip) + real (digits_val fp) / 10 ^ length fp
      in if neg then - v else v)"

declare string_of_nat.simps [simp del]

subsection \<open>Digits\<close>

lemma string_of_nat_digits:
  "c \<in> set (string_of_nat n) \<Longrightarrow> \<exists>k::nat. k < 10 \<and> c = char_of (48 + k)"
proof (induction n rule: string_of_nat.induct)
  case (1 n)
  show ?case
  proof (cases "n < 10")
    case True
    with 1(2) show ?thesis by (subst (asm) string_of_nat.simps) auto
  next
    case False
    with 1(2) have "c \<in> set (string_of_nat (n div 10)) \<or> c = char_of (48 + n mod 10)"
      by (subst (asm) string_of_nat.simps) auto
    then show ?thesis using 1(1) False by (metis mod_less_divisor zero_less_numeral)
  qed
qed

lemma string_of_nat_no_sign:
  "CHR ''.'' \<notin> set (string_of_nat n)" "CHR ''-'' \<notin> set (string_of_nat n)"
proof -
  have "of_char c \<ge> (48::nat)" if "c \<in> set (string_of_nat n)" for c
    using string_of_nat_digits [OF that] by (auto simp: of_char_of)
  then show "CHR ''.'' \<notin> set (string_of_nat n)" "CHR ''-'' \<notin> set (string_of_nat n)"
    by fastforce+
qed

lemma string_of_nat_nonempty: "string_of_nat n \<noteq> []"
  by (subst string_of_nat.simps) simp

lemma digits_val_snoc:
  "digits_val (s @ [c]) = 10 * digits_val s + (of_char c - 48)"
  by (simp add: digits_val_def)

lemma digits_val_append:
  "digits_val (xs @ ys) = digits_val xs * 10 ^ length ys + digits_val ys"
proof (induction ys rule: rev_induct)
  case (snoc c ys)
  then show ?case
    by (simp only: append_assoc [symmetric] digits_val_snoc) (simp add: algebra_simps)
qed (simp add: digits_val_def)

lemma digits_val_zeros [simp]:
  "digits_val (replicate k (CHR ''0'') @ s) = digits_val s"
proof -
  have "foldl (\<lambda>acc c. 10 * acc + (of_char c - 48)) 0 (replicate k (CHR ''0'')) = (0::nat)"
    by (induction k) (simp_all add: replicate_append_same [symmetric])
  then show ?thesis by (simp add: digits_val_def)
qed

lemma digits_val_string_of_nat [simp]: "digits_val (string_of_nat n) = n"
proof (induction n rule: string_of_nat.induct)
  case (1 n)
  show ?case
  proof (cases "n < 10")
    case True
    then show ?thesis by (subst string_of_nat.simps) (simp add: digits_val_def)
  next
    case False
    then have "digits_val (string_of_nat n) = 10 * (n div 10) + n mod 10"
      using 1 by (subst string_of_nat.simps) (simp add: digits_val_snoc)
    then show ?thesis by simp
  qed
qed

subsection \<open>Rounding\<close>

lemma round_half_even_bound: "\<bar>real_of_int (round_half_even y) - y\<bar> \<le> 1/2"
  unfolding round_half_even_def Let_def
  using of_int_floor_le [of y] real_of_int_floor_add_one_gt [of y] by auto

lemma round_half_even_nonneg: "0 \<le> y \<Longrightarrow> 0 \<le> round_half_even y"
  unfolding round_half_even_def Let_def by auto

lemma round_half_even_of_int [simp]: "round_half_even (of_int m) = m"
  by (simp add: round_half_even_def)

subsection \<open>Joining\<close>

lemma py_join_append:
  "xs \<noteq> [] \<Longrightarrow> ys \<noteq> [] \<Longrightarrow> py_join sep (xs @ ys) = py_join sep xs @ sep @ py_join sep ys"
proof (induction sep xs rule: py_join.induct)
  case (2 sep x)
  then show ?case by (cases ys) simp_all
qed simp_all

lemma py_join_Cons_prefix: "\<exists>r. py_join sep (x # xs) = x @ r"
  by (cases xs) simp_all

lemma py_join_take1: "x \<noteq> [] \<Longrightarrow> take 1 (py_join sep (x # xs)) = take 1 x"
  using py_join_Cons_prefix [of sep x xs] by (auto simp: Suc_le_eq)

subsection \<open>Reading a rendered number back\<close>

lemma fmt_digits_facts:
  fixes n d :: nat
  defines "s' \<equiv> replicate (Suc d - length (string_of_nat n)) (CHR ''0'') @ string_of_nat n"
  shows "CHR ''.'' \<notin> set s'" "take 1 s' \<noteq> ''-''" "digits_val s' = n" "Suc d \<le> length s'"
proof -
  show "CHR ''.'' \<notin> set s'" using string_of_nat_no_sign(1) by (auto simp: s'_def)
  have "CHR ''-'' \<notin> set s'" using string_of_nat_no_sign(2) by (auto simp: s'_def)
  moreover have "s' \<noteq> []" using string_of_nat_nonempty by (simp add: s'_def)
  ultimately show "take 1 s' \<noteq> ''-''" by (cases s') auto
  show "digits_val s' = n" by (simp add: s'_def)
  show "Suc d \<le> length s'" by (simp add: s'_def)
qed

lemma read_fixed_neg: "take 1 t \<noteq> ''-'' \<Longrightarrow> read_fixed (''-'' @ t) = - read_fixed t"
  by (simp add: read_fixed_def Let_def)

lemma read_fmt_fixed:
  "read_fixed (py_fmt_fixed d x) =
     (if x < 0 then - 1 else 1) * real_of_int (round_half_even (\<bar>x\<bar> * 10 ^ d)) / 10 ^ d"
proof -
  define r where "r = round_half_even (\<bar>x\<bar> * 10 ^ d)"
  define s' where "s' = replicate (Suc d - length (string_of_nat (nat r))) (CHR ''0'') @ string_of_nat (nat r)"
  define k where "k = length s' - d"
  define s'' where "s'' = take k s' @ (if d = 0 then [] else ''.'' @ drop k s')"
  note f = fmt_digits_facts [of d "nat r", folded s'_def]
  have k1: "1 \<le> k" and ld: "length (drop k s') = d" using f(4) by (simp_all add: k_def)
  have nd: "\<forall>c\<in>set (take k s'). c \<noteq> CHR ''.''" using f(1) in_set_takeD by fastforce
  have tw: "takeWhile (\<lambda>c. c \<noteq> CHR ''.'') s'' = take k s'"
    using nd by (cases "d = 0") (simp_all add: s''_def takeWhile_append2 k_def)
  have dw: "drop 1 (dropWhile (\<lambda>c. c \<noteq> CHR ''.'') s'') = (if d = 0 then [] else drop k s')"
  proof (cases "d = 0")
    case True
    have "dropWhile (\<lambda>c. c \<noteq> CHR ''.'') s' = []"
      using f(1) by (subst dropWhile_eq_Nil_conv) blast
    then show ?thesis using True by (simp add: s''_def k_def del: dropWhile_eq_Nil_conv)
  qed (use nd in \<open>simp add: s''_def dropWhile_append2\<close>)
  have val: "real (digits_val (take k s')) + real (digits_val (if d = 0 then [] else drop k s')) /
               10 ^ length (if d = 0 then [] else drop k s') = real (digits_val s') / 10 ^ d"
  proof (cases "d = 0")
    case True
    then show ?thesis by (simp add: k_def digits_val_def)
  next
    case False
    have "digits_val s' = digits_val (take k s') * 10 ^ d + digits_val (drop k s')"
      using digits_val_append [of "take k s'" "drop k s'"] ld by simp
    then show ?thesis using False ld by (simp add: field_simps)
  qed
  have hd: "take 1 s'' = take 1 s'"
    using k1 f(4) by (auto simp: s''_def take_Cons' k_def)
  have r0: "0 \<le> r" unfolding r_def by (rule round_half_even_nonneg) simp
  have fmt: "py_fmt_fixed d x = (if x < 0 then ''-'' else []) @ s''"
    by (simp add: py_fmt_fixed_def Let_def s''_def s'_def k_def r_def)
  have n1: "(take 1 s'' = ''-'') = False" using hd f(2) by simp
  have "read_fixed s'' = real (digits_val (take k s')) +
          real (digits_val (if d = 0 then [] else drop k s')) / 10 ^ length (if d = 0 then [] else drop k s')"
    by (simp only: read_fixed_def Let_def n1 if_False tw dw)
  then have rs: "read_fixed s'' = real_of_int r / 10 ^ d"
    using val f(3) r0 by simp
  have "read_fixed (py_fmt_fixed d x) = (if x < 0 then - 1 else 1) * real_of_int r / 10 ^ d"
    using rs read_fixed_neg [of s''] n1 by (simp add: fmt)
  then show ?thesis unfolding r_def .
qed



end
