(* ===== verification/Explainer.thy ===== *)
theory Explainer
  imports Utils Py_Format
begin

text \<open>
  The explainer \<^verbatim>\<open>src/aee_explainer_era.py\<close>: \<^verbatim>\<open>generate_explanation_era\<close>
  renders one proposition of the knowledge base as sixteen lines of text, with its
  supporters and contradictors looked up by \<^verbatim>\<open>get_linked_propositions\<close>; an
  unknown id gives an error string. The timestamp field is not part of the model of
  \<^verbatim>\<open>EpistemicData\<close>; its \<^verbatim>\<open>strftime\<close> rendering is the argument \<open>ts\<close>.
  \<^verbatim>\<open>Proposition.__str__\<close> of \<^verbatim>\<open>src/aee_core_classes_era.py\<close> is here too.
\<close>

definition dashes :: string where
  "dashes = replicate 20 (CHR ''-'')"

text \<open>Lines 27--55 of the explainer: the list \<^verbatim>\<open>explanation_lines\<close>. The two
  conditional expressions of lines 42 and 44 cover the whole f-string, so a missing
  score leaves the bare text \<^verbatim>\<open>N/A\<close> without its label.\<close>

definition explanation_lines :: "string \<Rightarrow> prop_id \<Rightarrow> Proposition \<Rightarrow> kb \<Rightarrow> string list" where
  "explanation_lines ts pid p kb =
     (let ed = epistemic_data p;
          sup = get_linked_propositions pid kb ''supports'';
          con = get_linked_propositions pid kb ''contradicts''
      in [''--- Epistemic Explanation (Era) for Proposition ID: '' @ take 8 (prop_id p) @ '' ---'',
          ''Statement        : '' @ QUOTE @ text_span p @ QUOTE,
          ''Extracted Struct : '' @ (if is_negated p then ''[NEGATED] '' else []) @
            py_str_opt (subject_lemma p) @ '' - '' @ py_str_opt (relation_lemma p) @ '' - '' @
            py_str_opt (value_lemma p),
          dashes,
          ''Source           : '' @ source_id ed @ '' (Type: '' @
            (if py_truthy (source_type ed) then the (source_type ed) else ''N/A'') @ '')'',
          ''Timestamp        : '' @ ts,
          (case reliability_score ed of None \<Rightarrow> ''N/A''
           | Some r \<Rightarrow> ''Source Reliability: '' @ py_fmt_fixed 2 r),
          (case plausibility_score ed of None \<Rightarrow> ''N/A''
           | Some r \<Rightarrow> ''Plausibility Score: '' @ py_fmt_fixed 2 r),
          ''Validation Notes : ['' @ join_or_none (validation_notes ed) @ '']'',
          ''Confidence Score : '' @ py_fmt_fixed 3 (computed_confidence ed) @ '' (Initial: '' @
            py_fmt_fixed 2 (initial_confidence ed) @ '')'',
          dashes,
          ''Supporting Props ('' @ string_of_nat (length sup) @ ''): ['' @
            join_or_none (map (\<lambda>q. take 8 (prop_id q)) sup) @ '']'',
          ''Contradicting Props ('' @ string_of_nat (length con) @ ''): ['' @
            join_or_none (map (\<lambda>q. take 8 (prop_id q)) con) @ '']'',
          dashes,
          ''Potential Bias Flags: ['' @ join_or_none (bias_flags ed) @ '']'',
          ''--- End of Explanation ---''])"

text \<open>Lines 16--57: the lookup with its error return, and the lines joined by
  newlines.\<close>

definition generate_explanation_era :: "string \<Rightarrow> prop_id \<Rightarrow> kb \<Rightarrow> string" where
  "generate_explanation_era ts pid kb =
     (case kb_get kb pid of
        None \<Rightarrow> ''Error: Proposition with ID '' @ QUOTE @ pid @ QUOTE @ '' not found in the Knowledge Base.''
      | Some p \<Rightarrow> py_join NL (explanation_lines ts pid p kb))"

text \<open>\<^verbatim>\<open>Proposition.__str__\<close> (lines 52--57 of the core classes).\<close>

definition prop_str :: "Proposition \<Rightarrow> string" where
  "prop_str p =
     ''Prop('' @ take 8 (prop_id p) @ ''): '' @ (if is_negated p then ''[NEGATED] '' else []) @
     py_str_opt (subject_lemma p) @ '' - '' @ py_str_opt (relation_lemma p) @ '' - '' @
     py_str_opt (value_lemma p) @ '' (Conf: '' @ py_fmt_fixed 2 (computed_confidence (epistemic_data p)) @
     '', Src: '' @ source_id (epistemic_data p) @ '')''"

subsection \<open>Properties of the explainer\<close>

lemma explanation_first_char:
  "kb_get kb pid = Some p \<Longrightarrow> take 1 (generate_explanation_era ts pid kb) = ''-''"
  by (simp add: generate_explanation_era_def explanation_lines_def Let_def py_join_take1)

text \<open>C27. An id that is not a key of the knowledge base, and only such an id, gives
  the error text of line 25.\<close>

theorem explain_unknown_id_error:
  "generate_explanation_era ts pid kb =
     ''Error: Proposition with ID '' @ QUOTE @ pid @ QUOTE @ '' not found in the Knowledge Base.'' \<longleftrightarrow>
   pid \<notin> set (kb_ids kb)"
proof (cases "kb_get kb pid")
  case None
  then show ?thesis by (simp add: generate_explanation_era_def kb_get_None_iff [symmetric])
next
  case (Some p)
  then show ?thesis
    using explanation_first_char [OF Some, of ts] kb_get_None_iff [of kb pid] by auto
qed

text \<open>C17. When a proposition has neither a reliability score nor a plausibility
  score, the explanation contains two consecutive lines that both read
  \<^verbatim>\<open>N/A\<close>, without the labels \<^verbatim>\<open>Source Reliability\<close> and
  \<^verbatim>\<open>Plausibility Score\<close>: the reader cannot tell which value is missing.\<close>

theorem explain_missing_scores_unlabelled:
  "kb_get kb pid = Some p \<Longrightarrow> reliability_score (epistemic_data p) = None \<Longrightarrow>
     plausibility_score (epistemic_data p) = None \<Longrightarrow>
     \<exists>pre post. generate_explanation_era ts pid kb = pre @ NL @ ''N/A'' @ NL @ ''N/A'' @ NL @ post"
proof -
  assume g: "kb_get kb pid = Some p" and r: "reliability_score (epistemic_data p) = None"
    and pl: "plausibility_score (epistemic_data p) = None"
  let ?L = "explanation_lines ts pid p kb"
  have split: "take 6 ?L @ ''N/A'' # ''N/A'' # drop 8 ?L = ?L"
    using r pl by (simp add: explanation_lines_def Let_def)
  have ne: "take 6 ?L \<noteq> []" "drop 8 ?L \<noteq> []"
    by (simp_all add: explanation_lines_def Let_def)
  have two: "py_join NL (''N/A'' # ''N/A'' # B) = ''N/A'' @ NL @ ''N/A'' @ NL @ py_join NL B"
    if "B \<noteq> []" for B using that by (cases B) simp_all
  have "py_join NL (take 6 ?L @ ''N/A'' # ''N/A'' # drop 8 ?L) =
        py_join NL (take 6 ?L) @ NL @ py_join NL (''N/A'' # ''N/A'' # drop 8 ?L)"
    by (rule py_join_append [OF ne(1)]) simp
  then have "py_join NL ?L = py_join NL (take 6 ?L) @ NL @ ''N/A'' @ NL @ ''N/A'' @ NL @ py_join NL (drop 8 ?L)"
    unfolding split two [OF ne(2)] .
  then show ?thesis using g by (auto simp: generate_explanation_era_def)
qed

theorem explain_missing_scores_unlabelled_witness:
  "kb_get [lk_ex ''p1'' []] ''p1'' = Some (lk_ex ''p1'' []) \<and>
   reliability_score (epistemic_data (lk_ex ''p1'' [])) = None \<and>
   plausibility_score (epistemic_data (lk_ex ''p1'' [])) = None \<and>
   (\<exists>pre post. generate_explanation_era ''2024-01-01 00:00:00'' ''p1'' [lk_ex ''p1'' []] =
      pre @ NL @ ''N/A'' @ NL @ ''N/A'' @ NL @ post)"
proof -
  have g: "kb_get [lk_ex ''p1'' []] ''p1'' = Some (lk_ex ''p1'' [])"
    by (simp add: make_proposition_def)
  have r: "reliability_score (epistemic_data (lk_ex ''p1'' [])) = None"
    and pl: "plausibility_score (epistemic_data (lk_ex ''p1'' [])) = None"
    by (simp_all add: make_proposition_def make_epistemic_data_def)
  show ?thesis using explain_missing_scores_unlabelled [OF g r pl] g r pl by blast
qed

text \<open>C14. In a knowledge base with a well-formed link graph the explanation reports
  the proposition's own \<^verbatim>\<open>supports\<close> and \<^verbatim>\<open>contradicts\<close> lists, in
  order, with their lengths: the lookup through \<^verbatim>\<open>get_linked_propositions\<close>
  drops no id and adds none.\<close>

theorem explain_reports_links:
  "links_wf kb \<Longrightarrow> kb_get kb pid = Some p \<Longrightarrow>
     explanation_lines ts pid p kb ! 11 =
       ''Supporting Props ('' @ string_of_nat (length (ed_supports p)) @ ''): ['' @
       join_or_none (map (take 8) (ed_supports p)) @ '']'' \<and>
     explanation_lines ts pid p kb ! 12 =
       ''Contradicting Props ('' @ string_of_nat (length (ed_contradicts p)) @ ''): ['' @
       join_or_none (map (take 8) (ed_contradicts p)) @ '']''"
proof -
  assume w: "links_wf kb" and g: "kb_get kb pid = Some p"
  have m: "map (\<lambda>q. take 8 (prop_id q)) qs = map (take 8) (map prop_id qs)" for qs :: kb
    by simp
  have l: "length qs = length (map prop_id qs)" for qs :: kb
    by simp
  show ?thesis
    unfolding explanation_lines_def Let_def
    by (simp only: m l get_linked_ids [OF w g]) simp
qed

theorem explain_reports_links_witness:
  "links_wf [lk_ex ''p1'' [''p2''], lk_ex ''p2'' [''p1'']] \<and>
   kb_get [lk_ex ''p1'' [''p2''], lk_ex ''p2'' [''p1'']] ''p1'' = Some (lk_ex ''p1'' [''p2'']) \<and>
   explanation_lines ''2024-01-01 00:00:00'' ''p1'' (lk_ex ''p1'' [''p2''])
       [lk_ex ''p1'' [''p2''], lk_ex ''p2'' [''p1'']] ! 11 =
     ''Supporting Props ('' @ string_of_nat (length (ed_supports (lk_ex ''p1'' [''p2'']))) @ ''): ['' @
     join_or_none (map (take 8) (ed_supports (lk_ex ''p1'' [''p2'']))) @ '']'' \<and>
   explanation_lines ''2024-01-01 00:00:00'' ''p1'' (lk_ex ''p1'' [''p2''])
       [lk_ex ''p1'' [''p2''], lk_ex ''p2'' [''p1'']] ! 12 =
     ''Contradicting Props ('' @ string_of_nat (length (ed_contradicts (lk_ex ''p1'' [''p2'']))) @ ''): ['' @
     join_or_none (map (take 8) (ed_contradicts (lk_ex ''p1'' [''p2'']))) @ '']''"
proof -
  have w: "links_wf [lk_ex ''p1'' [''p2''], lk_ex ''p2'' [''p1'']]"
    by (simp add: links_wf_def links_local_wf_def links_sym_def kb_distinct_def make_proposition_def
                  make_epistemic_data_def)
  have g: "kb_get [lk_ex ''p1'' [''p2''], lk_ex ''p2'' [''p1'']] ''p1'' = Some (lk_ex ''p1'' [''p2''])"
    by (simp add: make_proposition_def)
  show ?thesis using explain_reports_links [OF w g, of "''2024-01-01 00:00:00''"] w g by blast
qed

end
