(* ===== verification/Report.thy ===== *)
theory Report
  imports Reliability Py_Format "HOL-Library.Multiset" "HOL-Library.List_Lexorder" "HOL-Library.Char_ord"
begin

text \<open>
  The knowledge-base report \<^verbatim>\<open>report_kb_era\<close> of \<^verbatim>\<open>src/aee_era_main.py\<close>
  (lines 24--52). The propositions are sorted by computed confidence, highest first
  (\<^verbatim>\<open>sorted(..., reverse=True)\<close> is stable: equal confidences keep the dict
  order, as \<open>sort_key\<close> on the negated key does), grouped by source with
  \<^verbatim>\<open>setdefault(source, []).append(prop)\<close>, and the groups printed in the order of
  \<^verbatim>\<open>sorted(keys)\<close> (code-point order on strings: \<open>List_Lexorder\<close> over
  \<open>Char_ord\<close>). The printed output is the list of the strings passed to
  \<^verbatim>\<open>print\<close>, one per call.
\<close>

abbreviation src_of :: "Proposition \<Rightarrow> string" where
  "src_of p \<equiv> source_id (epistemic_data p)"

text \<open>Line 32: \<^verbatim>\<open>propositions_by_source.setdefault(source, []).append(prop)\<close>.\<close>

definition report_group_step :: "Proposition \<Rightarrow> (string \<times> Proposition list) list \<Rightarrow> (string \<times> Proposition list) list" where
  "report_group_step p d =
     (let s = src_of p; d1 = py_setdefault s [] d in AList.update s (the (map_of d1 s) @ [p]) d1)"

text \<open>Lines 29--33: the sort, the grouping loop, and the sorted keys with their
  groups.\<close>

definition report_groups :: "kb \<Rightarrow> (string \<times> Proposition list) list" where
  "report_groups kb =
     (let sorted_props = sort_key (\<lambda>p. - ed_conf p) kb;
          d = fold report_group_step sorted_props []
      in map (\<lambda>s. (s, the (map_of d s))) (sort (map fst d)))"

definition rule70 :: "char \<Rightarrow> string" where
  "rule70 c = replicate 70 c"

text \<open>Lines 37--51: the six lines printed for one proposition.\<close>

definition report_prop_lines :: "Proposition \<Rightarrow> string list" where
  "report_prop_lines p =
     (let ed = epistemic_data p in
      [''  Prop ID : '' @ prop_id p,
       ''    Struct: '' @ (if is_negated p then ''[NEGATED] '' else []) @ py_str_opt (subject_lemma p) @
         '' - '' @ py_str_opt (relation_lemma p) @ '' - '' @ py_str_opt (value_lemma p),
       ''    Conf. : '' @ py_fmt_fixed 3 (computed_confidence ed) @ '' (Initial: '' @
         py_fmt_fixed 2 (initial_confidence ed) @ '')'',
       ''    Links : Supports: ['' @ join_or_none (map (take 8) (supports ed)) @ ''] | Contradicts: ['' @
         join_or_none (map (take 8) (contradicts ed)) @ '']'',
       ''    Biases: ['' @ join_or_none (bias_flags ed) @ '']'',
       ''    Plaus.: '' @ (case plausibility_score ed of None \<Rightarrow> ''N/A'' | Some r \<Rightarrow> py_fmt_fixed 2 r) @
         '' | Notes: ['' @ join_or_none (validation_notes ed) @ '']''])"

text \<open>Lines 33--36: the header of one source group; the reliability shown is that of
  the group's first (most confident) proposition.\<close>

definition report_group_lines :: "string \<times> Proposition list \<Rightarrow> string list" where
  "report_group_lines g =
     (let (s, ps) = g;
          rel = (case reliability_score (epistemic_data (hd ps)) of None \<Rightarrow> ''N/A'' | Some r \<Rightarrow> py_fmt_fixed 2 r)
      in (NL @ ''--- Source: '' @ s @ '' (Calculated Reliability: '' @ rel @ '') ---'') #
         concat (map report_prop_lines ps))"

text \<open>Lines 24--52.\<close>

definition report_kb_era :: "kb \<Rightarrow> string list" where
  "report_kb_era kb =
     [NL @ rule70 (CHR ''=''), '' AEE Era Version - Knowledge Base Report (Final Status)'', rule70 (CHR ''='')] @
     (if kb = [] then [''Knowledge Base is empty.'', rule70 (CHR ''='')]
      else [''Total propositions in KB: '' @ string_of_nat (length kb), rule70 (CHR ''-'')] @
           concat (map report_group_lines (report_groups kb)) @
           [NL @ rule70 (CHR ''=''), '' End of KB Report '', rule70 (CHR ''='')])"

text \<open>The report's contract: one group per source of the knowledge base, in sorted
  order, holding that source's propositions by decreasing confidence, ties in the
  order of the knowledge base.\<close>

definition report_spec :: "kb \<Rightarrow> (string \<times> Proposition list) list" where
  "report_spec kb =
     map (\<lambda>s. (s, filter (\<lambda>p. src_of p = s) (sort_key (\<lambda>p. - ed_conf p) kb))) (sorted_list_of_set (source_ids kb))"

subsection \<open>The grouping\<close>

lemma map_of_report_group_step:
  "map_of (report_group_step p d) =
     (map_of d)(src_of p \<mapsto> (case map_of d (src_of p) of None \<Rightarrow> [] | Some ps \<Rightarrow> ps) @ [p])"
  by (auto simp: report_group_step_def Let_def update_conv' map_of_py_setdefault split: option.splits)

lemma keys_report_group_step:
  "fst ` set (report_group_step p d) = insert (src_of p) (fst ` set d)"
  "distinct (map fst d) \<Longrightarrow> distinct (map fst (report_group_step p d))"
  by (auto simp: report_group_step_def Let_def py_setdefault_def dom_update distinct_update)

lemma report_fold:
  "map_of (fold report_group_step xs []) s =
     (if s \<in> src_of ` set xs then Some (filter (\<lambda>p. src_of p = s) xs) else None) \<and>
   set (map fst (fold report_group_step xs [])) = src_of ` set xs \<and>
   distinct (map fst (fold report_group_step xs []))"
proof (induction xs arbitrary: s rule: rev_induct)
  case (snoc x xs)
  have "map_of (fold report_group_step xs []) (src_of x) =
        (if src_of x \<in> src_of ` set xs then Some (filter (\<lambda>p. src_of p = src_of x) xs) else None)"
    using snoc.IH by blast
  moreover have "filter (\<lambda>p. src_of p = src_of x) xs = []" if "src_of x \<notin> src_of ` set xs"
    using that by (auto simp: filter_empty_conv image_iff)
  ultimately show ?case
    using snoc.IH [of s] by (simp add: map_of_report_group_step keys_report_group_step)
qed simp

text \<open>What the grouping computes: for every source, in sorted order, its
  propositions in the sorted order.\<close>

lemma report_groups_eq: "report_groups kb = report_spec kb"
proof -
  let ?xs = "sort_key (\<lambda>p. - ed_conf p) kb"
  let ?d = "fold report_group_step ?xs []"
  have k: "set (map fst ?d) = source_ids kb" "distinct (map fst ?d)"
    using report_fold [of ?xs] by (simp_all add: source_ids_def)
  then have "sort (map fst ?d) = sorted_list_of_set (source_ids kb)"
    by (metis sorted_list_of_set_sort_remdups distinct_remdups_id)
  moreover have "the (map_of ?d s) = filter (\<lambda>p. src_of p = s) ?xs" if "s \<in> source_ids kb" for s
    using report_fold [of ?xs s] that by (simp add: source_ids_def)
  ultimately show ?thesis
    by (simp add: report_groups_def report_spec_def Let_def source_ids_def)
qed

lemma mset_concat_filter:
  "distinct ss \<Longrightarrow>
     mset (concat (map (\<lambda>s. filter (\<lambda>p. f p = s) xs) ss)) = filter_mset (\<lambda>p. f p \<in> set ss) (mset xs)"
  by (induction ss) (auto simp: multiset_eq_iff)

lemma report_spec_props:
  "mset (concat (map snd (report_spec kb))) = mset kb \<and>
   sorted (map fst (report_spec kb)) \<and> distinct (map fst (report_spec kb)) \<and>
   list_all (\<lambda>(s, ps). ps \<noteq> [] \<and> list_all (\<lambda>p. src_of p = s) ps \<and>
                       sorted_wrt (\<lambda>p q. ed_conf q \<le> ed_conf p) ps \<and>
                       (\<forall>c. filter (\<lambda>p. ed_conf p = c) ps = filter (\<lambda>p. src_of p = s \<and> ed_conf p = c) kb))
     (report_spec kb)"
proof (intro conjI)
  let ?xs = "sort_key (\<lambda>p. - ed_conf p) kb"
  let ?S = "sorted_list_of_set (source_ids kb)"
  have fin: "finite (source_ids kb)" by (simp add: source_ids_def)
  have "filter_mset (\<lambda>p. src_of p \<in> set ?S) (mset ?xs) = mset ?xs"
    using fin by (auto simp: multiset_eq_iff source_ids_def count_eq_zero_iff)
  then have "mset (concat (map (\<lambda>s. filter (\<lambda>p. src_of p = s) ?xs) ?S)) = mset ?xs"
    using mset_concat_filter [of ?S src_of ?xs] fin by simp
  then show "mset (concat (map snd (report_spec kb))) = mset kb"
    by (simp add: report_spec_def comp_def)
  show "sorted (map fst (report_spec kb))" "distinct (map fst (report_spec kb))"
    by (simp_all add: report_spec_def comp_def)
  have grp: "filter (\<lambda>p. src_of p = s) ?xs \<noteq> [] \<and>
     list_all (\<lambda>p. src_of p = s) (filter (\<lambda>p. src_of p = s) ?xs) \<and>
     sorted_wrt (\<lambda>p q. ed_conf q \<le> ed_conf p) (filter (\<lambda>p. src_of p = s) ?xs) \<and>
     (\<forall>c. filter (\<lambda>p. ed_conf p = c) (filter (\<lambda>p. src_of p = s) ?xs) =
          filter (\<lambda>p. src_of p = s \<and> ed_conf p = c) kb)" if "s \<in> source_ids kb" for s
  proof (intro conjI allI)
    show "filter (\<lambda>p. src_of p = s) ?xs \<noteq> []"
      using that by (auto simp: source_ids_def filter_empty_conv)
    show "list_all (\<lambda>p. src_of p = s) (filter (\<lambda>p. src_of p = s) ?xs)"
      by (simp add: list_all_iff)
    have "sorted (map (\<lambda>p. - ed_conf p) (filter (\<lambda>p. src_of p = s) ?xs))"
      by (rule sorted_filter) (rule sorted_sort_key)
    then show "sorted_wrt (\<lambda>p q. ed_conf q \<le> ed_conf p) (filter (\<lambda>p. src_of p = s) ?xs)"
      by (simp add: sorted_map)
    fix c
    have "filter (\<lambda>p. - ed_conf p = - c) (sort_key (\<lambda>p. - ed_conf p) (filter (\<lambda>p. src_of p = s) kb)) =
          filter (\<lambda>p. - ed_conf p = - c) (filter (\<lambda>p. src_of p = s) kb)"
      by (rule sort_key_stable)
    then show "filter (\<lambda>p. ed_conf p = c) (filter (\<lambda>p. src_of p = s) ?xs) =
               filter (\<lambda>p. src_of p = s \<and> ed_conf p = c) kb"
      by (simp add: filter_sort conj_commute)
  qed
  show "list_all (\<lambda>(s, ps). ps \<noteq> [] \<and> list_all (\<lambda>p. src_of p = s) ps \<and>
                       sorted_wrt (\<lambda>p q. ed_conf q \<le> ed_conf p) ps \<and>
                       (\<forall>c. filter (\<lambda>p. ed_conf p = c) ps = filter (\<lambda>p. src_of p = s \<and> ed_conf p = c) kb))
     (report_spec kb)"
    using grp fin by (simp add: report_spec_def list_all_iff)
qed

subsection \<open>Properties of the report\<close>

text \<open>C12. The report lists every proposition of the knowledge base exactly once
  (the printed groups are a permutation of the knowledge base), under its own source;
  sources appear once each in sorted order, no group is empty, each group runs by
  decreasing confidence, and propositions of equal confidence keep their order in
  the knowledge base (Python's sort is stable under \<^verbatim>\<open>reverse=True\<close>).\<close>

theorem report_lists_each_once:
  "mset (concat (map snd (report_groups kb))) = mset kb \<and>
   sorted (map fst (report_groups kb)) \<and> distinct (map fst (report_groups kb)) \<and>
   list_all (\<lambda>(s, ps). ps \<noteq> [] \<and> list_all (\<lambda>p. src_of p = s) ps \<and>
                       sorted_wrt (\<lambda>p q. ed_conf q \<le> ed_conf p) ps \<and>
                       (\<forall>c. filter (\<lambda>p. ed_conf p = c) ps = filter (\<lambda>p. src_of p = s \<and> ed_conf p = c) kb))
     (report_groups kb)"
  unfolding report_groups_eq by (rule report_spec_props)


text \<open>The id lines of the printed report: exactly one per proposition, the line
  \<^verbatim>\<open>"  Prop ID : " + prop.prop_id\<close> of line 46; no other printed line starts
  with that prefix.\<close>

lemma filter_report_prop_lines:
  "filter (\<lambda>l. take 12 l = ''  Prop ID : '') (report_prop_lines p) = [''  Prop ID : '' @ prop_id p]"
  by (simp add: report_prop_lines_def Let_def)

lemma filter_report_group_lines:
  "filter (\<lambda>l. take 12 l = ''  Prop ID : '') (report_group_lines g) =
     map (\<lambda>p. ''  Prop ID : '' @ prop_id p) (snd g)"
  by (cases g) (simp add: report_group_lines_def NL_def filter_concat comp_def filter_report_prop_lines
                          map_concat [symmetric])

lemma rule_not_id_line: "c \<noteq> CHR '' '' \<Longrightarrow> replicate 12 c \<noteq> ''  Prop ID : ''"
  by (simp add: numeral_eq_Suc)

text \<open>C10. The printed report names every proposition of the knowledge base exactly
  once, by its full id: the lines that start with \<^verbatim>\<open>"  Prop ID : "\<close>, with that
  prefix removed, are a permutation of the keys.\<close>

theorem report_prints_each_id_once:
  "mset (map (drop 12) (filter (\<lambda>l. take 12 l = ''  Prop ID : '') (report_kb_era kb))) = mset (kb_ids kb)"
proof (cases "kb = []")
  case False
  have "map (drop 12) (filter (\<lambda>l. take 12 l = ''  Prop ID : '') (report_kb_era kb)) =
        map prop_id (concat (map snd (report_groups kb)))"
    using False by (simp add: report_kb_era_def rule70_def NL_def filter_concat comp_def
                              filter_report_group_lines map_concat rule_not_id_line)
  moreover have "mset (concat (map snd (report_groups kb))) = mset kb"
    using report_spec_props [of kb] by (simp add: report_groups_eq)
  ultimately show ?thesis
    by (simp add: kb_ids_def mset_map)
qed (simp add: report_kb_era_def rule70_def NL_def rule_not_id_line)

end
