(* ===== verification/Spec2Isabelle.thy ===== *)
theory Spec2Isabelle
  imports Linker Bias_Detector Confidence Validator Extractor Updater_V2 Utils Explainer Report
begin

text \<open>
  \<^bold>\<open>A verification development of AEE (7ennlabs/AEE), the Era pipeline.\<close>

  \<^bold>\<open>The program.\<close> \<^verbatim>\<open>src/aee_era_main.py\<close> runs a batch pipeline over an in-memory
  knowledge base \<^verbatim>\<open>Dict[str, Proposition]\<close>: propositions extracted from spaCy parses
  (\<^verbatim>\<open>aee_extractor_era.py\<close>) receive a plausibility score
  (\<^verbatim>\<open>aee_validator.py\<close>), are linked one by one against the propositions already
  stored (\<^verbatim>\<open>aee_linker_era.py\<close>), scanned for bias (\<^verbatim>\<open>aee_bias_detector.py\<close>),
  and finally updated (\<^verbatim>\<open>aee_updater_era.py\<close>: source reliability, circular-support
  detection, confidence propagation). Every stage mutates the shared records in place;
  the model passes the knowledge base explicitly and returns the updated one.

  \<^bold>\<open>Theories, in import order.\<close>
  \<^item> \<open>AEE_Prelude\<close>: the Python idioms shared by all components: appending an absent
    element (\<open>list_append_new\<close>), truthiness of optional strings, \<^verbatim>\<open>str.strip\<close>,
    \<^verbatim>\<open>str.lower\<close> (\<open>py_lower\<close>, ASCII), substring test \<^verbatim>\<open>in\<close>
    (\<open>py_in\<close>), dict literals and \<^verbatim>\<open>setdefault\<close> over association lists in
    insertion order, clamping (\<open>py_clamp\<close>) and its monotonicity. Python floats are
    \<open>real\<close> (rounding is not modelled); Python ints are \<open>nat\<close> or \<open>int\<close>.
  \<^item> \<open>Core_Classes\<close>: records \<open>EpistemicData\<close> and \<open>Proposition\<close>
    (\<^verbatim>\<open>aee_core_classes_era.py\<close>) and the knowledge base as the list of its values,
    keyed by \<open>prop_id\<close> (the only insertion in the sources is
    \<^verbatim>\<open>kb[p.prop_id] = p\<close>), with \<open>kb_get\<close> for \<^verbatim>\<open>kb.get\<close> and
    \<open>kb_edges\<close>, the edge frame that the link invariant depends on.
  \<^item> \<open>Lexicon\<close>: the opposites and synonyms tables of the linker module, built exactly
    as the module code builds them (dict literals with duplicate keys, then the
    bidirectional \<^verbatim>\<open>setdefault\<close> loops), computed once in the kernel
    (\<open>code_simp\<close>) and declared as code equations.
  \<^item> \<open>Linker\<close>: \<^verbatim>\<open>find_and_link_evidence_era\<close> as \<open>classify_pair\<close> (the
    rule chain), \<open>link_update\<close> (the idempotent symmetric edge update),
    \<open>link_loop\<close> (the loop over the knowledge base, threading the mutated new
    proposition), \<open>find_and_link_evidence_era\<close> (with its two early returns), and the
    pipeline's link phase \<open>link_phase\<close>. \<open>link_spec\<close> is the abstract, batch
    statement of one call (\<^verbatim>\<open>spec.md\<close> \<section>4.2), \<open>links_wf\<close> the link-graph
    invariant of \<section>3/\<section>8.
  \<^item> \<open>Bias_Detector\<close>: \<^verbatim>\<open>detect_source_diversity_bias\<close> (grouping by subject,
    the high-confidence filter, the source-type buckets),
    \<^verbatim>\<open>detect_argument_balance_bias\<close> and \<^verbatim>\<open>run_bias_detection_v3\<close>;
    \<open>monoculture_spec\<close> states the monoculture rule per proposition.
  \<^item> \<open>Reliability\<close>: \<^verbatim>\<open>calculate_source_reliability_era\<close> and the loop of
    \<^verbatim>\<open>run_updates_era\<close> over the source ids (\<open>reliability_loop\<close>), with the
    order-free \<open>reliability_spec\<close> it refines.
  \<^item> \<open>Cycles\<close>: \<^verbatim>\<open>detect_circular_support_era\<close> and its nested recursive
    \<^verbatim>\<open>dfs\<close>: a record \<open>dfs_state\<close> for the closure variables, the mutual
    recursion \<open>dfs_visit\<close>/\<open>dfs_nbrs\<close> for the recursive call and its loop over
    the supports list, with fuel.
  \<^item> \<open>Confidence\<close>: \<^verbatim>\<open>update_proposition_confidence_era\<close> (neighbour
    averages, bias penalty, plausibility scaling, clamp), the single in-place pass over
    the knowledge base (\<open>confidence_pass\<close>, Python's dict iteration order is the list
    order), and the whole stage \<open>run_updates_era\<close>.
  \<^item> \<open>Validator\<close>: \<^verbatim>\<open>check_plausibility_v_era\<close> and the pipeline's validation
    step \<open>validate_prop\<close>.
  \<^item> \<open>Extractor\<close>: \<^verbatim>\<open>aee_extractor_era.py\<close> over parsed sentences: records
    \<open>Token\<close> and \<open>Sentence\<close> stand for the spaCy objects (lemma, POS tag,
    dependency label, head index); negation search, the linguistic confidence modifier,
    the source-type guess, subject/relation/value extraction, and the loop over the
    sentences of a document, with ids drawn from an explicit supply \<open>fresh\<close>
    (\<^verbatim>\<open>uuid4\<close>).
  \<^item> \<open>Updater_V2\<close>: the legacy updater \<^verbatim>\<open>aee_updater.py\<close> (v2 reliability,
    support and contradiction loops, its own pass), the reference the Era updater
    extends.
  \<^item> \<open>Utils\<close>: \<^verbatim>\<open>get_linked_propositions\<close> of \<^verbatim>\<open>aee_utils.py\<close>.
  \<^item> \<open>Py_Format\<close>: Python's string rendering: \<^verbatim>\<open>str\<close> of a natural number and of
    an optional string, \<^verbatim>\<open>', '.join\<close>, and the fixed-point format
    \<^verbatim>\<open>:.Nf\<close> (\<open>py_fmt_fixed\<close>, rounding half to even on the real value), with
    \<open>read_fixed\<close> reading a rendered number back.
  \<^item> \<open>Explainer\<close>: \<^verbatim>\<open>generate_explanation_era\<close> of
    \<^verbatim>\<open>aee_explainer_era.py\<close> as its list of lines joined by newlines, with the
    not-found error, and \<^verbatim>\<open>Proposition.__str__\<close>.
  \<^item> \<open>Report\<close>: \<^verbatim>\<open>report_kb_era\<close> of \<^verbatim>\<open>aee_era_main.py\<close> as the list of
    printed lines: the stable sort by decreasing confidence (\<open>sort_key\<close>), the
    \<^verbatim>\<open>setdefault\<close> grouping by source and the sorted keys (\<open>List_Lexorder\<close>
    over \<open>Char_ord\<close> is Python's code-point order on strings); \<open>report_spec\<close> is
    its contract.
  \<^item> This theory: \<^verbatim>\<open>run_aee_era_pipeline\<close> as \<open>extract_phase\<close> (phase 1a),
    \<open>pipeline_phases\<close> (validation, linking, bias, update) and
    \<open>run_aee_era_pipeline\<close>; the main script \<open>era_main\<close> (the sample inputs,
    the report and the explanation of every key); the properties that span
    components.

  \<^bold>\<open>What is proved.\<close>
  \<^item> Linker: the link phase preserves \<open>links_wf\<close> (symmetry, no duplicates, no
    self-links, disjoint support/contradiction, edges inside the knowledge base); the loop
    refines \<open>link_spec\<close>, which gives each old proposition the new id by
    \<open>append_links\<close>, independently of the code's \<open>link_update\<close>; each rule behaves
    as the spec's rules 1--4; links only join propositions about one subject; an
    unlinkable proposition changes nothing; the class of a pair whose old proposition
    has no value is given for every new claim.
  \<^item> Bias: the grouped in-place loop equals the per-proposition rule
    \<open>monoculture_spec\<close>; flags stay duplicate-free.
  \<^item> Reliability: order independence of the loop over the source set, scores in
    {0.35, 0.75}.
  \<^item> Cycles: termination with the chosen fuel, every key visited by the outer loop,
    soundness (every new flag lies on a real support cycle, nothing else changes).
  \<^item> Confidence: the stage always returns, keeps ids and edges and bounds every
    confidence in [0.01, 0.99]; monotonicity in supporters and contradictors; on
    link-free knowledge bases the in-place pass equals the snapshot semantics.
  \<^item> Extractor: every extracted proposition is well formed for the rest of the
    pipeline.
  \<^item> Rendering: the report is a permutation of the knowledge base grouped by sorted
    sources, by decreasing confidence with ties in knowledge-base order, and prints
    every id exactly once; the explainer fails exactly on an unknown id, prints the
    proposition's own link lists on a well-formed knowledge base, and loses the labels
    of missing scores; \<open>get_linked_propositions\<close> returns exactly the linked
    propositions in order; a number printed with \<^verbatim>\<open>:.Nf\<close> and read back with
    \<open>read_fixed\<close> is within half a unit of its last place, and exactly itself when
    it has at most N decimals.
  \<^item> Across components: the Era updater extends v2 on its domain; the whole pipeline
    returns a well-formed, bounded knowledge base from any inputs and any parser.

  \<^bold>\<open>Fuel.\<close> The recursive \<^verbatim>\<open>dfs\<close> always terminates in Python because each call
  adds a node to \<^verbatim>\<open>visited\<close> first. The model gives the search
  \<open>Suc (length support_nodes)\<close> units of fuel, where \<open>support_nodes\<close> lists every
  id that occurs in the knowledge base or in a supports list: each nested call consumes
  one unit and visits a new node of that finite set, so the fuel never runs out
  (\<open>dfs_total\<close>), and \<open>detect_circular_support_terminates\<close> proves that the
  detector returns \<open>Some\<close> on every knowledge base. CPython's recursion limit (about
  1000 nested calls, a \<^verbatim>\<open>RecursionError\<close>) is not modelled: the model assumes the
  stack is deep enough for support chains of the knowledge base's length.

  \<^bold>\<open>Findings.\<close> Proved in general: old propositions with a missing value are still
  linked (the spec says they are skipped); the explainer drops the labels of a missing
  reliability or plausibility score, printing a bare \<^verbatim>\<open>N/A\<close>. Shown by lemmas on
  concrete inputs, which are not among the properties: three base pairs of the
  opposites table are lost to duplicate dict keys; the spec's "bigger"/"smaller"
  relational example is never linked; the cycle detector stops at the first back edge
  and misses later cycles; the in-place confidence pass depends on the iteration order;
  mutual support between corroborating claims triggers the circular-support penalty, so
  in the example run a corroborated claim ends lower than alone; the extractor ignores
  the source type given with an input.

  \<^bold>\<open>Not modelled.\<close> spaCy itself (\<^verbatim>\<open>process_with_spacy\<close>): the parser is a
  parameter of the pipeline, and the extractor works on its output as a list of
  sentences. The \<^verbatim>\<open>timestamp\<close> and
  \<^verbatim>\<open>other_metadata\<close> fields are read only by rendering; the explainer's
  \<^verbatim>\<open>strftime\<close> text of the timestamp is a parameter. Floats are reals, so the
  rendering of a value that is not a binary float may differ at an exact rounding tie.
  The timing prints of the driver, the closing banner of its \<^verbatim>\<open>__main__\<close>
  block and the \<^verbatim>\<open>__main__\<close> test blocks of the other modules only print
  fixed text or time stamps and are not modelled. \<^verbatim>\<open>aee_updater.py\<close> imports a
  \<^verbatim>\<open>aee_core_classes\<close> module that is not in the repository; its v2 model runs on
  the Era records, whose fields it reads are the ones the v2 code uses.
\<close>

section \<open>The pipeline\<close>

text \<open>Phase 1a of \<^verbatim>\<open>run_aee_era_pipeline\<close> (\<^verbatim>\<open>src/aee_era_main.py\<close> lines
  70--82), the extraction part: for each input with a non-empty text, the text is
  parsed (\<open>parse\<close> stands for \<^verbatim>\<open>process_with_spacy\<close>, \<open>None\<close> its failure) and
  the propositions extracted from it are collected; a missing source id is the
  time-stamped default \<open>dflt\<close>. Ids are drawn from one global supply.\<close>

fun extract_phase :: "(string \<Rightarrow> Sentence list option) \<Rightarrow> (nat \<Rightarrow> prop_id) \<Rightarrow> string \<Rightarrow>
    (string option \<times> string) list \<Rightarrow> Proposition list \<Rightarrow> Proposition list" where
  "extract_phase parse fresh dflt [] acc = acc"
| "extract_phase parse fresh dflt (item # items) acc =
     (let sid = (case fst item of None \<Rightarrow> dflt | Some s \<Rightarrow> s); text = snd item in
      if text = [] then extract_phase parse fresh dflt items acc
      else (case parse text of
              None \<Rightarrow> extract_phase parse fresh dflt items acc
            | Some doc \<Rightarrow> extract_phase parse fresh dflt items
                            (acc @ extract_propositions_era fresh (length acc) doc sid)))"

text \<open>The remaining phases from the extracted propositions on: each is validated
  (lines 77--82), phase 1b links them into an empty knowledge base (lines 86--92),
  phase 1.5 runs the bias detector on a non-empty knowledge base (line 97), phase 2
  runs the updater (line 103).\<close>

definition pipeline_phases :: "Proposition list \<Rightarrow> kb option" where
  "pipeline_phases extracted =
     (let props = map validate_prop extracted;
          kb = link_phase [] props;
          kb' = (if kb \<noteq> [] then run_bias_detection_v3 kb else kb)
      in run_updates_era kb')"

text \<open>Lines 56--108: without a loaded spaCy model the pipeline returns the empty
  knowledge base (line 61).\<close>

definition run_aee_era_pipeline :: "(string \<Rightarrow> Sentence list option) option \<Rightarrow> (nat \<Rightarrow> prop_id) \<Rightarrow> string \<Rightarrow>
    (string option \<times> string) list \<Rightarrow> kb option" where
  "run_aee_era_pipeline nlp fresh dflt inputs =
     (case nlp of None \<Rightarrow> Some [] | Some parse \<Rightarrow> pipeline_phases (extract_phase parse fresh dflt inputs []))"

section \<open>The main script\<close>

text \<open>Lines 113--141: the sample inputs of the \<^verbatim>\<open>__main__\<close> block, as
  (\<^verbatim>\<open>source_id\<close>, \<^verbatim>\<open>source_type\<close>, \<^verbatim>\<open>text\<close>). The last text is two
  adjacent string literals, which Python concatenates without a space.\<close>

definition sample_inputs_era_final :: "(string \<times> string \<times> string) list" where
  "sample_inputs_era_final =
     [(''fact_sheet_1'', ''fact'', ''Water is H2O. The sun is hot. Ice is cold.''),
      (''opinion_blog_A'', ''blog'', ''Maybe the new policy is good. It could improve things. Perhaps.''),
      (''opinion_blog_B'', ''blog'',
        ''The new policy is definitely bad! It will undoubtedly harm the economy. It is not good.''),
      (''report_X'', ''report'', ''System Alpha is bigger than System Beta. System Beta is not small compared to Alpha.''),
      (''another_report'', ''report'', ''System Alpha is large.''),
      (''conspiracy_theory.blog'', ''blog'',
        ''The moon landing was faked because the photos look wrong. The photos look wrong because the shadows are incorrect. The shadows are incorrect because the landing was faked.'' @
        ''Also, the moon is made of cheese.'')]"

text \<open>What the pipeline reads of an input dict: \<^verbatim>\<open>item.get("source_id")\<close> and
  \<^verbatim>\<open>item.get("text")\<close> (line 71); the \<^verbatim>\<open>source_type\<close> key is never read.\<close>

definition pipeline_input :: "string \<times> string \<times> string \<Rightarrow> string option \<times> string" where
  "pipeline_input item = (case item of (sid, st, text) \<Rightarrow> (Some sid, text))"

text \<open>Lines 150--159: the explanation of every key of the final knowledge base, each
  followed by a rule of 40 dashes; \<open>ts\<close> renders a proposition's timestamp.\<close>

definition explanation_section :: "(prop_id \<Rightarrow> string) \<Rightarrow> kb \<Rightarrow> string list" where
  "explanation_section ts kb =
     [NL @ replicate 70 (CHR ''#''), '' AEE Era Version - Generating Explanations'', replicate 70 (CHR ''#'')] @
     (if kb = [] then [''Knowledge Base is empty or Explainer not available.'']
      else (NL @ ''Generating explanations for all '' @ string_of_nat (length (kb_ids kb)) @ '' propositions...'' @ NL) #
           concat (map (\<lambda>pid. [generate_explanation_era (ts pid) pid kb, replicate 40 (CHR ''-'')]) (kb_ids kb))) @
     [NL @ replicate 70 (CHR ''#''), '' Explanation generation step complete.'', replicate 70 (CHR ''#'')]"

text \<open>Lines 143--159: run the pipeline on the sample inputs, print the report and
  the explanations; \<open>None\<close> is the pipeline's own \<open>None\<close>.\<close>

definition era_main :: "(string \<Rightarrow> Sentence list option) option \<Rightarrow> (nat \<Rightarrow> prop_id) \<Rightarrow> string \<Rightarrow>
    (prop_id \<Rightarrow> string) \<Rightarrow> string list option" where
  "era_main nlp fresh dflt ts =
     map_option (\<lambda>kb. report_kb_era kb @ explanation_section ts kb)
       (run_aee_era_pipeline nlp fresh dflt (map pipeline_input sample_inputs_era_final))"

section \<open>Properties that span the components\<close>

lemma links_wf_empty: "links_wf []"
  by (simp add: links_wf_def kb_distinct_def)

lemma pipeline_phases_wf:
  "list_all (\<lambda>p. ed_supports p = [] \<and> ed_contradicts p = []) extracted \<Longrightarrow>
     \<exists>kb. pipeline_phases extracted = Some kb \<and> links_wf kb \<and>
          list_all (\<lambda>p. MIN_CONFIDENCE \<le> ed_conf p \<and> ed_conf p \<le> MAX_CONFIDENCE) kb"
proof -
  assume e: "list_all (\<lambda>p. ed_supports p = [] \<and> ed_contradicts p = []) extracted"
  let ?kb = "link_phase [] (map validate_prop extracted)"
  let ?kb' = "if ?kb \<noteq> [] then run_bias_detection_v3 ?kb else ?kb"
  have "links_wf ?kb"
    using e by (intro link_phase_wf links_wf_empty) (auto simp: list_all_iff)
  moreover have "kb_edges ?kb' = kb_edges ?kb" by simp
  ultimately have w: "links_wf ?kb'" using links_wf_same_edges by metis
  then have "kb_distinct ?kb'" by (simp add: links_wf_def)
  then obtain kb'' where "run_updates_era ?kb' = Some kb''" "kb_edges kb'' = kb_edges ?kb'"
    "list_all (\<lambda>p. MIN_CONFIDENCE \<le> ed_conf p \<and> ed_conf p \<le> MAX_CONFIDENCE) kb''"
    using run_updates_era_ok [of ?kb'] by blast
  moreover have "links_wf kb''" using calculation(2) w links_wf_same_edges by metis
  ultimately show ?thesis by (auto simp: pipeline_phases_def Let_def)
qed

text \<open>C26. End to end: for extracted propositions with empty edge lists (the
  extractor's output contract), the pipeline returns a knowledge base whose link graph
  is well formed (symmetric, duplicate-free, no self-links, disjoint, inside the
  knowledge base) and whose computed confidences all lie in [0.01, 0.99]. Validation,
  bias detection and the updater never touch an edge list.\<close>

theorem pipeline_links_wf_bounded:
  "list_all (\<lambda>p. ed_supports p = [] \<and> ed_contradicts p = []) extracted \<Longrightarrow>
     \<exists>kb. pipeline_phases extracted = Some kb \<and> links_wf kb \<and>
          list_all (\<lambda>p. MIN_CONFIDENCE \<le> ed_conf p \<and> ed_conf p \<le> MAX_CONFIDENCE) kb"
  by (rule pipeline_phases_wf)

theorem pipeline_links_wf_bounded_witness:
  "list_all (\<lambda>p. ed_supports p = [] \<and> ed_contradicts p = [])
     [ex_prop ''p1'' ''sky'' ''be'' ''blue'' False, ex_prop ''p2'' ''sky'' ''be'' ''blue'' True] \<and>
   (\<exists>kb. pipeline_phases [ex_prop ''p1'' ''sky'' ''be'' ''blue'' False, ex_prop ''p2'' ''sky'' ''be'' ''blue'' True] = Some kb \<and>
         links_wf kb \<and> list_all (\<lambda>p. MIN_CONFIDENCE \<le> ed_conf p \<and> ed_conf p \<le> MAX_CONFIDENCE) kb)"
proof -
  have h: "list_all (\<lambda>p. ed_supports p = [] \<and> ed_contradicts p = [])
     [ex_prop ''p1'' ''sky'' ''be'' ''blue'' False, ex_prop ''p2'' ''sky'' ''be'' ''blue'' True]"
    by (simp add: make_proposition_def make_epistemic_data_def)
  show ?thesis using pipeline_links_wf_bounded [OF h] h by blast
qed

text \<open>Corroboration is penalised. The linker records support in both directions,
  so two propositions that support each other form a two-node cycle of the support
  graph and the cycle detector flags both \<^verbatim>\<open>CIRCULAR_SUPPORT\<close>. Through the whole
  pipeline, a claim "d is large" from one source ends at confidence 0.35 alone, but at
  about 0.28 when the same source also says "d is big".\<close>

theorem pipeline_corroboration_penalised:
  "map_option (map (\<lambda>p. (prop_id p, ed_conf p, ed_flags p)))
     (pipeline_phases [ex_prop ''p1'' ''d'' ''be'' ''large'' False, ex_prop ''p2'' ''d'' ''be'' ''big'' False]) =
     Some [(''p1'', 447 / 1600, [''CIRCULAR_SUPPORT'']), (''p2'', 348069 / 1280000, [''CIRCULAR_SUPPORT''])] \<and>
   map_option (map (\<lambda>p. (prop_id p, ed_conf p, ed_flags p)))
     (pipeline_phases [ex_prop ''p1'' ''d'' ''be'' ''large'' False]) =
     Some [(''p1'', 7 / 20, [])]"
  by code_simp

lemma extract_phase_fresh_edges:
  "list_all (\<lambda>p. ed_supports p = [] \<and> ed_contradicts p = []) acc \<Longrightarrow>
     list_all (\<lambda>p. ed_supports p = [] \<and> ed_contradicts p = []) (extract_phase parse fresh dflt items acc)"
proof (induction items arbitrary: acc)
  case (Cons item items)
  have "list_all (extracted_ok sid) (extract_propositions_era fresh n doc sid)" for n doc sid
    by (simp add: extract_propositions_era_def extract_loop_ok)
  then have "list_all (\<lambda>p. ed_supports p = [] \<and> ed_contradicts p = []) (extract_propositions_era fresh n doc sid)"
    for n doc sid by (rule list.pred_mono_strong) (simp add: extracted_ok_def)
  then show ?case using Cons by (auto simp: Let_def split: option.split)
qed simp

text \<open>C31. The whole pipeline, from raw inputs and any parser, returns a knowledge
  base with a well-formed link graph and every computed confidence in [0.01, 0.99];
  nothing is assumed of the inputs, since the extractor only creates propositions
  with empty edge lists.\<close>

theorem run_aee_era_pipeline_wf:
  "\<exists>kb. run_aee_era_pipeline nlp fresh dflt inputs = Some kb \<and> links_wf kb \<and>
        list_all (\<lambda>p. MIN_CONFIDENCE \<le> ed_conf p \<and> ed_conf p \<le> MAX_CONFIDENCE) kb"
proof (cases nlp)
  case None
  then show ?thesis by (simp add: run_aee_era_pipeline_def links_wf_empty)
next
  case (Some parse)
  have "list_all (\<lambda>p. ed_supports p = [] \<and> ed_contradicts p = []) (extract_phase parse fresh dflt inputs [])"
    by (rule extract_phase_fresh_edges) simp
  then show ?thesis using pipeline_phases_wf Some by (simp add: run_aee_era_pipeline_def)
qed

text \<open>The extractor ignores the \<^verbatim>\<open>source_type\<close> given with each input and
  guesses the type from the source id: the sample inputs of the main script declare
  the types fact, blog and report, but every one of their source ids is guessed to have
  no type at all, so the source-diversity check puts fact sheets, blogs and reports into
  one "unknown" bucket.\<close>

theorem sample_sources_untyped:
  "map (\<lambda>(sid, st, text). st) sample_inputs_era_final = [''fact'', ''blog'', ''blog'', ''report'', ''report'', ''blog''] \<and>
   map (\<lambda>(sid, st, text). guess_source_type sid) sample_inputs_era_final = replicate 6 None"
  by code_simp

end
